(* ===== verification/Prelude.thy ===== *)
theory Prelude
  imports Main "HOL-Library.Word" "HOL-Library.Char_ord" "HOL-Library.List_Lexorder"
    "HOL-Library.Sublist"
begin

text \<open>
  Shared vocabulary of the development: the types of bytes, byte strings and
  file-system paths, the little-endian \<open>u32\<close> encoding that the \<open>byteorder\<close>
  crate's \<open>write_u32::<LittleEndian>\<close> produces, Rust's \<open>str::starts_with\<close> and
  \<open>Path::ends_with\<close>, and two combinators for loops that stop at the first error
  (Rust's \<open>?\<close> and \<open>expect\<close> inside a \<open>for\<close> loop).  Strings are ordered
  lexicographically by byte (\<open>Char_ord\<close>, \<open>List_Lexorder\<close>), as Rust orders
  \<open>String\<close> keys of a \<open>BTreeMap\<close>.
\<close>

unbundle bit_operations_syntax

named_theorems blob_simps "facts that evaluate the blob encoder on concrete entries"
named_theorems model_simps "equations that evaluate the packaging model on concrete inputs"

type_synonym byte = "8 word"
type_synonym bytes = "byte list"

text \<open>A path is the list of its components, so that \<open>Path::join\<close> is append and
  \<open>Path::ends_with\<close> compares whole components, as Rust's \<open>Path\<close> does.\<close>

type_synonym path = "string list"

subsection \<open>Strings as UTF-8 bytes\<close>

text \<open>\<open>String::as_bytes\<close>: an Isabelle \<open>char\<close> is one byte, so a string is its
  byte sequence.\<close>

definition str_bytes :: "string \<Rightarrow> bytes" where
  "str_bytes s = map (\<lambda>c. word_of_nat (of_char c)) s"

definition bytes_str :: "bytes \<Rightarrow> string" where
  "bytes_str bs = map (\<lambda>b. char_of (unat b)) bs"

lemma bytes_str_str_bytes [simp]: "bytes_str (str_bytes s) = s"
  by (induction s) (simp_all add: str_bytes_def bytes_str_def unsigned_of_nat take_bit_eq_mod)

lemma length_str_bytes [simp]: "length (str_bytes s) = length s"
  by (simp add: str_bytes_def)

lemma bytes_str_newline: "bytes_str (0x0A # bs) = CHR 0x0A # bytes_str bs"
  using bytes_str_str_bytes [of "[CHR 0x0A]"] by (simp add: str_bytes_def bytes_str_def)

lemma str_bytes_Nil [simp]: "str_bytes [] = []"
  by (simp add: str_bytes_def)

lemma str_bytes_append [simp]: "str_bytes (s @ t) = str_bytes s @ str_bytes t"
  by (simp add: str_bytes_def)

subsection \<open>Little-endian u32\<close>

definition le32 :: "32 word \<Rightarrow> bytes" where
  "le32 w = [ucast w, ucast (drop_bit 8 w), ucast (drop_bit 16 w), ucast (drop_bit 24 w)]"

definition dec_le32 :: "bytes \<Rightarrow> 32 word" where
  "dec_le32 bs = ucast (bs ! 0) OR push_bit 8 (ucast (bs ! 1)) OR push_bit 16 (ucast (bs ! 2))
     OR push_bit 24 (ucast (bs ! 3))"

text \<open>\<open>x as u32\<close> on a \<open>usize\<close> keeps the low 32 bits.\<close>

definition as_u32 :: "nat \<Rightarrow> 32 word" where
  "as_u32 n = word_of_nat n"

lemma length_le32 [simp]: "length (le32 w) = 4"
  by (simp add: le32_def)

lemma dec_le32_le32 [simp]: "dec_le32 (le32 w) = w"
proof (rule bit_word_eqI)
  fix n assume "n < LENGTH(32)"
  then show "bit (dec_le32 (le32 w)) n = bit w n"
    unfolding dec_le32_def le32_def
    by (cases "n < 8"; cases "n < 16"; cases "n < 24") (auto simp: bit_simps)
qed

lemma dec_le32_append [simp]: "length bs = 4 \<Longrightarrow> dec_le32 (bs @ rest) = dec_le32 bs"
  by (simp add: dec_le32_def nth_append)

lemma unat_as_u32: "n < 2 ^ 32 \<Longrightarrow> unat (as_u32 n) = n"
  by (simp add: as_u32_def unsigned_of_nat take_bit_nat_eq_self)

lemma as_u32_wraps: "as_u32 (n + 2 ^ 32) = as_u32 n"
  by (simp add: as_u32_def)

subsection \<open>Prefixes and suffixes\<close>

text \<open>\<open>str::starts_with\<close>: a byte-wise prefix test.\<close>

fun starts_with :: "'a list \<Rightarrow> 'a list \<Rightarrow> bool" where
  "starts_with s [] = True"
| "starts_with [] (p # ps) = False"
| "starts_with (c # cs) (p # ps) = (c = p \<and> starts_with cs ps)"

lemma starts_with_prefix: "starts_with s p \<longleftrightarrow> prefix p s"
  by (induction s p rule: starts_with.induct) auto

lemma starts_with_append [simp]: "starts_with (p @ s) p"
  by (simp add: starts_with_prefix)

text \<open>\<open>Path::ends_with\<close>: the path ends with the given components.\<close>

definition path_ends_with :: "path \<Rightarrow> path \<Rightarrow> bool" where
  "path_ends_with p q = starts_with (rev p) (rev q)"

lemma path_ends_with_suffix: "path_ends_with p q \<longleftrightarrow> suffix q p"
  by (simp add: path_ends_with_def starts_with_prefix suffix_to_prefix)

subsection \<open>Lines\<close>

text \<open>\<open>BufRead::lines\<close> and \<open>str::lines\<close>: split at newline bytes (the
  reversed current line is the accumulator); a line ended by a newline loses a
  trailing carriage return; an empty last segment is no line.\<close>

fun split_lines :: "string \<Rightarrow> string \<Rightarrow> string list" where
  "split_lines [] cur = (if cur = [] then [] else [rev cur])"
| "split_lines (c # cs) cur =
     (if c = CHR 0x0A
      then rev (if cur \<noteq> [] \<and> hd cur = CHR 0x0D then tl cur else cur) # split_lines cs []
      else split_lines cs (c # cur))"

text \<open>\<open>[String]::join(sep)\<close>.\<close>

fun join_with :: "'a list \<Rightarrow> 'a list list \<Rightarrow> 'a list" where
  "join_with sep [] = []"
| "join_with sep [x] = x"
| "join_with sep (x # y # zs) = x @ sep @ join_with sep (y # zs)"

text \<open>\<open>Path::display\<close>.\<close>

definition display_path :: "path \<Rightarrow> string" where
  "display_path p =
     (case p of c # cs \<Rightarrow> if c = ''/'' then ''/'' @ join_with ''/'' cs else join_with ''/'' p
      | [] \<Rightarrow> [])"

text \<open>A line of text: neither a newline nor a carriage return in it.\<close>

definition plain_line :: "string \<Rightarrow> bool" where
  "plain_line l \<longleftrightarrow> CHR 0x0A \<notin> set l \<and> CHR 0x0D \<notin> set l"

lemma split_lines_line:
  "plain_line (rev acc @ l) \<Longrightarrow>
     split_lines (l @ CHR 0x0A # rest) acc = (rev acc @ l) # split_lines rest []"
proof (induction l arbitrary: acc)
  case Nil
  then show ?case by (cases acc) (auto simp: plain_line_def)
next
  case (Cons c l)
  then have "c \<noteq> CHR 0x0A" and "plain_line (rev (c # acc) @ l)" by (auto simp: plain_line_def)
  with Cons.IH show ?case by simp
qed

lemma split_lines_last:
  "plain_line (rev acc @ l) \<Longrightarrow> rev acc @ l \<noteq> [] \<Longrightarrow> split_lines l acc = [rev acc @ l]"
proof (induction l arbitrary: acc)
  case (Cons c l)
  then have "c \<noteq> CHR 0x0A" and "plain_line (rev (c # acc) @ l)" by (auto simp: plain_line_def)
  with Cons.IH show ?case by simp
qed simp

text \<open>Joining plain lines with newlines and splitting the text again gives the
  lines back, when the last one is not empty.\<close>

lemma split_join_lines:
  "\<forall>l \<in> set ls. plain_line l \<Longrightarrow> ls \<noteq> [] \<Longrightarrow> last ls \<noteq> [] \<Longrightarrow>
     split_lines (join_with [CHR 0x0A] ls) [] = ls"
proof (induction "[CHR 0x0A]" ls rule: join_with.induct)
  case (2 x)
  then show ?case using split_lines_last [of "[]" x] by simp
next
  case (3 x y zs)
  then show ?case using split_lines_line [of "[]" x] by simp
qed simp

subsection \<open>Searching strings\<close>

text \<open>\<open>str::contains\<close> for a string pattern.\<close>

fun str_contains :: "string \<Rightarrow> string \<Rightarrow> bool" where
  "str_contains pat [] = (pat = [])"
| "str_contains pat (c # cs) = (starts_with (c # cs) pat \<or> str_contains pat cs)"

text \<open>\<open>str::find\<close> for a character: the index of its first occurrence.\<close>

fun find_char :: "char \<Rightarrow> string \<Rightarrow> nat option" where
  "find_char c [] = None"
| "find_char c (x # xs) = (if x = c then Some 0 else map_option Suc (find_char c xs))"

text \<open>Splitting at a separator character, keeping empty pieces (the first step
  of \<open>Path::components\<close> on a \<open>/\<close>-separated string).\<close>

fun split_on :: "char \<Rightarrow> string \<Rightarrow> string \<Rightarrow> string list" where
  "split_on c [] cur = [rev cur]"
| "split_on c (x # xs) cur = (if x = c then rev cur # split_on c xs [] else split_on c xs (x # cur))"

text \<open>\<open>PathBuf::from(s)\<close> as components: a leading \<open>/\<close> is the root, empty
  pieces and \<open>.\<close> pieces are dropped except a leading \<open>.\<close>.\<close>

definition path_of_str :: "string \<Rightarrow> path" where
  "path_of_str s =
     (if s \<noteq> [] \<and> hd s = CHR ''/'' then [''/''] @ filter (\<lambda>c. c \<noteq> [] \<and> c \<noteq> ''.'') (split_on CHR ''/'' s [])
      else (case split_on CHR ''/'' s [] of
              c # cs \<Rightarrow> (if c = ''.'' then [''.''] else []) @ filter (\<lambda>c. c \<noteq> [] \<and> c \<noteq> ''.'') (c # cs)
            | [] \<Rightarrow> []))"

subsection \<open>UTF-8\<close>

text \<open>\<open>String::from_utf8\<close> accepts exactly the well-formed UTF-8 byte
  sequences of the Unicode standard (Table 3-7): a continuation byte is
  \<open>80..BF\<close>; \<open>E0\<close>, \<open>ED\<close>, \<open>F0\<close> and \<open>F4\<close> narrow the range of the second
  byte, excluding overlong forms, surrogates and code points above
  \<open>10FFFF\<close>.  A Rust \<open>String\<close> is its UTF-8 bytes, and is modelled as the
  character list of those bytes.\<close>

definition utf8_cont :: "byte \<Rightarrow> bool" where
  "utf8_cont b \<longleftrightarrow> 0x80 \<le> b \<and> b \<le> 0xBF"

fun valid_utf8 :: "bytes \<Rightarrow> bool" where
  "valid_utf8 [] = True"
| "valid_utf8 (b # bs) =
     (if b < 0x80 then valid_utf8 bs
      else if b < 0xC2 then False
      else if b < 0xE0 then
        (case bs of c # r \<Rightarrow> utf8_cont c \<and> valid_utf8 r | [] \<Rightarrow> False)
      else if b < 0xF0 then
        (case bs of c # d # r \<Rightarrow>
           (if b = 0xE0 then 0xA0 \<le> c \<and> c \<le> 0xBF
            else if b = 0xED then 0x80 \<le> c \<and> c \<le> 0x9F else utf8_cont c)
           \<and> utf8_cont d \<and> valid_utf8 r
         | _ \<Rightarrow> False)
      else if b < 0xF5 then
        (case bs of c # d # e # r \<Rightarrow>
           (if b = 0xF0 then 0x90 \<le> c \<and> c \<le> 0xBF
            else if b = 0xF4 then 0x80 \<le> c \<and> c \<le> 0x8F else utf8_cont c)
           \<and> utf8_cont d \<and> utf8_cont e \<and> valid_utf8 r
         | _ \<Rightarrow> False)
      else False)"

lemma str_contains_self_append: "str_contains pat (pat @ b)"
  by (cases pat; cases b) (auto simp: starts_with_prefix)

lemma str_contains_append_left: "str_contains pat ys \<Longrightarrow> str_contains pat (xs @ ys)"
  by (induction xs) auto

lemma str_contains_infix: "str_contains pat (a @ pat @ b)"
  by (rule str_contains_append_left) (rule str_contains_self_append)

lemma join_with_mem: "x \<in> set ks \<Longrightarrow> \<exists>a b. join_with sep ks = a @ x @ b"
proof (induction sep ks rule: join_with.induct)
  case (2 sep x')
  then show ?case by (intro exI [of _ "[]"]) simp
next
  case (3 sep x' y zs)
  show ?case
  proof (cases "x = x'")
    case True
    then show ?thesis by auto
  next
    case False
    with "3.prems" obtain a b where "join_with sep (y # zs) = a @ x @ b" using "3.IH" by auto
    then show ?thesis by (intro exI [of _ "x' @ sep @ a"] exI [of _ b]) simp
  qed
qed simp

lemma find_char_None: "find_char c s = None \<longleftrightarrow> c \<notin> set s"
  by (induction s) auto

lemma find_char_Some: "find_char c s = Some i \<Longrightarrow> s = take i s @ c # drop (Suc i) s \<and> c \<notin> set (take i s)"
proof (induction s arbitrary: i)
  case (Cons x xs)
  then show ?case by (cases "x = c") (auto split: if_splits)
qed simp

lemma find_char_prefix: "c \<notin> set a \<Longrightarrow> find_char c (a @ c # b) = Some (length a)"
  by (induction a) auto

lemma split_lines_terminated:
  "\<forall>l \<in> set ls. plain_line l \<Longrightarrow> split_lines (concat (map (\<lambda>l. l @ [CHR 0x0A]) ls)) [] = ls"
proof (induction ls)
  case (Cons l ls)
  then show ?case using split_lines_line [of "[]" l] by simp
qed simp

lemma valid_utf8_ascii: "\<forall>b \<in> set bs. b < 0x80 \<Longrightarrow> valid_utf8 bs"
  by (induction bs) auto

lemma valid_utf8_ascii_append:
  "\<forall>c \<in> set s. of_char c < (128::nat) \<Longrightarrow> valid_utf8 (str_bytes s @ rest) = valid_utf8 rest"
  by (induction s) (simp_all add: str_bytes_def word_less_nat_alt unat_of_nat)

lemma valid_utf8_str_bytes_Cons:
  "of_char c < (128::nat) \<Longrightarrow> valid_utf8 (str_bytes (c # s)) = valid_utf8 (str_bytes s)"
  using valid_utf8_ascii_append [of "[c]" "str_bytes s"] by (simp add: str_bytes_def)

lemma valid_utf8_append: "valid_utf8 a \<Longrightarrow> valid_utf8 (a @ b) = valid_utf8 b"
proof (induction a rule: valid_utf8.induct)
  case (2 x bs)
  consider (one) "x < 0x80" | (two) "\<not> x < 0x80" "\<not> x < 0xC2" "x < 0xE0"
    | (three) "\<not> x < 0x80" "\<not> x < 0xC2" "\<not> x < 0xE0" "x < 0xF0"
    | (four) "\<not> x < 0x80" "\<not> x < 0xC2" "\<not> x < 0xE0" "\<not> x < 0xF0" "x < 0xF5"
    | (low) "\<not> x < 0x80" "x < 0xC2"
    | (high) "\<not> x < 0x80" "\<not> x < 0xC2" "\<not> x < 0xE0" "\<not> x < 0xF0" "\<not> x < 0xF5"
    by blast
  then show ?case
  proof cases
    case one
    with 2 show ?thesis by simp
  next
    case two
    then obtain c r where "bs = c # r" using "2.prems" by (cases bs) simp_all
    with 2 two show ?thesis by simp
  next
    case three
    then obtain c d r where "bs = c # d # r" using "2.prems" by (simp split: list.splits)
    with 2 three show ?thesis by simp
  next
    case four
    then obtain c d e r where "bs = c # d # e # r" using "2.prems" by (simp split: list.splits)
    with 2 four show ?thesis by simp
  next
    case low
    with "2.prems" show ?thesis by simp
  next
    case high
    with "2.prems" show ?thesis by simp
  qed
qed simp

lemma valid_utf8_lines:
  "\<forall>l \<in> set ls. valid_utf8 (str_bytes l) \<Longrightarrow> valid_utf8 (str_bytes (concat (map (\<lambda>l. l @ [CHR 0x0A]) ls)))"
  by (induction ls) (simp_all add: valid_utf8_append str_bytes_def)

subsection \<open>Loops that stop at the first error\<close>

text \<open>A \<open>for\<close> loop that pushes the results of a fallible body onto a vector,
  returning the first error: the body runs on the elements in order and the
  loop stops at the first failure.\<close>

fun concat_map_e :: "('a \<Rightarrow> 'e + 'b list) \<Rightarrow> 'a list \<Rightarrow> 'e + 'b list" where
  "concat_map_e f [] = Inr []"
| "concat_map_e f (x # xs) =
     (case f x of
        Inl e \<Rightarrow> Inl e
      | Inr ys \<Rightarrow> (case concat_map_e f xs of Inl e \<Rightarrow> Inl e | Inr zs \<Rightarrow> Inr (ys @ zs)))"

text \<open>A \<open>for\<close> loop that threads a state through a fallible body.\<close>

fun fold_e :: "('a \<Rightarrow> 's \<Rightarrow> 'e + 's) \<Rightarrow> 'a list \<Rightarrow> 's \<Rightarrow> 'e + 's" where
  "fold_e f [] s = Inr s"
| "fold_e f (x # xs) s = (case f x s of Inl e \<Rightarrow> Inl e | Inr s' \<Rightarrow> fold_e f xs s')"

lemma concat_map_e_total:
  "(\<And>x. x \<in> set xs \<Longrightarrow> f x = Inr (g x)) \<Longrightarrow> concat_map_e f xs = Inr (concat (map g xs))"
  by (induction xs) auto

lemma concat_map_e_Inr_set:
  "concat_map_e f xs = Inr ys \<Longrightarrow> y \<in> set ys \<Longrightarrow>
     \<exists>x \<in> set xs. \<exists>zs. f x = Inr zs \<and> y \<in> set zs"
proof (induction xs arbitrary: ys)
  case (Cons x xs)
  then obtain zs ws where "f x = Inr zs" "concat_map_e f xs = Inr ws" "ys = zs @ ws"
    by (auto split: sum.splits)
  with Cons show ?case by auto
qed simp

lemma concat_map_e_Inr_iff:
  "(\<exists>ys. concat_map_e f xs = Inr ys) \<longleftrightarrow> (\<forall>x \<in> set xs. \<exists>zs. f x = Inr zs)"
  by (induction xs) (auto split: sum.splits)

lemma concat_map_e_Inr_concat:
  "concat_map_e f xs = Inr ys \<Longrightarrow> ys = concat (map (\<lambda>x. projr (f x)) xs) \<and> (\<forall>x \<in> set xs. \<not> isl (f x))"
  by (induction xs arbitrary: ys) (auto split: sum.splits)

lemma concat_map_e_append:
  "concat_map_e f (xs @ ys) =
     (case concat_map_e f xs of Inl e \<Rightarrow> Inl e
      | Inr as \<Rightarrow> (case concat_map_e f ys of Inl e \<Rightarrow> Inl e | Inr bs \<Rightarrow> Inr (as @ bs)))"
  by (induction xs) (auto split: sum.splits)

lemma fold_e_total:
  "(\<And>x s. x \<in> set xs \<Longrightarrow> f x s = Inr (g x s)) \<Longrightarrow> fold_e f xs s = Inr (fold g xs s)"
  by (induction xs arbitrary: s) auto

lemma fold_e_append:
  "fold_e f (xs @ ys) s = (case fold_e f xs s of Inl e \<Rightarrow> Inl e | Inr s' \<Rightarrow> fold_e f ys s')"
  by (induction xs arbitrary: s) (auto split: sum.splits)

lemma fold_e_Inr_iff:
  assumes "\<And>x s. x \<in> set xs \<Longrightarrow> (\<exists>r. f x s = Inr r) \<longleftrightarrow> P x"
  shows "(\<exists>r. fold_e f xs s = Inr r) \<longleftrightarrow> (\<forall>x \<in> set xs. P x)"
  using assms
proof (induction xs arbitrary: s)
  case (Cons x xs)
  show ?case
  proof (cases "f x s")
    case (Inl e)
    with Cons.prems [of x s] show ?thesis by auto
  next
    case (Inr t)
    with Cons.prems [of x s] Cons.IH [of t] Cons.prems show ?thesis by auto
  qed
qed simp

lemma fold_e_invariant:
  "fold_e f xs s = Inr s' \<Longrightarrow> P s \<Longrightarrow> (\<And>x t t'. x \<in> set xs \<Longrightarrow> P t \<Longrightarrow> f x t = Inr t' \<Longrightarrow> P t')
     \<Longrightarrow> P s'"
proof (induction xs arbitrary: s)
  case (Cons x xs)
  then obtain t where "f x s = Inr t" "fold_e f xs t = Inr s'"
    by (auto split: sum.splits)
  with Cons show ?case by (metis list.set_intros)
qed simp

subsection \<open>Chunks of a concatenation\<close>

text \<open>Random access into a list of consecutive chunks: the \<open>i\<close>-th chunk starts
  after the lengths of the chunks before it.\<close>

lemma concat_chunk_at:
  "i < length xss \<Longrightarrow> take (length (xss ! i)) (drop (sum_list (map length (take i xss))) (concat xss)) = xss ! i"
proof (induction xss arbitrary: i)
  case (Cons xs xss)
  then show ?case by (cases i) simp_all
qed simp

lemma take_drop_between:
  "k + n \<le> length xs \<Longrightarrow> take n (drop (length p + k) (p @ xs @ ys)) = take n (drop k xs)"
  by simp

lemma sum_list_take_const:
  "\<forall>x \<in> set xs. f x = c \<Longrightarrow> sum_list (map f (take i xs)) = c * min i (length xs)"
proof (induction xs arbitrary: i)
  case (Cons x xs)
  then show ?case by (cases i) simp_all
qed simp

lemma sum_list_take_le:
  "sum_list (map f (take i xs)) + f (xs ! i) \<le> sum_list (map (f :: _ \<Rightarrow> nat) xs)" if "i < length xs"
  using that
proof (induction xs arbitrary: i)
  case (Cons x xs)
  then show ?case by (cases i) auto
qed simp

lemma unat_as_u32_mod: "unat (as_u32 n) = n mod 2 ^ 32"
  by (simp add: as_u32_def unat_of_nat)

end
