(* ===== verification/Blob.thy ===== *)
theory Blob
  imports Prelude
begin

text \<open>
  The blob codec (\<open>src/pyoxidizer/src/pyrepackager/repackage.rs\<close>,
  \<open>BlobEntry\<close> and \<open>write_blob_entries\<close>).  The writer emits a little-endian
  \<open>u32\<close> entry count, an index of \<open>(name length, data length)\<close> pairs, all
  names, then all data.  Each length is written with \<open>as u32\<close>, which keeps
  the low 32 bits: nothing rejects an entry of 4 GiB or more.  The reader is
  the runtime loader's side (it lives in the \<open>pyembed\<close> crate, not in this
  repository) and is modelled from the layout of the specification: it reads
  the same fields back and fails on a short or over-long buffer.
\<close>

record blob_entry =
  name :: string
  data :: bytes

type_synonym blob_entries = "blob_entry list"

subsection \<open>Writer\<close>

definition write_blob_entries :: "blob_entries \<Rightarrow> bytes" where
  "write_blob_entries entries =
     le32 (as_u32 (length entries))
     @ concat (map (\<lambda>e. le32 (as_u32 (length (str_bytes (name e)))) @ le32 (as_u32 (length (data e))))
                 entries)
     @ concat (map (\<lambda>e. str_bytes (name e)) entries)
     @ concat (map data entries)"

subsection \<open>Reader\<close>

fun read_index :: "nat \<Rightarrow> bytes \<Rightarrow> ((nat \<times> nat) list \<times> bytes) option" where
  "read_index 0 bs = Some ([], bs)"
| "read_index (Suc n) bs =
     (if length bs < 8 then None
      else case read_index n (drop 8 bs) of
             None \<Rightarrow> None
           | Some (idx, rest) \<Rightarrow>
               Some ((unat (dec_le32 (take 4 bs)), unat (dec_le32 (drop 4 (take 8 bs)))) # idx, rest))"

fun read_chunks :: "nat list \<Rightarrow> bytes \<Rightarrow> (bytes list \<times> bytes) option" where
  "read_chunks [] bs = Some ([], bs)"
| "read_chunks (l # ls) bs =
     (if length bs < l then None
      else case read_chunks ls (drop l bs) of
             None \<Rightarrow> None
           | Some (cs, rest) \<Rightarrow> Some (take l bs # cs, rest))"

definition read_blob_entries :: "bytes \<Rightarrow> blob_entries option" where
  "read_blob_entries bs =
     (if length bs < 4 then None
      else case read_index (unat (dec_le32 (take 4 bs))) (drop 4 bs) of
        None \<Rightarrow> None
      | Some (idx, r1) \<Rightarrow>
          (case read_chunks (map fst idx) r1 of
             None \<Rightarrow> None
           | Some (names, r2) \<Rightarrow>
               (case read_chunks (map snd idx) r2 of
                  None \<Rightarrow> None
                | Some (datas, r3) \<Rightarrow>
                    if r3 = [] then Some (map2 (\<lambda>n d. \<lparr>name = bytes_str n, data = d\<rparr>) names datas)
                    else None)))"

text \<open>A blob whose count and every length fit in a \<open>u32\<close>: the inputs on which
  the \<open>as u32\<close> casts of the writer lose nothing.\<close>

definition blob_fits :: "blob_entries \<Rightarrow> bool" where
  "blob_fits entries \<longleftrightarrow> length entries < 2 ^ 32
     \<and> (\<forall>e \<in> set entries. length (name e) < 2 ^ 32 \<and> length (data e) < 2 ^ 32)"

definition blob_index :: "blob_entries \<Rightarrow> (nat \<times> nat) list" where
  "blob_index entries = map (\<lambda>e. (length (name e), length (data e))) entries"

subsection \<open>Lemmas on the writer and the reader\<close>

lemma write_blob_entries_parts:
  "write_blob_entries entries =
     le32 (as_u32 (length entries))
     @ concat (map (\<lambda>(a, b). le32 (as_u32 a) @ le32 (as_u32 b)) (blob_index entries))
     @ concat (map (\<lambda>e. str_bytes (name e)) entries)
     @ concat (map data entries)"
  by (simp add: write_blob_entries_def blob_index_def comp_def)

lemma length_write_blob_entries:
  "length (write_blob_entries entries) =
     4 + 8 * length entries + sum_list (map (\<lambda>e. length (name e)) entries)
       + sum_list (map (\<lambda>e. length (data e)) entries)"
  by (induction entries) (simp_all add: write_blob_entries_def length_concat comp_def)

lemma blob_entries_rebuild:
  "map2 (\<lambda>n d. \<lparr>name = bytes_str n, data = d\<rparr>) (map (\<lambda>e. str_bytes (name e)) es) (map data es) = es"
  by (induction es) simp_all

lemma read_index_write:
  assumes "\<forall>(a, b) \<in> set ls. a < 2 ^ 32 \<and> b < 2 ^ 32"
  shows "read_index (length ls) (concat (map (\<lambda>(a, b). le32 (as_u32 a) @ le32 (as_u32 b)) ls) @ rest)
         = Some (ls, rest)"
  using assms
proof (induction ls)
  case (Cons p ls)
  obtain a b where p: "p = (a, b)" by (cases p)
  let ?hd = "le32 (as_u32 a) @ le32 (as_u32 b)"
  let ?tl = "concat (map (\<lambda>(a, b). le32 (as_u32 a) @ le32 (as_u32 b)) ls) @ rest"
  have len: "length ?hd = 8" by simp
  have "take 4 (?hd @ ?tl) = le32 (as_u32 a)" and "drop 4 (take 8 (?hd @ ?tl)) = le32 (as_u32 b)"
    by simp_all
  moreover have "drop 8 (?hd @ ?tl) = ?tl" by simp
  moreover from Cons.prems p have "unat (as_u32 a) = a" and "unat (as_u32 b) = b"
    by (simp_all add: unat_as_u32)
  ultimately show ?case
    using Cons p by (simp add: len)
qed simp

lemma read_chunks_write:
  "read_chunks (map length cs) (concat cs @ rest) = Some (cs, rest)"
  by (induction cs) simp_all

lemma read_index_bound:
  "read_index n bs = Some (idx, rest) \<Longrightarrow> \<forall>(a, b) \<in> set idx. a < 2 ^ 32 \<and> b < 2 ^ 32"
proof (induction n arbitrary: bs idx)
  case (Suc n)
  then obtain idx' where rec: "read_index n (drop 8 bs) = Some (idx', rest)"
    and idx: "idx = (unat (dec_le32 (take 4 bs)), unat (dec_le32 (drop 4 (take 8 bs)))) # idx'"
    by (auto split: if_splits option.splits)
  have "\<And>w :: 32 word. unat w < 2 ^ 32"
    using unsigned_less [where 'b = 32 and 'a = nat] by simp
  with Suc.IH [OF rec] idx show ?case by auto
qed simp

lemma read_chunks_lengths:
  "read_chunks ls bs = Some (cs, rest) \<Longrightarrow> map length cs = ls"
  by (induction ls arbitrary: bs cs) (auto split: if_splits option.splits)

lemma read_index_length:
  "read_index n bs = Some (idx, rest) \<Longrightarrow> length idx = n"
  by (induction n arbitrary: bs idx) (auto split: if_splits option.splits)

text \<open>Whatever the reader returns has every length below \<open>2 ^ 32\<close>: the index
  fields are \<open>u32\<close>s.\<close>

lemma read_blob_entries_bounds:
  assumes "read_blob_entries bs = Some es"
  shows "\<forall>e \<in> set es. length (name e) < 2 ^ 32 \<and> length (data e) < 2 ^ 32"
proof -
  from assms obtain idx r1 names r2 datas where
    idx: "read_index (unat (dec_le32 (take 4 bs))) (drop 4 bs) = Some (idx, r1)" and
    nm: "read_chunks (map fst idx) r1 = Some (names, r2)" and
    dt: "read_chunks (map snd idx) r2 = Some (datas, [])" and
    es: "es = map2 (\<lambda>n d. \<lparr>name = bytes_str n, data = d\<rparr>) names datas"
    by (auto simp: read_blob_entries_def split: if_splits option.splits)
  have b: "\<forall>(a, b) \<in> set idx. a < 2 ^ 32 \<and> b < 2 ^ 32"
    using idx by (rule read_index_bound)
  have ln: "map length names = map fst idx" and ld: "map length datas = map snd idx"
    using read_chunks_lengths [OF nm] read_chunks_lengths [OF dt] by simp_all
  show ?thesis
  proof
    fix e assume "e \<in> set es"
    then obtain i where i: "i < length names" "i < length datas"
      and e: "e = \<lparr>name = bytes_str (names ! i), data = datas ! i\<rparr>"
      using es by (auto simp: in_set_conv_nth)
    have li: "i < length idx" using i ln by (metis length_map)
    then have "idx ! i \<in> set idx" by (rule nth_mem)
    with b have "fst (idx ! i) < 2 ^ 32 \<and> snd (idx ! i) < 2 ^ 32"
      by (cases "idx ! i") fastforce
    moreover have "length (names ! i) = fst (idx ! i)" "length (datas ! i) = snd (idx ! i)"
      using i ln ld li by (metis nth_map)+
    ultimately show "length (name e) < 2 ^ 32 \<and> length (data e) < 2 ^ 32"
      using e by (simp add: bytes_str_def)
  qed
qed

subsection \<open>Where the writer puts each entry\<close>

lemma blob_index_at:
  assumes "i < length entries"
  shows "take 8 (drop (4 + 8 * i) (write_blob_entries entries))
    = le32 (as_u32 (length (name (entries ! i)))) @ le32 (as_u32 (length (data (entries ! i))))"
proof -
  let ?f = "\<lambda>e. le32 (as_u32 (length (str_bytes (name e)))) @ le32 (as_u32 (length (data e)))"
  let ?xss = "map ?f entries"
  have len: "\<forall>xs \<in> set ?xss. length xs = 8" by auto
  have off: "sum_list (map length (take i ?xss)) = 8 * i"
    using sum_list_take_const [OF len, of i] assms by simp
  have "take 8 (drop (8 * i) (concat ?xss)) = ?xss ! i"
    using concat_chunk_at [of i ?xss] assms off by simp
  moreover have "8 * i + 8 \<le> length (concat ?xss)"
    using assms by (simp add: length_concat comp_def sum_list_triv)
  ultimately show ?thesis
    using take_drop_between [of "8 * i" 8 "concat ?xss" "le32 (as_u32 (length entries))"]
    by (simp add: write_blob_entries_def assms del: take_append drop_append)
qed

lemma blob_name_at:
  assumes "i < length entries"
  shows "take (length (name (entries ! i)))
      (drop (4 + 8 * length entries + sum_list (map (\<lambda>e. length (name e)) (take i entries)))
        (write_blob_entries entries)) = str_bytes (name (entries ! i))"
proof -
  let ?p = "le32 (as_u32 (length entries))
     @ concat (map (\<lambda>e. le32 (as_u32 (length (str_bytes (name e)))) @ le32 (as_u32 (length (data e)))) entries)"
  let ?xss = "map (\<lambda>e. str_bytes (name e)) entries"
  have lp: "length ?p = 4 + 8 * length entries"
    by (simp add: length_concat comp_def sum_list_triv)
  have off: "sum_list (map length (take i ?xss)) = sum_list (map (\<lambda>e. length (name e)) (take i entries))"
    by (simp add: take_map comp_def)
  have "take (length (name (entries ! i))) (drop (sum_list (map length (take i ?xss))) (concat ?xss))
      = str_bytes (name (entries ! i))"
    using concat_chunk_at [of i ?xss] assms by simp
  moreover have "sum_list (map length (take i ?xss)) + length (name (entries ! i)) \<le> length (concat ?xss)"
    using sum_list_take_le [OF assms, of "\<lambda>e. length (name e)"] off by (simp add: length_concat comp_def)
  ultimately show ?thesis
    using take_drop_between [of "sum_list (map length (take i ?xss))" "length (name (entries ! i))"
        "concat ?xss" ?p "concat (map data entries)"]
    by (simp only: write_blob_entries_def append_assoc lp off)
qed

lemma blob_data_at:
  assumes "i < length entries"
  shows "take (length (data (entries ! i)))
      (drop (4 + 8 * length entries + sum_list (map (\<lambda>e. length (name e)) entries)
             + sum_list (map (\<lambda>e. length (data e)) (take i entries)))
        (write_blob_entries entries)) = data (entries ! i)"
proof -
  let ?p = "le32 (as_u32 (length entries))
     @ concat (map (\<lambda>e. le32 (as_u32 (length (str_bytes (name e)))) @ le32 (as_u32 (length (data e)))) entries)
     @ concat (map (\<lambda>e. str_bytes (name e)) entries)"
  let ?xss = "map data entries"
  have lp: "length ?p = 4 + 8 * length entries + sum_list (map (\<lambda>e. length (name e)) entries)"
    by (simp add: length_concat comp_def sum_list_triv)
  have off: "sum_list (map length (take i ?xss)) = sum_list (map (\<lambda>e. length (data e)) (take i entries))"
    by (simp add: take_map comp_def)
  have "take (length (data (entries ! i))) (drop (sum_list (map length (take i ?xss))) (concat ?xss))
      = data (entries ! i)"
    using concat_chunk_at [of i ?xss] assms by simp
  moreover have "sum_list (map length (take i ?xss)) + length (data (entries ! i)) \<le> length (concat ?xss)"
    using sum_list_take_le [OF assms, of "\<lambda>e. length (data e)"] off by (simp add: length_concat comp_def)
  ultimately show ?thesis
    using take_drop_between [of "sum_list (map length (take i ?xss))" "length (data (entries ! i))"
        "concat ?xss" ?p "[]"]
    by (simp only: write_blob_entries_def append_assoc append_Nil2 lp off)
qed

subsection \<open>Properties of the codec\<close>

lemma read_write_blob_entries:
  assumes "blob_fits entries"
  shows "read_blob_entries (write_blob_entries entries) = Some entries"
proof -
  let ?W = "write_blob_entries entries"
  let ?idx = "concat (map (\<lambda>(a, b). le32 (as_u32 a) @ le32 (as_u32 b)) (blob_index entries))"
  let ?names = "map (\<lambda>e. str_bytes (name e)) entries"
  let ?datas = "map data entries"
  have cnt: "unat (dec_le32 (take 4 ?W)) = length entries"
    using assms by (simp add: write_blob_entries_parts blob_fits_def unat_as_u32)
  have "\<forall>(a, b) \<in> set (blob_index entries). a < 2 ^ 32 \<and> b < 2 ^ 32"
    using assms by (auto simp: blob_fits_def blob_index_def)
  then have "read_index (length (blob_index entries)) (?idx @ concat ?names @ concat ?datas)
      = Some (blob_index entries, concat ?names @ concat ?datas)"
    by (rule read_index_write)
  then have ri: "read_index (length entries) (drop 4 ?W)
      = Some (blob_index entries, concat ?names @ concat ?datas)"
    by (simp add: write_blob_entries_parts blob_index_def)
  have "map fst (blob_index entries) = map length ?names"
    and "map snd (blob_index entries) = map length ?datas"
    by (simp_all add: blob_index_def)
  then have "read_chunks (map fst (blob_index entries)) (concat ?names @ concat ?datas)
      = Some (?names, concat ?datas)"
    and "read_chunks (map snd (blob_index entries)) (concat ?datas @ []) = Some (?datas, [])"
    by (simp_all only: read_chunks_write)
  moreover have "\<not> length ?W < 4"
    by (simp add: write_blob_entries_parts)
  ultimately show ?thesis
    using cnt ri by (simp add: read_blob_entries_def blob_entries_rebuild)
qed

text \<open>C1 (roundtrip). Decoding what \<open>write_blob_entries\<close> wrote gives back the
  entries, names and data byte-for-byte and in order, whenever the entry count
  and every length fit in a \<open>u32\<close>.\<close>

theorem blob_roundtrip:
  assumes "blob_fits entries"
  shows "read_blob_entries (write_blob_entries entries) = Some entries"
  using assms by (rule read_write_blob_entries)

text \<open>C2 (functional). The layout the loader reads by offset: the index pair of
  the \<open>i\<close>-th entry is the 8 bytes at \<open>4 + 8 * i\<close>; its name follows the whole
  index and the names of the entries before it; its data follows all names and
  the data of the entries before it.\<close>

theorem blob_layout:
  assumes "i < length entries"
  shows "take 8 (drop (4 + 8 * i) (write_blob_entries entries))
      = le32 (as_u32 (length (name (entries ! i)))) @ le32 (as_u32 (length (data (entries ! i))))
    \<and> take (length (name (entries ! i)))
        (drop (4 + 8 * length entries + sum_list (map (\<lambda>e. length (name e)) (take i entries)))
          (write_blob_entries entries)) = str_bytes (name (entries ! i))
    \<and> take (length (data (entries ! i)))
        (drop (4 + 8 * length entries + sum_list (map (\<lambda>e. length (name e)) entries)
               + sum_list (map (\<lambda>e. length (data e)) (take i entries)))
          (write_blob_entries entries)) = data (entries ! i)"
  using blob_index_at [OF assms] blob_name_at [OF assms] blob_data_at [OF assms] by blast

text \<open>C3 (bounds). The writer has no \<open>TooLarge\<close> check: the entry count and
  each length are written \<open>as u32\<close>, so read back as \<open>u32\<close>s they are the true
  values modulo \<open>2 ^ 32\<close>; an entry of 4 GiB of data is indexed with length 0.\<close>

theorem blob_index_wraps:
  assumes "i < length entries"
  shows "unat (dec_le32 (take 4 (write_blob_entries entries))) = length entries mod 2 ^ 32
    \<and> unat (dec_le32 (take 4 (drop (4 + 8 * i) (write_blob_entries entries))))
        = length (name (entries ! i)) mod 2 ^ 32
    \<and> unat (dec_le32 (take 4 (drop (8 + 8 * i) (write_blob_entries entries))))
        = length (data (entries ! i)) mod 2 ^ 32"
proof -
  let ?W = "write_blob_entries entries"
  have ix: "take 8 (drop (4 + 8 * i) ?W)
      = le32 (as_u32 (length (name (entries ! i)))) @ le32 (as_u32 (length (data (entries ! i))))"
    using assms by (rule blob_index_at)
  have "take 4 (drop (4 + 8 * i) ?W) = take 4 (take 8 (drop (4 + 8 * i) ?W))"
    by simp
  then have n: "take 4 (drop (4 + 8 * i) ?W) = le32 (as_u32 (length (name (entries ! i))))"
    by (simp only: ix) simp
  have "take 4 (drop (8 + 8 * i) ?W) = drop 4 (take 8 (drop (4 + 8 * i) ?W))"
    by (simp add: take_drop add.commute add.left_commute)
  then have d: "take 4 (drop (8 + 8 * i) ?W) = le32 (as_u32 (length (data (entries ! i))))"
    by (simp only: ix) simp
  have c: "take 4 ?W = le32 (as_u32 (length entries))"
    by (simp add: write_blob_entries_def)
  show ?thesis
    by (simp add: n d c unat_as_u32_mod)
qed

subsection \<open>Witnesses\<close>

theorem blob_roundtrip_witness:
  "blob_fits [\<lparr>name = ''a'', data = [1, 2]\<rparr>, \<lparr>name = ''bb'', data = [3]\<rparr>] \<and>
   read_blob_entries (write_blob_entries [\<lparr>name = ''a'', data = [1, 2]\<rparr>, \<lparr>name = ''bb'', data = [3]\<rparr>])
     = Some [\<lparr>name = ''a'', data = [1, 2]\<rparr>, \<lparr>name = ''bb'', data = [3]\<rparr>]"
proof -
  have h: "blob_fits [\<lparr>name = ''a'', data = [1, 2]\<rparr>, \<lparr>name = ''bb'', data = [3 :: byte]\<rparr>]"
    by (simp add: blob_fits_def)
  show ?thesis using h blob_roundtrip [OF h] by simp
qed

theorem blob_index_wraps_witness:
  "0 < length [\<lparr>name = ''m'', data = replicate (2 ^ 32) (0 :: byte)\<rparr>]
   \<and> unat (dec_le32 (take 4 (drop 8 (write_blob_entries [\<lparr>name = ''m'', data = replicate (2 ^ 32) 0\<rparr>])))) = 0"
  using blob_index_wraps [of 0 "[\<lparr>name = ''m'', data = replicate (2 ^ 32) 0\<rparr>]"] by simp

theorem blob_layout_witness:
  "1 < length [\<lparr>name = ''a'', data = [1, 2]\<rparr>, \<lparr>name = ''bb'', data = [3 :: byte]\<rparr>]
   \<and> take 8 (drop 12 (write_blob_entries [\<lparr>name = ''a'', data = [1, 2]\<rparr>, \<lparr>name = ''bb'', data = [3]\<rparr>]))
       = le32 2 @ le32 1
   \<and> take 2 (drop 21 (write_blob_entries [\<lparr>name = ''a'', data = [1, 2]\<rparr>, \<lparr>name = ''bb'', data = [3]\<rparr>]))
       = str_bytes ''bb''
   \<and> take 1 (drop 25 (write_blob_entries [\<lparr>name = ''a'', data = [1, 2]\<rparr>, \<lparr>name = ''bb'', data = [3]\<rparr>]))
       = [3]"
  using blob_layout [of 1 "[\<lparr>name = ''a'', data = [1, 2]\<rparr>, \<lparr>name = ''bb'', data = [3 :: byte]\<rparr>]"]
  by (simp add: as_u32_def numeral_2_eq_2)

end
