(* ===== verification/Ordered_Map.thy ===== *)
theory Ordered_Map
  imports Prelude
begin

text \<open>
  Rust's \<open>BTreeMap\<close>, which the repackaging engine uses for every staging
  collection so that iteration is in ascending key order, modelled as an
  association list whose keys are strictly increasing.  The operations are
  \<open>insert\<close> (overwriting), \<open>remove\<close>, \<open>get\<close>, \<open>contains_key\<close>, \<open>keys\<close> and
  \<open>values\<close>; \<open>om_wf\<close> is the representation invariant.  The abstraction
  \<open>om_lookup\<close> to a partial map gives the refinement lemmas: each operation
  implements the corresponding map update, and keeps the invariant.
  A \<open>BTreeSet\<close> is a finite \<open>'a set\<close>, iterated with \<open>sorted_list_of_set\<close>.
\<close>

type_synonym ('k, 'v) btree_map = "('k \<times> 'v) list"

fun om_get :: "'k \<Rightarrow> ('k, 'v) btree_map \<Rightarrow> 'v option" where
  "om_get k [] = None"
| "om_get k ((a, b) # ps) = (if k = a then Some b else om_get k ps)"

fun om_insert :: "'k::linorder \<Rightarrow> 'v \<Rightarrow> ('k, 'v) btree_map \<Rightarrow> ('k, 'v) btree_map" where
  "om_insert k v [] = [(k, v)]"
| "om_insert k v ((a, b) # ps) =
     (if k < a then (k, v) # (a, b) # ps
      else if k = a then (k, v) # ps
      else (a, b) # om_insert k v ps)"

fun om_remove :: "'k \<Rightarrow> ('k, 'v) btree_map \<Rightarrow> ('k, 'v) btree_map" where
  "om_remove k [] = []"
| "om_remove k ((a, b) # ps) = (if k = a then ps else (a, b) # om_remove k ps)"

definition om_keys :: "('k, 'v) btree_map \<Rightarrow> 'k list" where
  "om_keys m = map fst m"

definition om_values :: "('k, 'v) btree_map \<Rightarrow> 'v list" where
  "om_values m = map snd m"

definition om_contains :: "'k \<Rightarrow> ('k, 'v) btree_map \<Rightarrow> bool" where
  "om_contains k m \<longleftrightarrow> om_get k m \<noteq> None"

definition om_wf :: "('k::linorder, 'v) btree_map \<Rightarrow> bool" where
  "om_wf m \<longleftrightarrow> sorted_wrt (<) (om_keys m)"

text \<open>Collecting an iterator of pairs into a map: later pairs overwrite.\<close>

definition om_from_list :: "('k::linorder \<times> 'v) list \<Rightarrow> ('k, 'v) btree_map" where
  "om_from_list ps = fold (\<lambda>(k, v) m. om_insert k v m) ps []"

text \<open>The abstraction: the partial map that the association list denotes.\<close>

definition om_lookup :: "('k, 'v) btree_map \<Rightarrow> 'k \<rightharpoonup> 'v" where
  "om_lookup m = (\<lambda>k. om_get k m)"

subsection \<open>Refinement: each operation implements a map update\<close>

lemma om_get_insert [simp]: "om_get x (om_insert k v m) = (if x = k then Some v else om_get x m)"
  by (induction k v m rule: om_insert.induct) auto

lemma om_lookup_insert: "om_lookup (om_insert k v m) = (om_lookup m)(k \<mapsto> v)"
  by (simp add: om_lookup_def fun_eq_iff)

lemma om_get_in_keys: "k \<in> set (om_keys m) \<longleftrightarrow> (\<exists>v. om_get k m = Some v)"
  by (induction m) (auto simp: om_keys_def)

lemma om_get_remove [simp]:
  "om_wf m \<Longrightarrow> om_get x (om_remove k m) = (if x = k then None else om_get x m)"
proof (induction m)
  case (Cons p ps)
  obtain a b where p: "p = (a, b)" by (cases p)
  with Cons.prems have wf: "om_wf ps" and less: "\<forall>c \<in> set (om_keys ps). a < c"
    by (auto simp: om_wf_def om_keys_def)
  then have "om_get a ps = None"
    by (auto simp: om_get_in_keys)
  with p wf Cons.IH show ?case by auto
qed simp

lemma om_lookup_remove: "om_wf m \<Longrightarrow> om_lookup (om_remove k m) = (om_lookup m)(k := None)"
  by (simp add: om_lookup_def fun_eq_iff)

lemma om_get_notin_keys: "k \<notin> set (om_keys m) \<Longrightarrow> om_get k m = None"
  by (simp add: om_get_in_keys)

lemma om_get_Some_in_keys: "om_get k m = Some v \<Longrightarrow> k \<in> set (om_keys m)"
  by (induction m) (auto simp: om_keys_def split: if_splits)

lemma om_get_Some_in_set: "om_get k m = Some v \<Longrightarrow> (k, v) \<in> set m"
  by (induction m) (auto split: if_splits)

lemma om_get_wf_iff: "om_wf m \<Longrightarrow> om_get k m = Some v \<longleftrightarrow> (k, v) \<in> set m"
proof (induction m)
  case (Cons p ps)
  obtain a b where p: "p = (a, b)" by (cases p)
  with Cons.prems have wf: "om_wf ps" and less: "\<forall>q \<in> set ps. a < fst q"
    by (auto simp: om_wf_def om_keys_def)
  then have "(a, v) \<notin> set ps" by fastforce
  with p wf Cons.IH show ?case by auto
qed simp

lemma om_contains_keys: "om_contains k m \<longleftrightarrow> k \<in> set (om_keys m)"
  by (simp add: om_contains_def om_get_in_keys)

lemma dom_om_lookup: "dom (om_lookup m) = set (om_keys m)"
  by (auto simp: om_lookup_def om_get_in_keys)

subsection \<open>The invariant\<close>

lemma set_keys_insert [simp]: "set (om_keys (om_insert k v m)) = insert k (set (om_keys m))"
  by (induction k v m rule: om_insert.induct) (auto simp: om_keys_def)

lemma om_wf_insert [simp]: "om_wf m \<Longrightarrow> om_wf (om_insert k v m)"
proof (induction m rule: om_insert.induct)
  case (2 k v a b ps)
  then show ?case
    using set_keys_insert [of k v ps]
    by (auto simp: om_wf_def om_keys_def)
qed (simp add: om_wf_def om_keys_def)

lemma set_om_remove_subset: "set (om_remove k m) \<subseteq> set m"
  by (induction m) (auto split: if_splits)

lemma om_wf_remove [simp]: "om_wf m \<Longrightarrow> om_wf (om_remove k m)"
proof (induction m)
  case (Cons p ps)
  then show ?case
    by (cases p) (auto simp: om_wf_def om_keys_def dest: subsetD [OF set_om_remove_subset])
qed (simp add: om_wf_def om_keys_def)

lemma set_keys_remove [simp]:
  "om_wf m \<Longrightarrow> set (om_keys (om_remove k m)) = set (om_keys m) - {k}"
  by (auto simp: om_get_in_keys split: if_splits)

lemma om_wf_Nil [simp]: "om_wf []"
  by (simp add: om_wf_def om_keys_def)

lemma om_wf_filter: "om_wf m \<Longrightarrow> om_wf (filter P m)"
  unfolding om_wf_def om_keys_def
  by (induction m) (auto split: if_splits)

lemma om_wf_distinct: "om_wf m \<Longrightarrow> distinct (om_keys m)"
  by (simp add: om_wf_def strict_sorted_iff)

text \<open>Iteration of a well-formed map is in ascending key order: the keys are
  the sorted list of the key set, which is what makes the blobs and
  \<open>config.c\<close> deterministic.\<close>

lemma om_keys_sorted_list: "om_wf m \<Longrightarrow> om_keys m = sorted_list_of_set (set (om_keys m))"
  by (simp add: om_wf_def sorted_list_of_set.idem_if_sorted_distinct strict_sorted_iff)

lemma om_from_list_wf: "om_wf (om_from_list ps)"
proof -
  have "\<And>m. om_wf m \<Longrightarrow> om_wf (fold (\<lambda>(k, v) m. om_insert k v m) ps m)"
    by (induction ps) auto
  then show ?thesis by (simp add: om_from_list_def)
qed

lemma om_remove_filter: "om_wf m \<Longrightarrow> om_remove k m = filter (\<lambda>p. fst p \<noteq> k) m"
proof (induction m)
  case (Cons p ps)
  obtain a b where p: "p = (a, b)" by (cases p)
  with Cons.prems have wf: "om_wf ps" and less: "\<forall>q \<in> set ps. a < fst q"
    by (auto simp: om_wf_def om_keys_def)
  then have "filter (\<lambda>q. fst q \<noteq> a) ps = ps"
    by (auto intro: filter_True)
  with p wf Cons.IH show ?case by auto
qed simp

text \<open>Removing, one after the other, every key of a list that is not in a set
  keeps exactly the pairs whose key is in the set or not in the list.\<close>

lemma fold_remove_filter:
  "om_wf m \<Longrightarrow> fold (\<lambda>key m. if key \<in> f then m else om_remove key m) ks m
     = filter (\<lambda>p. fst p \<in> f \<or> fst p \<notin> set ks) m"
proof (induction ks arbitrary: m)
  case (Cons k ks)
  let ?m' = "if k \<in> f then m else om_remove k m"
  have m': "?m' = filter (\<lambda>p. k \<in> f \<or> fst p \<noteq> k) m"
    using Cons.prems by (simp add: om_remove_filter)
  have "om_wf ?m'" using Cons.prems by simp
  then have "fold (\<lambda>key m. if key \<in> f then m else om_remove key m) ks ?m'
      = filter (\<lambda>p. fst p \<in> f \<or> fst p \<notin> set ks) ?m'"
    by (rule Cons.IH)
  also have "\<dots> = filter (\<lambda>p. fst p \<in> f \<or> fst p \<notin> set (k # ks)) m"
    unfolding m' by (auto intro: filter_cong)
  finally show ?case by simp
qed simp

lemmas om_simps = om_get_insert om_get_remove om_wf_insert om_wf_remove om_wf_filter

end
