(* ===== verification/Resources.thy ===== *)
theory Resources
  imports Ordered_Map
begin

text \<open>
  The data model of the repackaging engine
  (\<open>src/pyoxidizer/src/pyrepackager/repackage.rs\<close>, lines 26-233): the
  target-specific tables, the test-package predicate, \<open>PythonResource\<close>,
  \<open>ResourceAction\<close>, \<open>PythonResourceEntry\<close>, \<open>PythonResources\<close>, the names
  file reader and \<open>filter_btreemap\<close>.  The types the engine takes from its
  collaborators (\<open>ExtensionModule\<close> and \<open>LibraryDepends\<close> of \<open>dist.rs\<close>,
  \<open>PythonPackaging\<close> and \<open>Config\<close> of \<open>config.rs\<close>, \<open>PythonResourceType\<close> of
  \<open>fsscan.rs\<close>), which are not under \<open>src/\<close>, are modelled from the spec with
  the fields the engine reads.  The file system, the directory scanner, \<open>glob\<close>,
  \<open>pip\<close> and the bytecode compiler are the fields of an environment record
  \<open>env\<close>: what they return is a parameter of every theorem.
\<close>

subsection \<open>Targets and errors\<close>

text \<open>\<open>cfg!(target_os = ...)\<close> picks the tables at compile time; here the target
  is a value.\<close>

datatype target_os = Linux | MacOS | Windows | OtherOS

text \<open>Every \<open>panic!\<close>, \<open>expect\<close>, \<open>unwrap\<close> and out-of-range index of the
  engine is one constructor.\<close>

datatype error =
    IllegalPolicy string
  | IndexOutOfBounds string
  | MissingKey string
  | NoVariant string string
  | ReadError path
  | SliceOutOfRange string
  | PipError string
  | GlobError string
  | NamesFileError path
  | CompileError string string
  | MissingLibrary string
  | MissingEnv string
  | ConfigNotFound
  | ConfigMissing path
  | NotUtf8 path
  | DistributionError path

subsection \<open>Constant tables\<close>

definition STDLIB_TEST_PACKAGES :: "string list" where
  "STDLIB_TEST_PACKAGES =
     [''bsddb.test'', ''ctypes.test'', ''distutils.tests'', ''email.test'', ''idlelib.idle_test'',
      ''json.tests'', ''lib-tk.test'', ''lib2to3.tests'', ''sqlite3.test'', ''test'',
      ''tkinter.test'', ''unittest.test'']"

definition OS_IGNORE_LIBRARIES :: "target_os \<Rightarrow> string list" where
  "OS_IGNORE_LIBRARIES t =
     (if t = Linux then [''dl'', ''m''] else if t = MacOS then [''dl'', ''m''] else [])"

definition OS_IGNORE_EXTENSIONS :: "target_os \<Rightarrow> string list" where
  "OS_IGNORE_EXTENSIONS t =
     (if t = Linux then [''_crypt'', ''nis'']
      else if t = MacOS then [''_curses'', ''_curses_panel'', ''readline''] else [])"

text \<open>\<open>is_stdlib_test_package\<close>: the loop returns true at the first package
  whose name followed by a dot is a prefix of the module name.\<close>

fun is_stdlib_test_package_in :: "string list \<Rightarrow> string \<Rightarrow> bool" where
  "is_stdlib_test_package_in [] name = False"
| "is_stdlib_test_package_in (package # ps) name =
     (if starts_with name (package @ ''.'') then True else is_stdlib_test_package_in ps name)"

definition is_stdlib_test_package :: "string \<Rightarrow> bool" where
  "is_stdlib_test_package name = is_stdlib_test_package_in STDLIB_TEST_PACKAGES name"

text \<open>The dotted-prefix rule that the \<open>Virtualenv\<close> and \<open>PackageRoot\<close> rules
  apply to their \<open>excludes\<close> and \<open>packages\<close>:
  \<open>resource.name == p || resource.name.starts_with(p + ".")\<close>.\<close>

definition prefix_match :: "string \<Rightarrow> string \<Rightarrow> bool" where
  "prefix_match p n \<longleftrightarrow> n = p \<or> starts_with n (p @ ''.'')"

subsection \<open>Types of the collaborators\<close>

record library_depends =
  lib_name :: string
  static_path :: "path option"
  dynamic_path :: "path option"
  framework :: bool
  system :: bool

record extension_module =
  module :: string
  init_fn :: "string option"
  builtin_default :: bool
  required :: bool
  variant :: string
  object_paths :: "path list"
  links :: "library_depends list"

record python_distribution_info =
  python_exe :: path
  os :: string
  version :: string
  py_modules :: "(string, path) btree_map"
  extension_modules :: "(string, extension_module list) btree_map"
  objs_core :: "(path, path) btree_map"
  dist_includes :: "(path, path) btree_map"
  libraries :: "(string, path) btree_map"
  links_core :: "library_depends list"

datatype python_packaging =
    StdlibExtensionsPolicy string
  | StdlibExtensionsExplicitIncludes "string list"
  | StdlibExtensionsExplicitExcludes "string list"
  | StdlibExtensionVariant string string
  | Stdlib int bool bool
  | Virtualenv path int "string list" bool
  | PackageRoot path "string list" int "string list" bool
  | PipInstallSimple string int bool
  | FilterFileInclude path
  | FilterFilesInclude string

datatype python_resource_type = Source | Bytecode | BytecodeOpt1 | BytecodeOpt2 | Resource | Other

record scanned_resource =
  res_name :: string
  flavor :: python_resource_type
  res_path :: path

text \<open>The collaborators: file contents, the directory scan of \<open>fsscan.rs\<close>,
  whether \<open>ensure_pip\<close> succeeds, the directory \<open>pip install --target\<close> filled
  (\<open>None\<close> when the temporary directory or the process could not be created;
  the exit status is not looked at), the paths a glob pattern matches (\<open>None\<close>
  on a pattern or entry error) and the bytecode compiler.\<close>

record env =
  fs :: "path \<rightharpoonup> bytes"
  scan :: "path \<Rightarrow> scanned_resource list"
  pip_ready :: bool
  pip_install :: "string \<Rightarrow> path option"
  glob :: "string \<Rightarrow> path list option"
  compile :: "bytes \<Rightarrow> string \<Rightarrow> int \<Rightarrow> string + bytes"
  target :: target_os

subsection \<open>Resources and actions\<close>

datatype python_resource =
    ExtensionModule string extension_module
  | ModuleSource string bytes
  | ModuleBytecode string bytes int
  | PyResource string bytes

datatype resource_action = Add | Remove

record python_resource_entry =
  action :: resource_action
  resource :: python_resource

record python_resources =
  module_sources :: "(string, bytes) btree_map"
  module_bytecodes :: "(string, bytes) btree_map"
  all_modules :: "string set"
  resources :: "(string, bytes) btree_map"
  pr_extension_modules :: "(string, extension_module) btree_map"
  read_files :: "path list"

text \<open>\<open>*optimize_level as i32\<close>.\<close>

definition as_i32 :: "int \<Rightarrow> int" where
  "as_i32 x = sint (word_of_int x :: 32 word)"

subsection \<open>Reading a resource names file\<close>

definition read_resource_names :: "string \<Rightarrow> string set" where
  "read_resource_names content =
     set (filter (\<lambda>line. \<not> starts_with line ''#'' \<and> line \<noteq> []) (split_lines content []))"

text \<open>\<open>BufRead::lines\<close> returns an \<open>InvalidData\<close> error for a line that is not
  UTF-8, and \<open>line?\<close> passes it on.  A line break cannot occur inside a UTF-8
  sequence, so some line is invalid exactly when the whole content is: the
  model checks the content once.  Both errors are \<open>io::Error\<close>s.\<close>

definition read_resource_names_file :: "env \<Rightarrow> path \<Rightarrow> error + string set" where
  "read_resource_names_file e p =
     (case fs e p of None \<Rightarrow> Inl (NamesFileError p)
      | Some content \<Rightarrow>
          if valid_utf8 content then Inr (read_resource_names (bytes_str content))
          else Inl (NamesFileError p))"

subsection \<open>Filtering a map by a set of names\<close>

text \<open>\<open>filter_btreemap\<close>: collect the keys first, then remove every key that is
  not in the set.\<close>

definition filter_btreemap :: "('k, 'v) btree_map \<Rightarrow> 'k set \<Rightarrow> ('k, 'v) btree_map" where
  "filter_btreemap m f = fold (\<lambda>key m. if key \<in> f then m else om_remove key m) (om_keys m) m"

subsection \<open>Lemmas\<close>

lemma filter_btreemap_filter: "om_wf m \<Longrightarrow> filter_btreemap m f = filter (\<lambda>p. fst p \<in> f) m"
  unfolding filter_btreemap_def
  by (auto simp: fold_remove_filter om_keys_def intro: filter_cong)

lemma filter_btreemap_wf [simp]: "om_wf m \<Longrightarrow> om_wf (filter_btreemap m f)"
  by (simp add: filter_btreemap_filter om_wf_filter)

lemma om_get_filter_btreemap [simp]:
  "om_wf m \<Longrightarrow> om_get x (filter_btreemap m f) = (if x \<in> f then om_get x m else None)"
  unfolding filter_btreemap_filter
  by (induction m) (auto simp: om_wf_def om_keys_def)

lemma set_keys_filter_btreemap [simp]:
  "om_wf m \<Longrightarrow> set (om_keys (filter_btreemap m f)) = set (om_keys m) \<inter> f"
  by (auto simp: filter_btreemap_filter om_keys_def)

lemma filter_btreemap_idem:
  "om_wf m \<Longrightarrow> filter_btreemap (filter_btreemap m f) f = filter_btreemap m f"
  by (simp add: filter_btreemap_filter om_wf_filter)

end
