(* ===== verification/Resolver.thy ===== *)
theory Resolver
  imports Resources
begin

text \<open>
  The rule resolver \<open>resolve_python_packaging\<close>
  (\<open>src/pyoxidizer/src/pyrepackager/repackage.rs\<close>, lines 236-557): for one
  packaging rule and a distribution it returns the list of add actions, or the
  error at which the Rust code panics.  One definition per arm of the
  \<open>match\<close>, composed by \<open>resolve_python_packaging\<close>; the loops are
  \<open>concat_map_e\<close> over the iterated list, which stops at the first error as
  \<open>expect\<close> does.
\<close>

definition add_entry :: "python_resource \<Rightarrow> python_resource_entry" where
  "add_entry r = \<lparr>action = Add, resource = r\<rparr>"

text \<open>\<open>variants[0]\<close>: an index into a vector, which panics when it is empty.\<close>

fun first_variant :: "string \<Rightarrow> extension_module list \<Rightarrow> error + extension_module" where
  "first_variant name [] = Inl (IndexOutOfBounds name)"
| "first_variant name (em # _) = Inr em"

subsection \<open>Extension-module rules\<close>

text \<open>The body of the loop over \<open>dist.extension_modules\<close> for
  \<open>StdlibExtensionsPolicy\<close>: the policy string is matched for every
  extension, so an unknown policy panics only when there is one.\<close>

definition policy_entries ::
  "string \<Rightarrow> string \<Rightarrow> extension_module list \<Rightarrow> error + python_resource_entry list" where
  "policy_entries policy name variants =
     (if policy = ''minimal'' then
        (case first_variant name variants of
           Inl e \<Rightarrow> Inl e
         | Inr em \<Rightarrow> Inr (if builtin_default em \<or> required em
                          then [add_entry (ExtensionModule name em)] else []))
      else if policy = ''all'' then
        (case first_variant name variants of
           Inl e \<Rightarrow> Inl e
         | Inr em \<Rightarrow> Inr [add_entry (ExtensionModule name em)])
      else if policy = ''no-libraries'' then
        Inr (case find (\<lambda>em. links em = []) variants of
               None \<Rightarrow> []
             | Some em \<Rightarrow> [add_entry (ExtensionModule name em)])
      else Inl (IllegalPolicy policy))"

definition resolve_extensions_policy ::
  "string \<Rightarrow> python_distribution_info \<Rightarrow> error + python_resource_entry list" where
  "resolve_extensions_policy policy dist =
     concat_map_e (\<lambda>(name, variants). policy_entries policy name variants) (extension_modules dist)"

definition resolve_explicit_includes ::
  "string list \<Rightarrow> python_distribution_info \<Rightarrow> error + python_resource_entry list" where
  "resolve_explicit_includes includes_list dist =
     concat_map_e (\<lambda>name.
        case om_get name (extension_modules dist) of
          None \<Rightarrow> Inr []
        | Some modules \<Rightarrow>
            (case first_variant name modules of
               Inl e \<Rightarrow> Inl e
             | Inr em \<Rightarrow> Inr [add_entry (ExtensionModule name em)]))
       includes_list"

definition resolve_explicit_excludes ::
  "string list \<Rightarrow> python_distribution_info \<Rightarrow> error + python_resource_entry list" where
  "resolve_explicit_excludes excludes dist =
     concat_map_e (\<lambda>(name, modules).
        if name \<in> set excludes then Inr []
        else (case first_variant name modules of
                Inl e \<Rightarrow> Inl e
              | Inr em \<Rightarrow> Inr [add_entry (ExtensionModule name em)]))
       (extension_modules dist)"

text \<open>\<open>dist.extension_modules[extension]\<close> panics on a missing key; every
  variant whose tag matches is added, and an empty result panics.\<close>

definition resolve_extension_variant ::
  "string \<Rightarrow> string \<Rightarrow> python_distribution_info \<Rightarrow> error + python_resource_entry list" where
  "resolve_extension_variant extension v dist =
     (case om_get extension (extension_modules dist) of
        None \<Rightarrow> Inl (MissingKey extension)
      | Some variants \<Rightarrow>
          (let res = map (\<lambda>em. add_entry (ExtensionModule extension em))
                       (filter (\<lambda>em. variant em = v) variants)
           in if res = [] then Inl (NoVariant extension v) else Inr res))"

subsection \<open>Module rules\<close>

text \<open>What every module rule pushes for one module: its source when
  \<open>include_source\<close> is set, then a bytecode request.\<close>

definition module_entries :: "bool \<Rightarrow> int \<Rightarrow> string \<Rightarrow> bytes \<Rightarrow> python_resource_entry list" where
  "module_entries include_source optimize_level name source =
     (if include_source then [add_entry (ModuleSource name source)] else [])
     @ [add_entry (ModuleBytecode name source (as_i32 optimize_level))]"

definition read_module ::
  "env \<Rightarrow> bool \<Rightarrow> int \<Rightarrow> string \<Rightarrow> path \<Rightarrow> error + python_resource_entry list" where
  "read_module e include_source optimize_level name p =
     (case fs e p of
        None \<Rightarrow> Inl (ReadError p)
      | Some source \<Rightarrow> Inr (module_entries include_source optimize_level name source))"

definition resolve_stdlib ::
  "env \<Rightarrow> int \<Rightarrow> bool \<Rightarrow> bool \<Rightarrow> python_distribution_info \<Rightarrow> error + python_resource_entry list" where
  "resolve_stdlib e optimize_level exclude_test_modules include_source dist =
     concat_map_e (\<lambda>(name, fs_path).
        if is_stdlib_test_package name \<and> exclude_test_modules then Inr []
        else read_module e include_source optimize_level name fs_path)
       (py_modules dist)"

text \<open>\<open><path>/{lib|Lib}/python<version[0..3]>/site-packages\<close>; the byte slice
  panics on a version shorter than three bytes.\<close>

definition site_packages_path :: "path \<Rightarrow> python_distribution_info \<Rightarrow> error + path" where
  "site_packages_path p dist =
     (if length (version dist) < 3 then Inl (SliceOutOfRange (version dist))
      else Inr (p @ [if os dist = ''windows'' then ''Lib'' else ''lib'',
                     ''python'' @ take 3 (version dist), ''site-packages'']))"

definition venv_relevant :: "string list \<Rightarrow> string \<Rightarrow> bool" where
  "venv_relevant excludes n = (\<not> list_ex (\<lambda>ex. prefix_match ex n) excludes)"

definition package_root_relevant :: "string list \<Rightarrow> string list \<Rightarrow> string \<Rightarrow> bool" where
  "package_root_relevant packages excludes n =
     (list_ex (\<lambda>pk. prefix_match pk n) packages \<and> \<not> list_ex (\<lambda>ex. prefix_match ex n) excludes)"

text \<open>The scan of a directory: every \<open>Source\<close> resource the predicate keeps is
  read and pushed; other flavours are skipped.\<close>

definition scan_sources ::
  "env \<Rightarrow> (string \<Rightarrow> bool) \<Rightarrow> bool \<Rightarrow> int \<Rightarrow> path \<Rightarrow> error + python_resource_entry list" where
  "scan_sources e relevant include_source optimize_level dir =
     concat_map_e (\<lambda>r.
        if flavor r = Source \<and> relevant (res_name r)
        then read_module e include_source optimize_level (res_name r) (res_path r)
        else Inr [])
       (scan e dir)"

definition resolve_virtualenv ::
  "env \<Rightarrow> path \<Rightarrow> int \<Rightarrow> string list \<Rightarrow> bool \<Rightarrow> python_distribution_info
     \<Rightarrow> error + python_resource_entry list" where
  "resolve_virtualenv e p optimize_level excludes include_source dist =
     (case site_packages_path p dist of
        Inl err \<Rightarrow> Inl err
      | Inr packages_path \<Rightarrow>
          scan_sources e (venv_relevant excludes) include_source optimize_level packages_path)"

definition resolve_package_root ::
  "env \<Rightarrow> path \<Rightarrow> string list \<Rightarrow> int \<Rightarrow> string list \<Rightarrow> bool \<Rightarrow> error + python_resource_entry list" where
  "resolve_package_root e p packages optimize_level excludes include_source =
     scan_sources e (package_root_relevant packages excludes) include_source optimize_level p"

definition resolve_pip_install_simple ::
  "env \<Rightarrow> string \<Rightarrow> int \<Rightarrow> bool \<Rightarrow> error + python_resource_entry list" where
  "resolve_pip_install_simple e package optimize_level include_source =
     (if \<not> pip_ready e then Inl (PipError package)
      else case pip_install e package of
        None \<Rightarrow> Inl (PipError package)
      | Some temp_dir \<Rightarrow> scan_sources e (\<lambda>_. True) include_source optimize_level temp_dir)"

subsection \<open>The resolver\<close>

fun resolve_python_packaging ::
  "env \<Rightarrow> python_packaging \<Rightarrow> python_distribution_info \<Rightarrow> error + python_resource_entry list" where
  "resolve_python_packaging e (StdlibExtensionsPolicy policy) dist = resolve_extensions_policy policy dist"
| "resolve_python_packaging e (StdlibExtensionsExplicitIncludes is) dist = resolve_explicit_includes is dist"
| "resolve_python_packaging e (StdlibExtensionsExplicitExcludes xs) dist = resolve_explicit_excludes xs dist"
| "resolve_python_packaging e (StdlibExtensionVariant ext v) dist = resolve_extension_variant ext v dist"
| "resolve_python_packaging e (Stdlib ol ex inc) dist = resolve_stdlib e ol ex inc dist"
| "resolve_python_packaging e (Virtualenv p ol xs inc) dist = resolve_virtualenv e p ol xs inc dist"
| "resolve_python_packaging e (PackageRoot p pks ol xs inc) dist = resolve_package_root e p pks ol xs inc"
| "resolve_python_packaging e (PipInstallSimple pkg ol inc) dist = resolve_pip_install_simple e pkg ol inc"
| "resolve_python_packaging e (FilterFileInclude p) dist = Inr []"
| "resolve_python_packaging e (FilterFilesInclude g) dist = Inr []"

text \<open>The name every resource carries.\<close>

fun resource_name :: "python_resource \<Rightarrow> string" where
  "resource_name (ExtensionModule n _) = n"
| "resource_name (ModuleSource n _) = n"
| "resource_name (ModuleBytecode n _ _) = n"
| "resource_name (PyResource n _) = n"

subsection \<open>Lemmas\<close>

lemma first_variant_Inr: "first_variant name vs = Inr em \<longleftrightarrow> vs \<noteq> [] \<and> em = hd vs"
  by (cases vs) auto

lemma first_variant_Inl: "first_variant name vs = Inl err \<longleftrightarrow> vs = [] \<and> err = IndexOutOfBounds name"
  by (cases vs) auto

lemma scan_loop_Inr:
  "concat_map_e (\<lambda>r. if flavor r = Source \<and> rel (res_name r)
                     then read_module e inc ol (res_name r) (res_path r) else Inr []) rs = Inr es \<Longrightarrow>
   es = concat (map (\<lambda>r. module_entries inc ol (res_name r) (the (fs e (res_path r))))
                  (filter (\<lambda>r. flavor r = Source \<and> rel (res_name r)) rs))"
  by (induction rs arbitrary: es) (auto simp: read_module_def split: if_splits option.splits sum.splits)

lemma scan_sources_Inr:
  "scan_sources e rel inc ol dir = Inr es \<Longrightarrow>
   es = concat (map (\<lambda>r. module_entries inc ol (res_name r) (the (fs e (res_path r))))
                  (filter (\<lambda>r. flavor r = Source \<and> rel (res_name r)) (scan e dir)))"
  unfolding scan_sources_def by (rule scan_loop_Inr)

lemma module_entries_names: "resource_name ` resource ` set (module_entries inc ol n src) = {n}"
  by (auto simp: module_entries_def add_entry_def)

lemma module_entries_concat_names:
  "resource_name ` resource ` set (concat (map (\<lambda>r. module_entries inc ol (res_name r) (h r)) rs)) = res_name ` set rs"
proof (induction rs)
  case (Cons r rs)
  then show ?case
    using module_entries_names [of inc ol "res_name r" "h r"] by (simp add: image_Un)
qed simp

lemma module_entries_Add: "x \<in> set (module_entries inc ol n src) \<Longrightarrow> action x = Add"
  by (auto simp: module_entries_def add_entry_def)

lemma concat_map_e_Add:
  "concat_map_e f xs = Inr ys \<Longrightarrow> (\<And>x zs z. f x = Inr zs \<Longrightarrow> z \<in> set zs \<Longrightarrow> action z = Add)
     \<Longrightarrow> y \<in> set ys \<Longrightarrow> action y = Add"
  by (blast dest: concat_map_e_Inr_set)

lemma is_stdlib_test_package_in_iff:
  "is_stdlib_test_package_in ps n \<longleftrightarrow> (\<exists>p \<in> set ps. starts_with n (p @ ''.''))"
  by (induction ps) auto

lemma test_packages_not_nested:
  "\<not> (\<exists>p \<in> set STDLIB_TEST_PACKAGES. \<exists>q \<in> set STDLIB_TEST_PACKAGES. starts_with q (p @ ''.''))"
  by (simp add: STDLIB_TEST_PACKAGES_def)

subsection \<open>Properties of the resolver\<close>

text \<open>C15 (safety). The \<open>Virtualenv\<close> rule keeps exactly the source modules of
  \<open>site-packages\<close> that are neither equal to an exclude nor inside it as a
  dotted child: an exclude \<open>foo.bar\<close> never drops \<open>foo.barbell\<close>.\<close>

theorem virtualenv_prefix_safety:
  assumes "resolve_virtualenv e p ol xs inc dist = Inr entries"
  shows "resource_name ` resource ` set entries =
    res_name ` set (filter (\<lambda>r. flavor r = Source \<and> (\<forall>x \<in> set xs. res_name r \<noteq> x \<and> \<not> starts_with (res_name r) (x @ ''.'')))
      (scan e (p @ [if os dist = ''windows'' then ''Lib'' else ''lib'', ''python'' @ take 3 (version dist), ''site-packages''])))"
proof -
  from assms have "3 \<le> length (version dist)"
    by (auto simp: resolve_virtualenv_def site_packages_path_def split: if_splits)
  with assms have "scan_sources e (venv_relevant xs) inc ol
      (p @ [if os dist = ''windows'' then ''Lib'' else ''lib'', ''python'' @ take 3 (version dist), ''site-packages''])
      = Inr entries"
    by (simp add: resolve_virtualenv_def site_packages_path_def)
  note es = scan_sources_Inr [OF this]
  have "resource_name ` resource ` set entries = res_name ` set (filter (\<lambda>r. flavor r = Source \<and> venv_relevant xs (res_name r))
      (scan e (p @ [if os dist = ''windows'' then ''Lib'' else ''lib'', ''python'' @ take 3 (version dist), ''site-packages''])))"
    by (simp only: es module_entries_concat_names)
  then show ?thesis
    by (simp add: venv_relevant_def prefix_match_def list_ex_iff)
qed

text \<open>C16 (safety). The resolver only ever emits \<open>Add\<close> actions: every
  \<open>Remove\<close> arm of the reducer's action switch is unreachable from a rule.\<close>

theorem resolver_only_adds:
  assumes "resolve_python_packaging e rule dist = Inr es" and "x \<in> set es"
  shows "action x = Add"
proof (cases rule)
  case (StdlibExtensionsPolicy policy)
  with assms show ?thesis
    by (auto simp: resolve_extensions_policy_def policy_entries_def add_entry_def
        split: if_splits sum.splits option.splits elim!: concat_map_e_Add)
next
  case (StdlibExtensionsExplicitIncludes names)
  with assms show ?thesis
    by (auto simp: resolve_explicit_includes_def add_entry_def split: sum.splits option.splits elim!: concat_map_e_Add)
next
  case (StdlibExtensionsExplicitExcludes names)
  with assms show ?thesis
    by (auto simp: resolve_explicit_excludes_def add_entry_def split: if_splits sum.splits elim!: concat_map_e_Add)
next
  case (StdlibExtensionVariant ext v)
  with assms show ?thesis
    by (auto simp: resolve_extension_variant_def add_entry_def Let_def split: if_splits option.splits)
next
  case (Stdlib ol ex inc)
  with assms show ?thesis
    by (auto simp: resolve_stdlib_def read_module_def split: if_splits option.splits
        elim!: concat_map_e_Add dest: module_entries_Add)
next
  case (Virtualenv p ol xs inc)
  with assms show ?thesis
    by (auto simp: resolve_virtualenv_def split: sum.splits dest!: scan_sources_Inr dest: module_entries_Add)
next
  case (PackageRoot p pks ol xs inc)
  with assms show ?thesis
    by (auto simp: resolve_package_root_def dest!: scan_sources_Inr dest: module_entries_Add)
next
  case (PipInstallSimple pkg ol inc)
  with assms show ?thesis
    by (auto simp: resolve_pip_install_simple_def split: if_splits option.splits
        dest!: scan_sources_Inr dest: module_entries_Add)
qed (use assms in simp_all)

text \<open>C17 (error). An unknown extension policy is only reported when the
  distribution has at least one extension module: the policy string is matched
  inside the loop over the extensions, so an empty distribution accepts any
  policy.\<close>

theorem extensions_policy_illegal:
  assumes "policy \<notin> {''minimal'', ''all'', ''no-libraries''}"
  shows "resolve_extensions_policy policy dist =
    (if extension_modules dist = [] then Inr [] else Inl (IllegalPolicy policy))"
  using assms
  by (cases "extension_modules dist") (auto simp: resolve_extensions_policy_def policy_entries_def)

text \<open>C18 (functional). \<open>is_stdlib_test_package\<close> holds exactly of the names that
  the dotted-prefix rule matches against a test package, except the test
  packages themselves: \<open>json.tests\<close> and \<open>test\<close> are not test modules.\<close>

theorem is_stdlib_test_package_iff:
  "is_stdlib_test_package n \<longleftrightarrow>
     (\<exists>p \<in> set STDLIB_TEST_PACKAGES. prefix_match p n) \<and> n \<notin> set STDLIB_TEST_PACKAGES"
  using test_packages_not_nested
  by (auto simp: is_stdlib_test_package_def is_stdlib_test_package_in_iff prefix_match_def)

text \<open>C19 (functional). \<open>StdlibExtensionsExplicitIncludes\<close> adds the first
  variant of every requested name that the distribution has, in the order of
  the request, and silently skips unknown names.\<close>

theorem explicit_includes_result:
  assumes "\<forall>(n, vs) \<in> set (extension_modules dist). vs \<noteq> []"
  shows "resolve_explicit_includes names dist =
    Inr (map (\<lambda>n. add_entry (ExtensionModule n (hd (the (om_get n (extension_modules dist))))))
             (filter (\<lambda>n. om_get n (extension_modules dist) \<noteq> None) names))"
proof -
  have "\<And>n vs. om_get n (extension_modules dist) = Some vs \<Longrightarrow> vs \<noteq> []"
    using assms by (auto dest: om_get_Some_in_set)
  then show ?thesis
    unfolding resolve_explicit_includes_def
    by (induction names) (auto simp: first_variant_Inr first_variant_Inl split: option.splits sum.splits)
qed

end
