(* ===== verification/Reducer.thy ===== *)
theory Reducer
  imports Resolver
begin

text \<open>
  The reducer \<open>resolve_python_resources\<close>
  (\<open>src/pyoxidizer/src/pyrepackager/repackage.rs\<close>, lines 560-710).  Its
  local variables are the fields of the record \<open>staging\<close>; the big
  \<open>match\<close> on \<open>(action, resource)\<close> is \<open>apply_entry\<close>; the two filter rules
  are \<open>process_filter\<close>; the passes after the loop are \<open>add_required\<close>,
  \<open>remove_ignored\<close> and \<open>compile_bytecodes\<close>; \<open>resolve_python_resources\<close>
  composes them.  Bytecode requests are only compiled after every rule has been
  applied, in key order, each with the compiler of the environment.
\<close>

record staging =
  st_extension_modules :: "(string, extension_module) btree_map"
  st_sources :: "(string, bytes) btree_map"
  st_bytecode_requests :: "(string, bytes \<times> int) btree_map"
  st_resources :: "(string, bytes) btree_map"
  st_read_files :: "path list"

definition empty_staging :: staging where
  "empty_staging = \<lparr>st_extension_modules = [], st_sources = [], st_bytecode_requests = [],
     st_resources = [], st_read_files = []\<rparr>"

fun apply_action :: "resource_action \<Rightarrow> python_resource \<Rightarrow> staging \<Rightarrow> staging" where
  "apply_action Add (ExtensionModule name em) st =
     st\<lparr>st_extension_modules := om_insert name em (st_extension_modules st)\<rparr>"
| "apply_action Remove (ExtensionModule name _) st =
     st\<lparr>st_extension_modules := om_remove name (st_extension_modules st)\<rparr>"
| "apply_action Add (ModuleSource name source) st =
     st\<lparr>st_sources := om_insert name source (st_sources st)\<rparr>"
| "apply_action Remove (ModuleSource name _) st =
     st\<lparr>st_sources := om_remove name (st_sources st)\<rparr>"
| "apply_action Add (ModuleBytecode name source optimize_level) st =
     st\<lparr>st_bytecode_requests := om_insert name (source, optimize_level) (st_bytecode_requests st)\<rparr>"
| "apply_action Remove (ModuleBytecode name _ _) st =
     st\<lparr>st_bytecode_requests := om_remove name (st_bytecode_requests st)\<rparr>"
| "apply_action Add (PyResource name d) st =
     st\<lparr>st_resources := om_insert name d (st_resources st)\<rparr>"
| "apply_action Remove (PyResource name _) st =
     st\<lparr>st_resources := om_remove name (st_resources st)\<rparr>"

definition apply_entry :: "staging \<Rightarrow> python_resource_entry \<Rightarrow> staging" where
  "apply_entry st entry = apply_action (action entry) (resource entry) st"

definition filter_staging :: "string set \<Rightarrow> staging \<Rightarrow> staging" where
  "filter_staging include_names st =
     st\<lparr>st_extension_modules := filter_btreemap (st_extension_modules st) include_names,
        st_sources := filter_btreemap (st_sources st) include_names,
        st_bytecode_requests := filter_btreemap (st_bytecode_requests st) include_names,
        st_resources := filter_btreemap (st_resources st) include_names\<rparr>"

text \<open>\<open>FilterFilesInclude\<close>: every file the glob matches is read, its names
  are added to the set and its path is recorded, in the glob's order.\<close>

definition read_glob_names ::
  "env \<Rightarrow> path list \<Rightarrow> string set \<times> path list \<Rightarrow> error + string set \<times> path list" where
  "read_glob_names e paths acc =
     fold_e (\<lambda>p (names, files).
        case read_resource_names_file e p of
          Inl err \<Rightarrow> Inl err
        | Inr new_names \<Rightarrow> Inr (names \<union> new_names, files @ [p]))
       paths acc"

fun process_filter :: "env \<Rightarrow> python_packaging \<Rightarrow> staging \<Rightarrow> error + staging" where
  "process_filter e (FilterFileInclude p) st =
     (case read_resource_names_file e p of
        Inl err \<Rightarrow> Inl err
      | Inr include_names \<Rightarrow>
          Inr ((filter_staging include_names st)\<lparr>st_read_files := st_read_files st @ [p]\<rparr>))"
| "process_filter e (FilterFilesInclude g) st =
     (case glob e g of
        None \<Rightarrow> Inl (GlobError g)
      | Some paths \<Rightarrow>
          (case read_glob_names e paths ({}, st_read_files st) of
             Inl err \<Rightarrow> Inl err
           | Inr (include_names, files) \<Rightarrow>
               Inr ((filter_staging include_names st)\<lparr>st_read_files := files\<rparr>)))"
| "process_filter e rule st = Inr st"

text \<open>One iteration of the loop over \<open>config.python_packaging\<close>.\<close>

definition process_rule ::
  "env \<Rightarrow> python_distribution_info \<Rightarrow> python_packaging \<Rightarrow> staging \<Rightarrow> error + staging" where
  "process_rule e dist rule st =
     (case resolve_python_packaging e rule dist of
        Inl err \<Rightarrow> Inl err
      | Inr entries \<Rightarrow> process_filter e rule (fold (\<lambda>entry st. apply_entry st entry) entries st))"

definition process_rules ::
  "env \<Rightarrow> python_distribution_info \<Rightarrow> python_packaging list \<Rightarrow> error + staging" where
  "process_rules e dist rules = fold_e (process_rule e dist) rules empty_staging"

text \<open>Extensions that are built in by default or required are added when
  missing, with their first variant.\<close>

definition add_required_one ::
  "string \<Rightarrow> extension_module list \<Rightarrow> (string, extension_module) btree_map
     \<Rightarrow> error + (string, extension_module) btree_map" where
  "add_required_one name variants ems =
     (case first_variant name variants of
        Inl err \<Rightarrow> Inl err
      | Inr em \<Rightarrow>
          Inr (if (builtin_default em \<or> required em) \<and> \<not> om_contains name ems
               then om_insert name em ems else ems))"

definition add_required ::
  "python_distribution_info \<Rightarrow> (string, extension_module) btree_map
     \<Rightarrow> error + (string, extension_module) btree_map" where
  "add_required dist ems =
     fold_e (\<lambda>(name, variants). add_required_one name variants) (extension_modules dist) ems"

definition remove_ignored ::
  "target_os \<Rightarrow> (string, extension_module) btree_map \<Rightarrow> (string, extension_module) btree_map" where
  "remove_ignored t ems = fold om_remove (OS_IGNORE_EXTENSIONS t) ems"

definition compile_bytecodes ::
  "env \<Rightarrow> (string, bytes \<times> int) btree_map \<Rightarrow> error + (string, bytes) btree_map" where
  "compile_bytecodes e requests =
     fold_e (\<lambda>(name, (source, optimize_level)) bytecodes.
        case compile e source name optimize_level of
          Inl msg \<Rightarrow> Inl (CompileError name msg)
        | Inr bytecode \<Rightarrow> Inr (om_insert name bytecode bytecodes))
       requests []"

definition resolve_python_resources ::
  "env \<Rightarrow> python_distribution_info \<Rightarrow> python_packaging list \<Rightarrow> error + python_resources" where
  "resolve_python_resources e dist rules =
     (case process_rules e dist rules of
        Inl err \<Rightarrow> Inl err
      | Inr st \<Rightarrow>
          (case add_required dist (st_extension_modules st) of
             Inl err \<Rightarrow> Inl err
           | Inr ems \<Rightarrow>
               (let ems' = remove_ignored (target e) ems in
                case compile_bytecodes e (st_bytecode_requests st) of
                  Inl err \<Rightarrow> Inl err
                | Inr bytecodes \<Rightarrow>
                    Inr \<lparr>module_sources = st_sources st,
                         module_bytecodes = bytecodes,
                         all_modules = set (om_keys (st_sources st)) \<union> set (om_keys bytecodes),
                         resources = st_resources st,
                         pr_extension_modules = ems',
                         read_files = st_read_files st\<rparr>)))"

subsection \<open>The invariant and the abstract staging state\<close>

definition staging_wf :: "staging \<Rightarrow> bool" where
  "staging_wf st \<longleftrightarrow> om_wf (st_extension_modules st) \<and> om_wf (st_sources st)
     \<and> om_wf (st_bytecode_requests st) \<and> om_wf (st_resources st)"

text \<open>What the staging maps promise, with the representation forgotten: four
  partial maps, updated by \<open>Add\<close> (last write wins) and \<open>Remove\<close>, and
  restricted to the whitelist by a filter.\<close>

record abs_staging =
  a_extensions :: "string \<rightharpoonup> extension_module"
  a_sources :: "string \<rightharpoonup> bytes"
  a_requests :: "string \<rightharpoonup> bytes \<times> int"
  a_resources :: "string \<rightharpoonup> bytes"

definition abs_of :: "staging \<Rightarrow> abs_staging" where
  "abs_of st = \<lparr>a_extensions = om_lookup (st_extension_modules st), a_sources = om_lookup (st_sources st),
     a_requests = om_lookup (st_bytecode_requests st), a_resources = om_lookup (st_resources st)\<rparr>"

fun abs_apply :: "abs_staging \<Rightarrow> python_resource_entry \<Rightarrow> abs_staging" where
  "abs_apply a entry =
     (case (action entry, resource entry) of
        (Add, ExtensionModule n em) \<Rightarrow> a\<lparr>a_extensions := (a_extensions a)(n \<mapsto> em)\<rparr>
      | (Remove, ExtensionModule n _) \<Rightarrow> a\<lparr>a_extensions := (a_extensions a)(n := None)\<rparr>
      | (Add, ModuleSource n s) \<Rightarrow> a\<lparr>a_sources := (a_sources a)(n \<mapsto> s)\<rparr>
      | (Remove, ModuleSource n _) \<Rightarrow> a\<lparr>a_sources := (a_sources a)(n := None)\<rparr>
      | (Add, ModuleBytecode n s ol) \<Rightarrow> a\<lparr>a_requests := (a_requests a)(n \<mapsto> (s, ol))\<rparr>
      | (Remove, ModuleBytecode n _ _) \<Rightarrow> a\<lparr>a_requests := (a_requests a)(n := None)\<rparr>
      | (Add, PyResource n d) \<Rightarrow> a\<lparr>a_resources := (a_resources a)(n \<mapsto> d)\<rparr>
      | (Remove, PyResource n _) \<Rightarrow> a\<lparr>a_resources := (a_resources a)(n := None)\<rparr>)"

definition abs_filter :: "string set \<Rightarrow> abs_staging \<Rightarrow> abs_staging" where
  "abs_filter names a = \<lparr>a_extensions = a_extensions a |` names, a_sources = a_sources a |` names,
     a_requests = a_requests a |` names, a_resources = a_resources a |` names\<rparr>"

subsection \<open>Lemmas: the invariant is kept\<close>

lemma staging_wf_empty [simp]: "staging_wf empty_staging"
  by (simp add: staging_wf_def empty_staging_def)

lemma staging_wf_apply_entry [simp]: "staging_wf st \<Longrightarrow> staging_wf (apply_entry st entry)"
  by (cases "action entry"; cases "resource entry") (simp_all add: staging_wf_def apply_entry_def)

lemma staging_wf_fold_apply [simp]:
  "staging_wf st \<Longrightarrow> staging_wf (fold (\<lambda>entry st. apply_entry st entry) entries st)"
  by (induction entries arbitrary: st) simp_all

lemma staging_wf_filter [simp]: "staging_wf st \<Longrightarrow> staging_wf (filter_staging names st)"
  by (simp add: staging_wf_def filter_staging_def)

lemma staging_wf_read_files [simp]: "staging_wf (st\<lparr>st_read_files := ps\<rparr>) = staging_wf st"
  by (simp add: staging_wf_def)

lemma staging_wf_process_filter:
  "process_filter e rule st = Inr st' \<Longrightarrow> staging_wf st \<Longrightarrow> staging_wf st'"
  by (cases "(e, rule, st)" rule: process_filter.cases) (auto split: sum.splits prod.splits option.splits)

lemma staging_wf_process_rule:
  "process_rule e dist rule st = Inr st' \<Longrightarrow> staging_wf st \<Longrightarrow> staging_wf st'"
  by (auto simp: process_rule_def split: sum.splits intro: staging_wf_process_filter)

lemma staging_wf_process_rules:
  "process_rules e dist rules = Inr st \<Longrightarrow> staging_wf st"
  unfolding process_rules_def
  by (erule fold_e_invariant) (auto intro: staging_wf_process_rule)

subsection \<open>Lemmas: refinement of the abstract staging state\<close>

lemma abs_of_apply_entry:
  "staging_wf st \<Longrightarrow> abs_of (apply_entry st entry) = abs_apply (abs_of st) entry"
  by (cases "action entry"; cases "resource entry")
     (simp_all add: abs_of_def apply_entry_def staging_wf_def om_lookup_insert om_lookup_remove)

lemma abs_of_fold_apply:
  "staging_wf st \<Longrightarrow>
     abs_of (fold (\<lambda>entry st. apply_entry st entry) entries st) = fold (\<lambda>e a. abs_apply a e) entries (abs_of st)"
  by (induction entries arbitrary: st) (simp_all add: abs_of_apply_entry del: abs_apply.simps)

lemma om_lookup_filter_btreemap:
  "om_wf m \<Longrightarrow> om_lookup (filter_btreemap m names) = om_lookup m |` names"
  by (simp add: om_lookup_def restrict_map_def fun_eq_iff)

lemma abs_of_filter:
  "staging_wf st \<Longrightarrow> abs_of (filter_staging names st) = abs_filter names (abs_of st)"
  by (simp add: abs_of_def abs_filter_def filter_staging_def staging_wf_def om_lookup_filter_btreemap)

lemma abs_of_read_files [simp]: "abs_of (st\<lparr>st_read_files := ps\<rparr>) = abs_of st"
  by (simp add: abs_of_def)

subsection \<open>Lemmas: the filter rules\<close>

lemma read_resource_names_file_ok:
  "(\<exists>names. read_resource_names_file e p = Inr names) \<longleftrightarrow> (\<exists>c. fs e p = Some c \<and> valid_utf8 c)"
  by (auto simp: read_resource_names_file_def split: option.splits)

lemma read_glob_names_Inr:
  assumes "\<forall>q \<in> set paths. read_resource_names_file e q = Inr (N q)"
  shows "read_glob_names e paths (A, files) = Inr (A \<union> (\<Union>q \<in> set paths. N q), files @ paths)"
  using assms
proof (induction paths arbitrary: A files)
  case (Cons q paths)
  then have "read_glob_names e paths (A \<union> N q, files @ [q])
      = Inr (A \<union> N q \<union> (\<Union>q \<in> set paths. N q), (files @ [q]) @ paths)"
    by simp
  with Cons.prems show ?case
    by (simp add: read_glob_names_def Un_assoc)
qed (simp add: read_glob_names_def)

lemma read_glob_names_ok:
  "(\<exists>r. read_glob_names e paths acc = Inr r) \<longleftrightarrow> (\<forall>q \<in> set paths. \<exists>names. read_resource_names_file e q = Inr names)"
proof (induction paths arbitrary: acc)
  case (Cons q paths)
  obtain A files where acc: "acc = (A, files)" by (cases acc)
  show ?case
  proof (cases "read_resource_names_file e q")
    case (Inr names)
    then have "read_glob_names e (q # paths) acc = read_glob_names e paths (A \<union> names, files @ [q])"
      by (simp add: read_glob_names_def acc)
    with Cons.IH Inr show ?thesis by simp
  qed (simp add: read_glob_names_def acc)
qed (simp add: read_glob_names_def)

lemma process_rule_filter:
  "process_rule e dist (FilterFileInclude p) st = process_filter e (FilterFileInclude p) st"
  "process_rule e dist (FilterFilesInclude g) st = process_filter e (FilterFilesInclude g) st"
  by (simp_all add: process_rule_def)

subsection \<open>Lemmas: the passes after the rules\<close>

lemma add_required_fold:
  assumes "fold_e (\<lambda>(name, variants). add_required_one name variants) xs ems = Inr ems'"
    and "om_wf ems"
  shows "om_wf ems' \<and> set (om_keys ems) \<subseteq> set (om_keys ems') \<and>
    (\<forall>(n, vs) \<in> set xs. vs \<noteq> [] \<and> (builtin_default (hd vs) \<or> required (hd vs)) \<longrightarrow>
       n \<in> set (om_keys ems'))"
  using assms
proof (induction xs arbitrary: ems)
  case (Cons x xs)
  obtain n vs where x: "x = (n, vs)" by (cases x)
  from Cons.prems x obtain ems1 where
    one: "add_required_one n vs ems = Inr ems1" and
    rest: "fold_e (\<lambda>(name, variants). add_required_one name variants) xs ems1 = Inr ems'"
    by (auto split: sum.splits)
  from one Cons.prems(2) obtain v vs' where vs: "vs = v # vs'" and
    ems1: "ems1 = (if (builtin_default v \<or> required v) \<and> \<not> om_contains n ems
                   then om_insert n v ems else ems)"
    by (cases vs) (auto simp: add_required_one_def)
  have wf1: "om_wf ems1" and sub1: "set (om_keys ems) \<subseteq> set (om_keys ems1)"
    and n1: "builtin_default v \<or> required v \<Longrightarrow> n \<in> set (om_keys ems1)"
    using Cons.prems(2) ems1 by (auto simp: om_contains_keys)
  from Cons.IH [OF rest wf1] sub1 n1 x vs show ?case by auto
qed simp

lemma add_required_closure:
  assumes "add_required dist ems = Inr ems'" and "om_wf ems"
    and "(name, v # vs) \<in> set (extension_modules dist)" and "builtin_default v \<or> required v"
  shows "name \<in> set (om_keys ems')"
  using add_required_fold [OF assms(1) [unfolded add_required_def] assms(2)] assms(3,4) by fastforce

lemma add_required_wf:
  "add_required dist ems = Inr ems' \<Longrightarrow> om_wf ems \<Longrightarrow> om_wf ems'"
  unfolding add_required_def by (blast dest: add_required_fold)

lemma remove_ignored_fold:
  "om_wf ems \<Longrightarrow> om_wf (fold om_remove ks ems) \<and> set (om_keys (fold om_remove ks ems)) = set (om_keys ems) - set ks"
  by (induction ks arbitrary: ems) auto

lemma remove_ignored_keys:
  "om_wf ems \<Longrightarrow> set (om_keys (remove_ignored t ems)) = set (om_keys ems) - set (OS_IGNORE_EXTENSIONS t)"
  by (simp add: remove_ignored_def remove_ignored_fold)

lemma remove_ignored_wf: "om_wf ems \<Longrightarrow> om_wf (remove_ignored t ems)"
  by (simp add: remove_ignored_def remove_ignored_fold)

lemma compile_fold:
  assumes "fold_e (\<lambda>(name, (source, optimize_level)) bytecodes.
        case compile e source name optimize_level of
          Inl msg \<Rightarrow> Inl (CompileError name msg)
        | Inr bytecode \<Rightarrow> Inr (om_insert name bytecode bytecodes)) reqs acc = Inr bcs"
    and "distinct (om_keys reqs)" and "om_wf acc"
  shows "om_wf bcs \<and> (\<forall>n b. om_get n bcs = Some b \<longleftrightarrow>
     (case om_get n reqs of None \<Rightarrow> om_get n acc = Some b
      | Some (src, ol) \<Rightarrow> compile e src n ol = Inr b))"
  using assms
proof (induction reqs arbitrary: acc)
  case (Cons r reqs)
  obtain n0 s0 o0 where r: "r = (n0, (s0, o0))" by (cases r) auto
  from Cons.prems(1) r obtain b0 where c0: "compile e s0 n0 o0 = Inr b0" and
    rest: "fold_e (\<lambda>(name, (source, optimize_level)) bytecodes.
        case compile e source name optimize_level of
          Inl msg \<Rightarrow> Inl (CompileError name msg)
        | Inr bytecode \<Rightarrow> Inr (om_insert name bytecode bytecodes)) reqs (om_insert n0 b0 acc) = Inr bcs"
    by (auto split: sum.splits)
  have d: "distinct (om_keys reqs)" and n0: "n0 \<notin> set (om_keys reqs)"
    using Cons.prems(2) r by (simp_all add: om_keys_def)
  have IH: "om_wf bcs \<and> (\<forall>n b. om_get n bcs = Some b \<longleftrightarrow>
     (case om_get n reqs of None \<Rightarrow> om_get n (om_insert n0 b0 acc) = Some b
      | Some (src, ol) \<Rightarrow> compile e src n ol = Inr b))"
    using Cons.IH [OF rest d] Cons.prems(3) by simp
  have "om_get n0 reqs = None" using n0 by (rule om_get_notin_keys)
  with IH c0 r show ?case by (auto split: option.splits)
qed simp

lemma compile_bytecodes_get:
  assumes "compile_bytecodes e reqs = Inr bcs" and "om_wf reqs"
  shows "om_wf bcs \<and> (\<forall>n b. om_get n bcs = Some b \<longleftrightarrow>
     (\<exists>src ol. om_get n reqs = Some (src, ol) \<and> compile e src n ol = Inr b))"
proof -
  have "distinct (om_keys reqs)" using assms(2) by (rule om_wf_distinct)
  from compile_fold [OF assms(1) [unfolded compile_bytecodes_def] this om_wf_Nil] show ?thesis
    by (auto split: option.splits)
qed

lemma resolve_python_resources_Inr:
  assumes "resolve_python_resources e dist rules = Inr r"
  obtains st ems bcs where "process_rules e dist rules = Inr st"
    and "add_required dist (st_extension_modules st) = Inr ems"
    and "compile_bytecodes e (st_bytecode_requests st) = Inr bcs"
    and "r = \<lparr>module_sources = st_sources st, module_bytecodes = bcs,
         all_modules = set (om_keys (st_sources st)) \<union> set (om_keys bcs),
         resources = st_resources st, pr_extension_modules = remove_ignored (target e) ems,
         read_files = st_read_files st\<rparr>"
  using assms by (auto simp: resolve_python_resources_def Let_def split: sum.splits)

lemma filter_staging_idem:
  "staging_wf st \<Longrightarrow> filter_staging names (filter_staging names st) = filter_staging names st"
  by (simp add: filter_staging_def staging_wf_def filter_btreemap_idem)

lemma process_rules_wf_maps:
  assumes "process_rules e dist rules = Inr st"
  shows "om_wf (st_extension_modules st)" "om_wf (st_sources st)"
    "om_wf (st_bytecode_requests st)" "om_wf (st_resources st)"
  using staging_wf_process_rules [OF assms] by (simp_all add: staging_wf_def)

subsection \<open>Properties of the reducer\<close>

text \<open>C4 (invariant). After reduction every extension whose first variant is
  built in by default or required is staged, unless the target's ignore list
  names it: whatever the rules added, removed or filtered.\<close>

theorem required_extensions_closure:
  assumes "resolve_python_resources e dist rules = Inr r"
    and "(name, v # vs) \<in> set (extension_modules dist)"
    and "builtin_default v \<or> required v"
    and "name \<notin> set (OS_IGNORE_EXTENSIONS (target e))"
  shows "name \<in> set (om_keys (pr_extension_modules r))"
proof -
  obtain st ems bcs where st: "process_rules e dist rules = Inr st"
    and ems: "add_required dist (st_extension_modules st) = Inr ems"
    and r: "pr_extension_modules r = remove_ignored (target e) ems"
    using assms(1) by (rule resolve_python_resources_Inr) simp
  have wf: "om_wf (st_extension_modules st)" using st by (rule process_rules_wf_maps)
  have "name \<in> set (om_keys ems)"
    using ems wf assms(2,3) by (rule add_required_closure)
  moreover have "om_wf ems" using ems wf by (rule add_required_wf)
  ultimately show ?thesis
    using assms(4) r by (simp add: remove_ignored_keys)
qed

text \<open>C5 (safety). No extension on the target's ignore list is ever staged,
  even a required one.\<close>

theorem ignored_extensions_absent:
  assumes "resolve_python_resources e dist rules = Inr r"
    and "name \<in> set (OS_IGNORE_EXTENSIONS (target e))"
  shows "name \<notin> set (om_keys (pr_extension_modules r))"
proof -
  obtain st ems bcs where st: "process_rules e dist rules = Inr st"
    and ems: "add_required dist (st_extension_modules st) = Inr ems"
    and r: "pr_extension_modules r = remove_ignored (target e) ems"
    using assms(1) by (rule resolve_python_resources_Inr) simp
  have "om_wf ems" using ems process_rules_wf_maps(1) [OF st] by (rule add_required_wf)
  with assms(2) r show ?thesis by (simp add: remove_ignored_keys)
qed

text \<open>C6 (functional). Bytecode is compiled once, after all rules: the bytecode
  map holds exactly the compiler's output for the requests that survived
  staging, so a request that a later rule removed or filtered is never
  compiled into the result.\<close>

theorem bytecodes_from_final_requests:
  assumes "resolve_python_resources e dist rules = Inr r"
  shows "\<exists>st. process_rules e dist rules = Inr st \<and>
    (\<forall>n b. om_get n (module_bytecodes r) = Some b \<longleftrightarrow>
       (\<exists>src ol. om_get n (st_bytecode_requests st) = Some (src, ol) \<and> compile e src n ol = Inr b))"
proof -
  obtain st ems bcs where st: "process_rules e dist rules = Inr st"
    and bcs: "compile_bytecodes e (st_bytecode_requests st) = Inr bcs"
    and r: "module_bytecodes r = bcs"
    using assms by (rule resolve_python_resources_Inr) simp
  have "om_wf (st_bytecode_requests st)" using st by (rule process_rules_wf_maps)
  with bcs have "\<forall>n b. om_get n bcs = Some b \<longleftrightarrow>
      (\<exists>src ol. om_get n (st_bytecode_requests st) = Some (src, ol) \<and> compile e src n ol = Inr b)"
    by (blast dest: compile_bytecodes_get)
  with st r show ?thesis by blast
qed

lemma resolve_python_resources_wf:
  assumes "resolve_python_resources e dist rules = Inr r"
  shows "om_wf (module_sources r) \<and> om_wf (module_bytecodes r) \<and> om_wf (resources r)
    \<and> om_wf (pr_extension_modules r)
    \<and> all_modules r = set (om_keys (module_sources r)) \<union> set (om_keys (module_bytecodes r))"
proof -
  obtain st ems bcs where st: "process_rules e dist rules = Inr st"
    and ems: "add_required dist (st_extension_modules st) = Inr ems"
    and bcs: "compile_bytecodes e (st_bytecode_requests st) = Inr bcs"
    and r: "r = \<lparr>module_sources = st_sources st, module_bytecodes = bcs,
         all_modules = set (om_keys (st_sources st)) \<union> set (om_keys bcs),
         resources = st_resources st, pr_extension_modules = remove_ignored (target e) ems,
         read_files = st_read_files st\<rparr>"
    using assms by (rule resolve_python_resources_Inr)
  note wf = process_rules_wf_maps [OF st]
  have "om_wf bcs" using compile_bytecodes_get [OF bcs wf(3)] by blast
  moreover have "om_wf (remove_ignored (target e) ems)"
    using add_required_wf [OF ems wf(1)] by (rule remove_ignored_wf)
  ultimately show ?thesis using r wf by simp
qed

text \<open>Applying the same \<open>FilterFileInclude\<close> rule twice in
  succession leaves the staging maps as the first application left them; only
  the file is recorded a second time in \<open>read_files\<close>.\<close>

theorem filter_rule_idempotent:
  assumes "staging_wf st"
    and "process_rule e dist (FilterFileInclude p) st = Inr st1"
  shows "process_rule e dist (FilterFileInclude p) st1 = Inr (st1\<lparr>st_read_files := st_read_files st1 @ [p]\<rparr>)"
proof -
  from assms(2) obtain names where names: "read_resource_names_file e p = Inr names"
    and st1: "st1 = (filter_staging names st)\<lparr>st_read_files := st_read_files st @ [p]\<rparr>"
    by (auto simp: process_rule_def split: sum.splits)
  have "filter_staging names st1
      = (filter_staging names (filter_staging names st))\<lparr>st_read_files := st_read_files st @ [p]\<rparr>"
    using st1 by (simp add: filter_staging_def)
  also have "\<dots> = st1"
    using st1 filter_staging_idem [OF assms(1), of names] by simp
  finally show ?thesis using names by (simp add: process_rule_def)
qed

text \<open>C8 (equivalence). \<open>filter_btreemap\<close>, which collects the keys and then
  removes those not whitelisted one by one, is a single filter pass that keeps
  the pairs whose key is whitelisted; as a partial map it is the restriction
  to the whitelist.\<close>

theorem filter_btreemap_equiv:
  assumes "om_wf m"
  shows "filter_btreemap m names = filter (\<lambda>p. fst p \<in> names) m
    \<and> om_lookup (filter_btreemap m names) = om_lookup m |` names"
  using filter_btreemap_filter [OF assms] om_lookup_filter_btreemap [OF assms] by (rule conjI)

text \<open>C9 (refinement). A rule that is not a filter implements the abstract
  staging semantics: its actions update four partial maps in order, an
  \<open>Add\<close> overwriting and a \<open>Remove\<close> deleting by name.\<close>

theorem process_rule_refines:
  assumes "staging_wf st"
    and "resolve_python_packaging e rule dist = Inr entries"
    and "\<forall>p. rule \<noteq> FilterFileInclude p" and "\<forall>g. rule \<noteq> FilterFilesInclude g"
    and "process_rule e dist rule st = Inr st'"
  shows "abs_of st' = fold (\<lambda>entry a. abs_apply a entry) entries (abs_of st)"
proof -
  have "process_filter e rule (fold (\<lambda>entry st. apply_entry st entry) entries st)
      = Inr (fold (\<lambda>entry st. apply_entry st entry) entries st)"
    using assms(3,4) by (cases rule) simp_all
  then have "st' = fold (\<lambda>entry st. apply_entry st entry) entries st"
    using assms(2,5) by (simp add: process_rule_def)
  with assms(1) show ?thesis by (simp add: abs_of_fold_apply del: abs_apply.simps)
qed

text \<open>C11 (refinement). A \<open>FilterFilesInclude\<close> rule whose glob matches files
  that all read as names files implements the abstract filter: the four staging
  maps are restricted to the union of the names of all the files, and the files
  are recorded in the glob's order.\<close>

theorem filter_files_refines:
  assumes "staging_wf st" and "glob e g = Some paths"
    and "\<forall>q \<in> set paths. read_resource_names_file e q = Inr (N q)"
  shows "\<exists>st'. process_rule e dist (FilterFilesInclude g) st = Inr st'
    \<and> abs_of st' = abs_filter (\<Union>q \<in> set paths. N q) (abs_of st)
    \<and> st_read_files st' = st_read_files st @ paths"
  using read_glob_names_Inr [OF assms(3), of "{}" "st_read_files st"] assms(1,2)
  by (simp add: process_rule_filter abs_of_filter)

text \<open>C20 (error). A filter rule fails exactly when a names file it reads is
  missing or not UTF-8 (for \<open>FilterFilesInclude\<close>: when the glob fails or
  one of the files it matches is missing or not UTF-8).\<close>

theorem filter_rules_succeed_iff:
  "((\<exists>st'. process_rule e dist (FilterFileInclude p) st = Inr st') \<longleftrightarrow> (\<exists>c. fs e p = Some c \<and> valid_utf8 c))
   \<and> ((\<exists>st'. process_rule e dist (FilterFilesInclude g) st = Inr st') \<longleftrightarrow>
        (\<exists>paths. glob e g = Some paths \<and> (\<forall>q \<in> set paths. \<exists>c. fs e q = Some c \<and> valid_utf8 c)))"
proof
  show "(\<exists>st'. process_rule e dist (FilterFileInclude p) st = Inr st') \<longleftrightarrow> (\<exists>c. fs e p = Some c \<and> valid_utf8 c)"
    using read_resource_names_file_ok [of e p]
    by (auto simp: process_rule_filter split: sum.splits)
next
  have "(\<exists>st'. process_filter e (FilterFilesInclude g) st = Inr st') \<longleftrightarrow>
      (\<exists>paths. glob e g = Some paths \<and> (\<exists>r. read_glob_names e paths ({}, st_read_files st) = Inr r))"
    by (auto split: option.splits sum.splits prod.splits)
  then show "(\<exists>st'. process_rule e dist (FilterFilesInclude g) st = Inr st') \<longleftrightarrow>
      (\<exists>paths. glob e g = Some paths \<and> (\<forall>q \<in> set paths. \<exists>c. fs e q = Some c \<and> valid_utf8 c))"
  proof -
    have "(\<exists>r. read_glob_names e paths ({}, st_read_files st) = Inr r) \<longleftrightarrow>
        (\<forall>q \<in> set paths. \<exists>c. fs e q = Some c \<and> valid_utf8 c)" for paths
      unfolding read_glob_names_ok using read_resource_names_file_ok by blast
    with \<open>(\<exists>st'. process_filter e (FilterFilesInclude g) st = Inr st') \<longleftrightarrow> _\<close> show ?thesis
      unfolding process_rule_filter by blast
  qed
qed

end
