(* ===== verification/ConfigC.thy ===== *)
theory ConfigC
  imports Resources
begin

text \<open>
  The \<open>config.c\<close> generator \<open>make_config_c\<close>
  (\<open>src/pyoxidizer/src/pyrepackager/repackage.rs\<close>, lines 789-824).  It
  walks the staged extension map twice in key order: once for the \<open>extern\<close>
  declarations, once for the rows of \<open>_PyImport_Inittab\<close>.  An extension
  without an init function, or whose init function is the literal \<open>NULL\<close>,
  contributes to neither.  The lines are joined with newlines, with no newline
  after the last.
\<close>

text \<open>\<open>if let Some(init_fn) = &em.init_fn { if init_fn == "NULL" { continue; } ... }\<close>\<close>

definition init_fn_of :: "extension_module \<Rightarrow> string option" where
  "init_fn_of em = (case init_fn em of None \<Rightarrow> None | Some f \<Rightarrow> if f = ''NULL'' then None else Some f)"

definition extern_lines :: "(string, extension_module) btree_map \<Rightarrow> string list" where
  \<open>extern_lines ems =
     concat (map (\<lambda>em. case init_fn_of em of None \<Rightarrow> [] | Some f \<Rightarrow> [''extern PyObject* '' @ f @ ''(void);''])
       (om_values ems))\<close>

definition inittab_lines :: "(string, extension_module) btree_map \<Rightarrow> string list" where
  \<open>inittab_lines ems =
     concat (map (\<lambda>em. case init_fn_of em of None \<Rightarrow> [] | Some f \<Rightarrow> [''{"'' @ module em @ ''", '' @ f @ ''},''])
       (om_values ems))\<close>

definition config_c_lines :: "(string, extension_module) btree_map \<Rightarrow> string list" where
  \<open>config_c_lines ems =
     [''#include "Python.h"''] @ extern_lines ems @ [''struct _inittab _PyImport_Inittab[] = {'']
     @ inittab_lines ems @ [''{0, 0}'', ''};'']\<close>

definition make_config_c :: "(string, extension_module) btree_map \<Rightarrow> string" where
  "make_config_c ems = join_with [CHR 0x0A] (config_c_lines ems)"

text \<open>For the proofs: the module name and init function of each row, in the
  order \<open>inittab_lines\<close> and \<open>extern_lines\<close> write them (both are maps of
  this list, lemmas \<open>inittab_lines_rows\<close> and \<open>extern_lines_snd\<close>).\<close>

definition inittab_rows :: "(string, extension_module) btree_map \<Rightarrow> (string \<times> string) list" where
  "inittab_rows ems =
     concat (map (\<lambda>em. case init_fn_of em of None \<Rightarrow> [] | Some f \<Rightarrow> [(module em, f)]) (om_values ems))"

definition has_init_fn :: "extension_module \<Rightarrow> bool" where
  "has_init_fn em \<longleftrightarrow> init_fn_of em \<noteq> None"

text \<open>Reading the generated file back: after the include, a run of
  \<open>extern\<close> declarations, the table header, a run of rows
  \<open>{"module", init_fn},\<close>, then exactly the sentinel \<open>{0, 0}\<close> and the closing
  brace.  This is the reading of \<open>config.c\<close> that CPython's \<open>PyImport_Inittab\<close>
  relies on, used to state what the generator emits; it is not code of the
  repository.\<close>

definition strip_affixes :: "string \<Rightarrow> string \<Rightarrow> string \<Rightarrow> string option" where
  "strip_affixes pre suf l =
     (if length pre + length suf \<le> length l \<and> take (length pre) l = pre
         \<and> drop (length l - length suf) l = suf
      then Some (drop (length pre) (take (length l - length suf) l)) else None)"

definition parse_extern :: "string \<Rightarrow> string option" where
  "parse_extern l = strip_affixes ''extern PyObject* '' ''(void);'' l"

definition parse_row :: "string \<Rightarrow> (string \<times> string) option" where
  \<open>parse_row l =
     (case strip_affixes ''{"'' ''},'' l of
        None \<Rightarrow> None
      | Some mid \<Rightarrow>
          (let r = dropWhile (\<lambda>c. c \<noteq> CHR 0x22) mid in
           if take 3 r = ''", '' then Some (takeWhile (\<lambda>c. c \<noteq> CHR 0x22) mid, drop 3 r) else None))\<close>

fun take_parsed :: "(string \<Rightarrow> 'b option) \<Rightarrow> string list \<Rightarrow> 'b list \<times> string list" where
  "take_parsed p [] = ([], [])"
| "take_parsed p (l # ls) =
     (case p l of
        None \<Rightarrow> ([], l # ls)
      | Some x \<Rightarrow> (let (xs, rest) = take_parsed p ls in (x # xs, rest)))"

definition parse_config_c :: "string \<Rightarrow> (string list \<times> (string \<times> string) list) option" where
  \<open>parse_config_c src =
     (case split_lines src [] of
        [] \<Rightarrow> None
      | l0 # ls \<Rightarrow>
          if l0 \<noteq> ''#include "Python.h"'' then None
          else (case take_parsed parse_extern ls of
                  (_, []) \<Rightarrow> None
                | (decls, hdr # ls2) \<Rightarrow>
                    if hdr \<noteq> ''struct _inittab _PyImport_Inittab[] = {'' then None
                    else (case take_parsed parse_row ls2 of
                            (rows, rest) \<Rightarrow> if rest = [''{0, 0}'', ''};''] then Some (decls, rows) else None)))\<close>

subsection \<open>Lemmas\<close>

lemma init_fn_of_Some: "init_fn_of em = Some f \<longleftrightarrow> init_fn em = Some f \<and> f \<noteq> ''NULL''"
  by (auto simp: init_fn_of_def split: option.splits)

lemma Some_init_fn_of: "Some f = init_fn_of em \<longleftrightarrow> init_fn em = Some f \<and> f \<noteq> ''NULL''"
  by (auto simp: init_fn_of_def split: option.splits)

lemma inittab_lines_rows:
  \<open>inittab_lines ems = map (\<lambda>(m, f). ''{"'' @ m @ ''", '' @ f @ ''},'') (inittab_rows ems)\<close>
  by (induction ems) (auto simp: inittab_lines_def inittab_rows_def om_values_def split: option.splits)

lemma inittab_rows_filter:
  "inittab_rows ems = map (\<lambda>(k, em). (module em, the (init_fn_of em))) (filter (\<lambda>p. has_init_fn (snd p)) ems)"
  by (induction ems) (auto simp: inittab_rows_def om_values_def has_init_fn_def split: option.splits)

lemma has_init_fn_iff: "has_init_fn em \<longleftrightarrow> (\<exists>f. init_fn em = Some f \<and> f \<noteq> ''NULL'')"
  by (auto simp: has_init_fn_def init_fn_of_def split: option.splits)

lemma extern_lines_snd:
  "extern_lines ems = map (\<lambda>f. ''extern PyObject* '' @ f @ ''(void);'') (map snd (inittab_rows ems))"
  by (induction ems) (auto simp: extern_lines_def inittab_rows_def om_values_def split: option.splits)

lemma strip_affixes_append: "strip_affixes pre suf (pre @ x @ suf) = Some x"
  by (simp add: strip_affixes_def)

lemma parse_extern_line: "parse_extern (''extern PyObject* '' @ f @ ''(void);'') = Some f"
  unfolding parse_extern_def by (rule strip_affixes_append)

lemma parse_row_line:
  assumes "CHR 0x22 \<notin> set m"
  shows \<open>parse_row (''{"'' @ m @ ''", '' @ f @ ''},'') = Some (m, f)\<close>
proof -
  have s: \<open>strip_affixes ''{"'' ''},'' (''{"'' @ (m @ ''", '' @ f) @ ''},'') = Some (m @ ''", '' @ f)\<close>
    by (rule strip_affixes_append)
  have \<open>dropWhile (\<lambda>c. c \<noteq> CHR 0x22) (m @ ''", '' @ f) = ''", '' @ f\<close>
    using assms by (subst dropWhile_append2) auto
  moreover have \<open>takeWhile (\<lambda>c. c \<noteq> CHR 0x22) (m @ ''", '' @ f) = m\<close>
    using assms by (subst takeWhile_append2) auto
  ultimately show ?thesis
    using s unfolding parse_row_def by simp
qed

lemma parse_extern_header: "parse_extern ''struct _inittab _PyImport_Inittab[] = {'' = None"
  by (simp add: parse_extern_def strip_affixes_def)

lemma parse_row_sentinel: "parse_row ''{0, 0}'' = None"
  by (simp add: parse_row_def strip_affixes_def)

lemma take_parsed_run:
  "\<forall>x \<in> set xs. p (g x) = Some x \<Longrightarrow> p l = None \<Longrightarrow> take_parsed p (map g xs @ l # rest) = (xs, l # rest)"
  by (induction xs) simp_all

lemma inittab_rows_keys:
  assumes "om_wf ems" and "\<forall>(k, em) \<in> set ems. module em = k"
  shows "map fst (inittab_rows ems) =
    sorted_list_of_set {k. \<exists>em f. om_get k ems = Some em \<and> init_fn em = Some f \<and> f \<noteq> ''NULL''}"
proof -
  let ?fs = "filter (\<lambda>p. has_init_fn (snd p)) ems"
  have "map fst (inittab_rows ems) = om_keys ?fs"
    using assms(2) by (auto simp: inittab_rows_filter om_keys_def)
  moreover have "om_wf ?fs" using assms(1) by (rule om_wf_filter)
  then have "om_keys ?fs = sorted_list_of_set (set (om_keys ?fs))" by (rule om_keys_sorted_list)
  moreover have "set (om_keys ?fs) = {k. \<exists>em f. om_get k ems = Some em \<and> init_fn em = Some f \<and> f \<noteq> ''NULL''}"
    using om_get_wf_iff [OF assms(1)] by (force simp: om_keys_def has_init_fn_iff)
  ultimately show ?thesis by simp
qed

lemma inittab_rows_graph:
  assumes "om_wf ems" and "\<forall>(k, em) \<in> set ems. module em = k"
  shows "set (inittab_rows ems) \<subseteq> {(k, f). \<exists>em. om_get k ems = Some em \<and> init_fn em = Some f \<and> f \<noteq> ''NULL''}"
proof
  fix x assume "x \<in> set (inittab_rows ems)"
  then obtain k em where kem: "(k, em) \<in> set ems" and h: "has_init_fn em"
    and x: "x = (module em, the (init_fn_of em))"
    by (auto simp: inittab_rows_filter)
  from h obtain f where f: "init_fn em = Some f" "f \<noteq> ''NULL''"
    by (auto simp: has_init_fn_iff)
  have "module em = k" using assms(2) kem by auto
  moreover have "om_get k ems = Some em" using om_get_wf_iff [OF assms(1)] kem by simp
  moreover have "the (init_fn_of em) = f" using f by (simp add: init_fn_of_def)
  ultimately show "x \<in> {(k, f). \<exists>em. om_get k ems = Some em \<and> init_fn em = Some f \<and> f \<noteq> ''NULL''}"
    using x f by auto
qed

lemma split_make_config_c:
  assumes "\<forall>em \<in> set (om_values ems). plain_line (module em) \<and> (\<forall>f. init_fn em = Some f \<longrightarrow> plain_line f)"
  shows "split_lines (make_config_c ems) [] = config_c_lines ems"
proof -
  have "\<forall>l \<in> set (extern_lines ems). plain_line l"
    using assms by (auto simp: extern_lines_def init_fn_of_Some Some_init_fn_of plain_line_def split: option.splits)
  moreover have "\<forall>l \<in> set (inittab_lines ems). plain_line l"
    using assms by (auto simp: inittab_lines_def init_fn_of_Some Some_init_fn_of plain_line_def split: option.splits)
  ultimately have "\<forall>l \<in> set (config_c_lines ems). plain_line l"
    by (auto simp: config_c_lines_def plain_line_def)
  then show ?thesis
    unfolding make_config_c_def by (rule split_join_lines) (simp_all add: config_c_lines_def)
qed

subsection \<open>Properties of the generator\<close>

text \<open>C10 (functional). Read back, the generated \<open>config.c\<close> declares one init
  function per row of \<open>_PyImport_Inittab\<close>, in the same order, and the table
  ends with the \<open>{0, 0}\<close> sentinel; its rows name exactly the staged extensions
  whose init function is present and not \<open>NULL\<close>, in ascending module-name
  order, each with its own init function.  This holds when each extension is
  staged under its own module name, no name holds a quote or a line break, and
  no init function a line break.\<close>

theorem config_c_inittab:
  assumes "om_wf ems"
    and "\<forall>(k, em) \<in> set ems. module em = k \<and> CHR 0x22 \<notin> set k \<and> plain_line k
           \<and> (\<forall>f. init_fn em = Some f \<longrightarrow> plain_line f)"
  shows "\<exists>rows. parse_config_c (make_config_c ems) = Some (map snd rows, rows)
    \<and> map fst rows = sorted_list_of_set {k. \<exists>em f. om_get k ems = Some em \<and> init_fn em = Some f \<and> f \<noteq> ''NULL''}
    \<and> set rows \<subseteq> {(k, f). \<exists>em. om_get k ems = Some em \<and> init_fn em = Some f \<and> f \<noteq> ''NULL''}"
proof -
  let ?rows = "inittab_rows ems"
  have keyed: "\<forall>(k, em) \<in> set ems. module em = k" using assms(2) by auto
  have "\<forall>em \<in> set (om_values ems). plain_line (module em) \<and> (\<forall>f. init_fn em = Some f \<longrightarrow> plain_line f)"
    using assms(2) by (force simp: om_values_def)
  then have split: "split_lines (make_config_c ems) [] = config_c_lines ems"
    by (rule split_make_config_c)
  have nq: "\<forall>(m, f) \<in> set ?rows. CHR 0x22 \<notin> set m"
    using assms(2) by (force simp: inittab_rows_filter)
  have rows: \<open>\<forall>x \<in> set ?rows. parse_row ((\<lambda>(m, f). ''{"'' @ m @ ''", '' @ f @ ''},'') x) = Some x\<close>
  proof
    fix x assume "x \<in> set ?rows"
    moreover obtain m f where x: "x = (m, f)" by (cases x)
    ultimately have "CHR 0x22 \<notin> set m" using nq by auto
    then show \<open>parse_row ((\<lambda>(m, f). ''{"'' @ m @ ''", '' @ f @ ''},'') x) = Some x\<close>
      unfolding x case_prod_conv by (rule parse_row_line)
  qed
  have decls: "\<forall>x \<in> set (map snd ?rows). parse_extern (''extern PyObject* '' @ x @ ''(void);'') = Some x"
    using parse_extern_line by blast
  have E: "\<And>rest. take_parsed parse_extern (extern_lines ems @ ''struct _inittab _PyImport_Inittab[] = {'' # rest)
      = (map snd ?rows, ''struct _inittab _PyImport_Inittab[] = {'' # rest)"
    unfolding extern_lines_snd by (rule take_parsed_run [OF decls parse_extern_header])
  have R: "\<And>rest. take_parsed parse_row (inittab_lines ems @ ''{0, 0}'' # rest) = (?rows, ''{0, 0}'' # rest)"
    unfolding inittab_lines_rows by (rule take_parsed_run [OF rows parse_row_sentinel])
  have "parse_config_c (make_config_c ems) = Some (map snd ?rows, ?rows)"
    unfolding parse_config_c_def split config_c_lines_def append.simps append_assoc list.case E R prod.case
    by simp
  then show ?thesis
    using inittab_rows_keys [OF assms(1) keyed] inittab_rows_graph [OF assms(1) keyed] by blast
qed

end
