(* ===== verification/Linker.thy ===== *)
theory Linker
  imports ConfigC
begin

text \<open>
  The libpython linker \<open>link_libpython\<close>
  (\<open>src/pyoxidizer/src/pyrepackager/repackage.rs\<close>, lines 826-1023).  Its
  file-system and compiler calls are the actions of a plan, in the order the
  code performs them: write \<open>config.c\<close>, copy the headers, compile
  \<open>pyembeddedconfig\<close>, copy the core objects (all but the distribution's
  \<open>Modules/config.o\<close>), copy the required static libraries, compile
  \<open>pythonXY\<close>.  The three \<open>BTreeSet\<close>s of libraries, frameworks and system
  libraries are sets iterated in ascending order; a required library that the
  distribution lacks is the \<open>expect\<close> panic \<open>MissingLibrary\<close>.
\<close>

datatype link_action =
    WriteFile path string
  | CreateDirAll path
  | CopyFile path path
  | CompileLibrary string "path list"

record libpython_info =
  lp_path :: path
  cargo_metadata :: "string list"

type_synonym lib_sets = "string set \<times> string set \<times> string set"

text \<open>The \<open>format!\<close>ed strings of the linker.\<close>

definition link_static :: "string \<Rightarrow> string" where
  "link_static l = ''cargo:rustc-link-lib=static='' @ l"

definition link_framework :: "string \<Rightarrow> string" where
  "link_framework f = ''cargo:rustc-link-lib=framework='' @ f"

definition link_system :: "string \<Rightarrow> string" where
  "link_system l = ''cargo:rustc-link-lib='' @ l"

definition static_lib_file :: "string \<Rightarrow> string" where
  "static_lib_file l = ''lib'' @ l @ ''.a''"

definition config_o_suffix :: path where
  "config_o_suffix = [''Modules'', ''config.o'']"

text \<open>The loop over \<open>dist.objs_core\<close>: skip \<open>Modules/config.o\<close>; otherwise
  create the parent directory under the temporary directory, copy the object
  there and add it to the build.  \<open>rel_path.parent().unwrap()\<close> panics on an
  empty path.\<close>

definition core_object_step ::
  "path \<Rightarrow> path \<times> path \<Rightarrow> link_action list \<times> path list \<Rightarrow> error + link_action list \<times> path list" where
  "core_object_step temp_dir obj acc =
     (case obj of (rel_path, fs_path) \<Rightarrow>
       if path_ends_with rel_path config_o_suffix then Inr acc
       else if rel_path = [] then Inl (IndexOutOfBounds ''parent'')
       else Inr (fst acc @ [CreateDirAll (temp_dir @ butlast rel_path), CopyFile fs_path (temp_dir @ rel_path)],
                 snd acc @ [temp_dir @ rel_path]))"

definition core_objects ::
  "path \<Rightarrow> (path, path) btree_map \<Rightarrow> error + link_action list \<times> path list" where
  "core_objects temp_dir objs = fold_e (core_object_step temp_dir) objs ([], [])"

text \<open>One library dependency: a framework, else a system library, else a static
  or dynamic library; a dependency with neither path is dropped.\<close>

definition classify_link :: "library_depends \<Rightarrow> lib_sets \<Rightarrow> lib_sets" where
  "classify_link entry sets =
     (case sets of (libs, fws, syss) \<Rightarrow>
       if framework entry then (libs, insert (lib_name entry) fws, syss)
       else if system entry then (libs, fws, insert (lib_name entry) syss)
       else if static_path entry \<noteq> None then (insert (lib_name entry) libs, fws, syss)
       else if dynamic_path entry \<noteq> None then (insert (lib_name entry) libs, fws, syss)
       else (libs, fws, syss))"

text \<open>The core's own dependencies: only frameworks and system libraries are
  collected (the \<open>TODO handle static/dynamic libraries\<close> of the source).\<close>

definition classify_core_link :: "library_depends \<Rightarrow> lib_sets \<Rightarrow> lib_sets" where
  "classify_core_link entry sets =
     (case sets of (libs, fws, syss) \<Rightarrow>
       if framework entry then (libs, insert (lib_name entry) fws, syss)
       else if system entry then (libs, fws, insert (lib_name entry) syss)
       else (libs, fws, syss))"

text \<open>The loop over the staged extensions: built-in ones are skipped (their
  code is in the core objects); the others add their object files and their
  library dependencies.\<close>

definition extension_step ::
  "string \<times> extension_module \<Rightarrow> path list \<times> lib_sets \<Rightarrow> path list \<times> lib_sets" where
  "extension_step p acc =
     (case p of (name, em) \<Rightarrow>
       if builtin_default em then acc
       else (fst acc @ object_paths em, fold classify_link (links em) (snd acc)))"

text \<open>The loop over \<open>needed_libraries\<close>: libraries of the OS are skipped; the
  others are looked up in the distribution, copied to \<open>lib<name>.a\<close> in the
  output directory and linked statically.\<close>

definition library_step ::
  "python_distribution_info \<Rightarrow> target_os \<Rightarrow> path \<Rightarrow> string
     \<Rightarrow> link_action list \<times> string list \<Rightarrow> error + link_action list \<times> string list" where
  "library_step dist t out_dir library acc =
     (if library \<in> set (OS_IGNORE_LIBRARIES t) then Inr acc
      else case om_get library (libraries dist) of
        None \<Rightarrow> Inl (MissingLibrary library)
      | Some fs_path \<Rightarrow>
          Inr (fst acc @ [CopyFile fs_path (out_dir @ [static_lib_file library])],
               snd acc @ [link_static library]))"

text \<open>The three sets after both loops: the core's frameworks and system
  libraries, then each non-built-in extension's dependencies.\<close>

definition link_sets :: "python_distribution_info \<Rightarrow> (string, extension_module) btree_map \<Rightarrow> path list \<times> lib_sets" where
  "link_sets dist ems = fold extension_step ems ([], fold classify_core_link (links_core dist) ({}, {}, {}))"

definition link_libpython ::
  "python_distribution_info \<Rightarrow> python_resources \<Rightarrow> path \<Rightarrow> path \<Rightarrow> target_os
     \<Rightarrow> error + link_action list \<times> libpython_info" where
  "link_libpython dist res out_dir temp_dir t =
     (let ems = pr_extension_modules res;
          config_c_path = out_dir @ [''config.c''];
          a1 = [WriteFile config_c_path (make_config_c ems)]
               @ concat (map (\<lambda>(name, fs_path). [CreateDirAll (temp_dir @ butlast name),
                                                  CopyFile fs_path (temp_dir @ name)]) (dist_includes dist))
               @ [CompileLibrary ''pyembeddedconfig'' [config_c_path]];
          m1 = [link_static ''pyembeddedconfig'']
      in case core_objects temp_dir (objs_core dist) of
        Inl err \<Rightarrow> Inl err
      | Inr (a2, core_objs) \<Rightarrow>
          (let (ext_objs, libs, fws, syss) = link_sets dist ems
           in case fold_e (library_step dist t out_dir) (sorted_list_of_set libs) ([], []) of
             Inl err \<Rightarrow> Inl err
           | Inr (a3, m2) \<Rightarrow>
               Inr (a1 @ a2 @ a3 @ [CompileLibrary ''pythonXY'' (core_objs @ ext_objs)],
                    \<lparr>lp_path = out_dir @ [''libpythonXY.a''],
                     cargo_metadata = m1 @ m2 @ map link_framework (sorted_list_of_set fws)
                       @ map link_system (sorted_list_of_set syss)\<rparr>)))"

text \<open>The core objects that are linked: all but \<open>Modules/config.o\<close>.\<close>

definition kept_core :: "(path, path) btree_map \<Rightarrow> (path \<times> path) list" where
  "kept_core objs = filter (\<lambda>(rel, _). \<not> path_ends_with rel config_o_suffix) objs"

definition needed_frameworks :: "python_distribution_info \<Rightarrow> (string, extension_module) btree_map \<Rightarrow> string set" where
  "needed_frameworks dist ems = fst (snd (snd (link_sets dist ems)))"

definition needed_system_libraries :: "python_distribution_info \<Rightarrow> (string, extension_module) btree_map \<Rightarrow> string set" where
  "needed_system_libraries dist ems = snd (snd (snd (link_sets dist ems)))"

definition needed_libraries :: "python_distribution_info \<Rightarrow> (string, extension_module) btree_map \<Rightarrow> string set" where
  "needed_libraries dist ems = fst (snd (link_sets dist ems))"

subsection \<open>Lemmas\<close>

lemma core_objects_fold:
  "(\<forall>(rel, _) \<in> set (kept_core objs). rel \<noteq> []) \<Longrightarrow>
   fold_e (core_object_step temp_dir) objs acc =
     Inr (fst acc @ concat (map (\<lambda>(rel, fsp). [CreateDirAll (temp_dir @ butlast rel), CopyFile fsp (temp_dir @ rel)])
                           (kept_core objs)),
          snd acc @ map (\<lambda>(rel, _). temp_dir @ rel) (kept_core objs))"
  by (induction objs arbitrary: acc) (auto simp: core_object_step_def kept_core_def)

lemma core_objects_fail:
  "(rel, fsp) \<in> set (kept_core objs) \<Longrightarrow> rel = [] \<Longrightarrow> \<exists>err. fold_e (core_object_step temp_dir) objs acc = Inl err"
  by (induction objs arbitrary: acc) (auto simp: core_object_step_def kept_core_def split: if_splits)

lemma extension_objects:
  "fst (fold extension_step ems (objs, sets)) =
     objs @ concat (map (\<lambda>(_, em). object_paths em) (filter (\<lambda>(_, em). \<not> builtin_default em) ems))"
proof (induction ems arbitrary: objs sets)
  case (Cons p ems)
  obtain name em where p: "p = (name, em)" by (cases p)
  show ?case
    using Cons.IH [of objs sets] Cons.IH [of "objs @ object_paths em" "fold classify_link (links em) sets"] p
    by (simp add: extension_step_def)
qed simp

lemma library_steps:
  "fold_e (library_step dist t out_dir) ls acc = Inr (a, m) \<Longrightarrow>
     m = snd acc @ map link_static (filter (\<lambda>l. l \<notin> set (OS_IGNORE_LIBRARIES t)) ls)"
proof (induction ls arbitrary: acc)
  case (Cons l ls)
  show ?case
  proof (cases "l \<in> set (OS_IGNORE_LIBRARIES t)")
    case True
    with Cons show ?thesis by (simp add: library_step_def)
  next
    case False
    obtain p where p: "om_get l (libraries dist) = Some p"
      using Cons.prems False by (cases "om_get l (libraries dist)") (simp_all add: library_step_def [of dist t out_dir l])
    then have "library_step dist t out_dir l acc =
        Inr (fst acc @ [CopyFile p (out_dir @ [static_lib_file l])], snd acc @ [link_static l])"
      using False by (simp add: library_step_def)
    with Cons.prems have rest: "fold_e (library_step dist t out_dir) ls
        (fst acc @ [CopyFile p (out_dir @ [static_lib_file l])], snd acc @ [link_static l]) = Inr (a, m)"
      by simp
    from Cons.IH [OF rest] False show ?thesis by simp
  qed
qed simp

lemma library_steps_ok:
  "(\<exists>r. fold_e (library_step dist t out_dir) ls acc = Inr r) \<longleftrightarrow>
     (\<forall>l \<in> set ls. l \<notin> set (OS_IGNORE_LIBRARIES t) \<longrightarrow> om_get l (libraries dist) \<noteq> None)"
  by (induction ls arbitrary: acc) (auto simp: library_step_def split: if_splits option.splits sum.splits)

lemma finite_classify_link: "finite (fst sets) \<Longrightarrow> finite (fst (fold classify_link ls sets))"
  by (induction ls arbitrary: sets) (auto simp: classify_link_def split: prod.splits)

lemma finite_link_sets: "finite (needed_libraries dist ems)"
proof -
  have core: "fst (fold classify_core_link ls sets) = fst sets" for ls and sets :: lib_sets
    by (induction ls arbitrary: sets) (auto simp: classify_core_link_def split: prod.splits)
  have "finite (fst (snd (fold extension_step ems (objs, sets))))" if "finite (fst sets)" for objs sets
    using that
  proof (induction ems arbitrary: objs sets)
    case (Cons p ems)
    then show ?case by (cases p) (auto simp: extension_step_def finite_classify_link)
  qed simp
  then show ?thesis by (simp add: needed_libraries_def link_sets_def core)
qed

lemma link_libpython_Inr:
  assumes "link_libpython dist res out_dir temp_dir t = Inr (acts, info)"
  obtains a2 a3 m2 where
    "core_objects temp_dir (objs_core dist) = Inr (a2, map (\<lambda>(rel, _). temp_dir @ rel) (kept_core (objs_core dist)))"
    "\<forall>(rel, _) \<in> set (kept_core (objs_core dist)). rel \<noteq> []"
    "fold_e (library_step dist t out_dir) (sorted_list_of_set (needed_libraries dist (pr_extension_modules res))) ([], [])
       = Inr (a3, m2)"
    "last acts = CompileLibrary ''pythonXY''
       (map (\<lambda>(rel, _). temp_dir @ rel) (kept_core (objs_core dist))
        @ fst (link_sets dist (pr_extension_modules res)))"
    "cargo_metadata info = [link_static ''pyembeddedconfig''] @ m2
       @ map link_framework (sorted_list_of_set (fst (snd (snd (link_sets dist (pr_extension_modules res))))))
       @ map link_system (sorted_list_of_set (snd (snd (snd (link_sets dist (pr_extension_modules res))))))"
proof -
  have ok: "\<forall>(rel, _) \<in> set (kept_core (objs_core dist)). rel \<noteq> []"
  proof (rule ccontr)
    assume "\<not> ?thesis"
    then obtain rel fsp where "(rel, fsp) \<in> set (kept_core (objs_core dist))" "rel = []" by auto
    then obtain err where "core_objects temp_dir (objs_core dist) = Inl err"
      unfolding core_objects_def by (blast dest: core_objects_fail)
    with assms show False by (simp add: link_libpython_def Let_def)
  qed
  then have core: "core_objects temp_dir (objs_core dist) =
      Inr (concat (map (\<lambda>(rel, fsp). [CreateDirAll (temp_dir @ butlast rel), CopyFile fsp (temp_dir @ rel)])
                   (kept_core (objs_core dist))),
           map (\<lambda>(rel, _). temp_dir @ rel) (kept_core (objs_core dist)))"
    unfolding core_objects_def by (simp add: core_objects_fold)
  show ?thesis
    using assms core ok
    by (auto simp: link_libpython_def Let_def needed_libraries_def intro!: that split: prod.splits sum.splits)
qed

lemma kept_core_ok:
  "(\<forall>(rel, _) \<in> set (kept_core objs). rel \<noteq> []) \<longleftrightarrow>
   (\<forall>(rel, _) \<in> set objs. \<not> path_ends_with rel [''Modules'', ''config.o''] \<longrightarrow> rel \<noteq> [])"
  by (auto simp: kept_core_def config_o_suffix_def)

lemma libraries_ok:
  "(\<exists>r. fold_e (library_step dist t out_dir) (sorted_list_of_set (needed_libraries dist ems)) acc = Inr r) \<longleftrightarrow>
   (\<forall>l \<in> needed_libraries dist ems. l \<notin> set (OS_IGNORE_LIBRARIES t) \<longrightarrow> om_get l (libraries dist) \<noteq> None)"
  using library_steps_ok [of dist t out_dir "sorted_list_of_set (needed_libraries dist ems)" acc]
  by (simp add: finite_link_sets)

lemma link_libpython_ok:
  "(\<exists>p. link_libpython dist res out_dir temp_dir t = Inr p) \<longleftrightarrow>
     (\<forall>(rel, _) \<in> set (kept_core (objs_core dist)). rel \<noteq> [])
     \<and> (\<exists>r. fold_e (library_step dist t out_dir) (sorted_list_of_set (needed_libraries dist (pr_extension_modules res)))
            ([], []) = Inr r)"
proof
  assume "\<exists>p. link_libpython dist res out_dir temp_dir t = Inr p"
  then obtain acts info where "link_libpython dist res out_dir temp_dir t = Inr (acts, info)"
    by auto
  then obtain a2 a3 m2 where
    "\<forall>(rel, _) \<in> set (kept_core (objs_core dist)). rel \<noteq> []"
    "fold_e (library_step dist t out_dir) (sorted_list_of_set (needed_libraries dist (pr_extension_modules res)))
       ([], []) = Inr (a3, m2)"
    by (rule link_libpython_Inr)
  then show "(\<forall>(rel, _) \<in> set (kept_core (objs_core dist)). rel \<noteq> []) \<and> (\<exists>r. fold_e (library_step dist t out_dir)
      (sorted_list_of_set (needed_libraries dist (pr_extension_modules res))) ([], []) = Inr r)"
    by blast
next
  assume ok: "(\<forall>(rel, _) \<in> set (kept_core (objs_core dist)). rel \<noteq> [])
     \<and> (\<exists>r. fold_e (library_step dist t out_dir) (sorted_list_of_set (needed_libraries dist (pr_extension_modules res)))
            ([], []) = Inr r)"
  then obtain a2 core_objs where core: "core_objects temp_dir (objs_core dist) = Inr (a2, core_objs)"
    unfolding core_objects_def by (fastforce dest: core_objects_fold)
  obtain ext libs fws syss where ls: "link_sets dist (pr_extension_modules res) = (ext, libs, fws, syss)"
    by (cases "link_sets dist (pr_extension_modules res)") auto
  from ok ls obtain a3 m2 where "fold_e (library_step dist t out_dir) (sorted_list_of_set libs) ([], []) = Inr (a3, m2)"
    by (auto simp: needed_libraries_def)
  with core ls show "\<exists>p. link_libpython dist res out_dir temp_dir t = Inr p"
    by (simp add: link_libpython_def Let_def)
qed

subsection \<open>Properties of the linker\<close>

text \<open>C12 (safety). \<open>pythonXY\<close> is compiled, as the last step, from exactly the
  core objects other than the distribution's \<open>Modules/config.o\<close> (whose
  \<open>_PyImport_Inittab\<close> would clash with the generated one), in the
  distribution's order, followed by the object files of the staged extensions
  that are not built in by default.\<close>

theorem pythonxy_objects:
  assumes "link_libpython dist res out_dir temp_dir t = Inr (acts, info)"
  shows "last acts = CompileLibrary ''pythonXY''
    (map (\<lambda>(rel, _). temp_dir @ rel) (filter (\<lambda>(rel, _). \<not> path_ends_with rel [''Modules'', ''config.o'']) (objs_core dist))
     @ concat (map (\<lambda>(_, em). object_paths em) (filter (\<lambda>(_, em). \<not> builtin_default em) (pr_extension_modules res))))"
proof -
  obtain a2 a3 m2 where "last acts = CompileLibrary ''pythonXY''
       (map (\<lambda>(rel, _). temp_dir @ rel) (kept_core (objs_core dist)) @ fst (link_sets dist (pr_extension_modules res)))"
    using assms by (rule link_libpython_Inr)
  then show ?thesis
    using extension_objects [of "pr_extension_modules res" "[]"]
    by (simp add: kept_core_def config_o_suffix_def link_sets_def)
qed

text \<open>C13 (functional). The linker directives are, in this order: the static
  \<open>pyembeddedconfig\<close>, each needed library not provided by the OS in
  ascending name order, each framework, each system library.\<close>

theorem link_metadata_order:
  assumes "link_libpython dist res out_dir temp_dir t = Inr (acts, info)"
  shows "cargo_metadata info = [link_static ''pyembeddedconfig'']
    @ map link_static (filter (\<lambda>l. l \<notin> set (OS_IGNORE_LIBRARIES t))
                         (sorted_list_of_set (needed_libraries dist (pr_extension_modules res))))
    @ map link_framework (sorted_list_of_set (needed_frameworks dist (pr_extension_modules res)))
    @ map link_system (sorted_list_of_set (needed_system_libraries dist (pr_extension_modules res)))"
proof -
  obtain a2 a3 m2 where
    libs: "fold_e (library_step dist t out_dir) (sorted_list_of_set (needed_libraries dist (pr_extension_modules res)))
       ([], []) = Inr (a3, m2)" and
    md: "cargo_metadata info = [link_static ''pyembeddedconfig''] @ m2
       @ map link_framework (sorted_list_of_set (fst (snd (snd (link_sets dist (pr_extension_modules res))))))
       @ map link_system (sorted_list_of_set (snd (snd (snd (link_sets dist (pr_extension_modules res))))))"
    using assms by (rule link_libpython_Inr)
  from library_steps [OF libs] md show ?thesis
    by (simp add: needed_frameworks_def needed_system_libraries_def)
qed

text \<open>C14 (error). Linking fails exactly when a core object other than
  \<open>Modules/config.o\<close> has an empty path, or a needed library that the OS does
  not provide is missing from the distribution.\<close>

theorem link_libpython_succeeds_iff:
  "(\<exists>p. link_libpython dist res out_dir temp_dir t = Inr p) \<longleftrightarrow>
     (\<forall>(rel, _) \<in> set (objs_core dist). \<not> path_ends_with rel [''Modules'', ''config.o''] \<longrightarrow> rel \<noteq> [])
     \<and> (\<forall>l \<in> needed_libraries dist (pr_extension_modules res).
          l \<notin> set (OS_IGNORE_LIBRARIES t) \<longrightarrow> om_get l (libraries dist) \<noteq> None)"
  by (simp only: link_libpython_ok kept_core_ok libraries_ok)

end
