(* ===== verification/Scenarios.thy ===== *)
theory Scenarios
  imports Reducer Linker
begin

text \<open>
  Concrete inputs for the end-to-end scenarios of the specification (S1, S3,
  S4, S6): small distributions, an environment whose file system holds a few
  module sources and a names file, and whose compiler tags each source.  The
  theorems evaluate the reducer on them with the kernel's simplifier, and apply
  the general properties of \<open>Reducer\<close> at these inputs.
\<close>

definition em_io :: extension_module where
  "em_io = \<lparr>module = ''_io'', init_fn = Some ''PyInit__io'', builtin_default = True, required = False,
     variant = ''default'', object_paths = [], links = []\<rparr>"

definition em_zlib :: extension_module where
  "em_zlib = \<lparr>module = ''zlib'', init_fn = Some ''PyInit_zlib'', builtin_default = False, required = True,
     variant = ''default'', object_paths = [[''Modules'', ''zlibmodule.o'']],
     links = [\<lparr>lib_name = ''z'', static_path = Some [''lib'', ''libz.a''], dynamic_path = None,
               framework = False, system = False\<rparr>]\<rparr>"

definition em_readline :: extension_module where
  "em_readline = \<lparr>module = ''readline'', init_fn = Some ''PyInit_readline'', builtin_default = False,
     required = False, variant = ''default'', object_paths = [[''Modules'', ''readline.o'']],
     links = [\<lparr>lib_name = ''readline'', static_path = None, dynamic_path = None,
               framework = False, system = True\<rparr>]\<rparr>"

definition em_crypt :: extension_module where
  "em_crypt = \<lparr>module = ''_crypt'', init_fn = Some ''PyInit__crypt'', builtin_default = False,
     required = True, variant = ''default'', object_paths = [], links = []\<rparr>"

definition em_ssl :: extension_module where
  "em_ssl = \<lparr>module = ''_ssl'', init_fn = Some ''PyInit__ssl'', builtin_default = False,
     required = False, variant = ''openssl-3'', object_paths = [[''Modules'', ''_ssl.o'']], links = []\<rparr>"

definition s5_extensions :: "(string, extension_module) btree_map" where
  "s5_extensions = om_from_list [(''zlib'', em_zlib), (''_io'', em_io), (''_ssl'', em_ssl)]"

definition empty_dist :: python_distribution_info where
  "empty_dist = \<lparr>python_exe = [''python''], os = ''linux'', version = ''3.7.4'', py_modules = [],
     extension_modules = [], objs_core = [], dist_includes = [], libraries = [], links_core = []\<rparr>"

text \<open>S1: \<open>_io\<close> (built in), \<open>zlib\<close> (required), \<open>readline\<close> (neither).\<close>

definition s1_dist :: python_distribution_info where
  "s1_dist = empty_dist\<lparr>extension_modules :=
     [(''_io'', [em_io]), (''readline'', [em_readline]), (''zlib'', [em_zlib])]\<rparr>"

text \<open>The same with \<open>_crypt\<close>, required but on the Linux ignore list.\<close>

definition crypt_dist :: python_distribution_info where
  "crypt_dist = empty_dist\<lparr>extension_modules :=
     [(''_crypt'', [em_crypt]), (''_io'', [em_io]), (''zlib'', [em_zlib])]\<rparr>"

text \<open>S3: a module and a test module of the standard library, and a names file
  \<open>F\<close> that lists both (and a comment).\<close>

definition s3_dist :: python_distribution_info where
  "s3_dist = empty_dist\<lparr>py_modules :=
     [(''json'', [''lib'', ''json'', ''__init__.py'']),
      (''json.tests.test_foo'', [''lib'', ''json'', ''tests'', ''test_foo.py''])]\<rparr>"

definition test_env :: env where
  "test_env = \<lparr>fs = [[''lib'', ''json'', ''__init__.py''] \<mapsto> [0x6A],
                    [''lib'', ''json'', ''tests'', ''test_foo.py''] \<mapsto> [0x74],
                    [''F''] \<mapsto> str_bytes ''# names\<newline>json\<newline>json.tests.test_foo\<newline>''],
     scan = (\<lambda>_. []), pip_ready = False, pip_install = (\<lambda>_. None), glob = (\<lambda>_. None),
     compile = (\<lambda>src n ol. Inr (0x63 # src)), target = Linux\<rparr>"

definition s1_result :: python_resources where
  "s1_result = \<lparr>module_sources = [], module_bytecodes = [], all_modules = {}, resources = [],
     pr_extension_modules = [(''_io'', em_io), (''zlib'', em_zlib)], read_files = []\<rparr>"

definition filter_st0 :: staging where
  "filter_st0 = empty_staging\<lparr>st_sources := [(''json'', [0x6A]), (''os'', [0x6F])]\<rparr>"

definition filter_st1 :: staging where
  "filter_st1 = empty_staging\<lparr>st_sources := [(''json'', [0x6A])], st_read_files := [[''F'']]\<rparr>"

text \<open>Two names files matched by one glob, and a names file that is not
  UTF-8.\<close>

definition glob_env :: env where
  "glob_env = test_env\<lparr>fs := (fs test_env)([''G''] \<mapsto> str_bytes ''_io\<newline>''),
     glob := (\<lambda>_. Some [[''F''], [''G'']])\<rparr>"

definition bad_names_env :: env where
  "bad_names_env = test_env\<lparr>fs := [[''F''] \<mapsto> [0x6A, 0xFF, 0x0A]]\<rparr>"

definition s3_rules :: "python_packaging list" where
  "s3_rules = [Stdlib 0 True True, FilterFileInclude [''F'']]"

definition s3_result :: python_resources where
  "s3_result = \<lparr>module_sources = [(''json'', [0x6A])], module_bytecodes = [(''json'', [0x63, 0x6A])],
     all_modules = {''json''}, resources = [], pr_extension_modules = [], read_files = [[''F'']]\<rparr>"

subsection \<open>Evaluations\<close>

text \<open>S1 linked: the distribution's core objects include its own
  \<open>Modules/config.o\<close>, the core links the system library \<open>m\<close>, and
  \<open>zlib\<close> needs the static library \<open>z\<close>, which the distribution ships.\<close>

definition link_dist :: python_distribution_info where
  "link_dist = s1_dist\<lparr>objs_core := [([''Modules'', ''config.o''], [''d'', ''config.o'']),
                                     ([''Python'', ''ceval.o''], [''d'', ''ceval.o''])],
     libraries := [(''z'', [''d'', ''libz.a''])],
     links_core := [\<lparr>lib_name = ''m'', static_path = None, dynamic_path = None,
                     framework = False, system = True\<rparr>]\<rparr>"

text \<open>S4: two variants of \<open>_ssl\<close>, the first linking the static library
  \<open>ssl\<close>, the second (\<open>em_ssl\<close>, \<open>openssl-3\<close>) linking nothing.\<close>

definition em_ssl11 :: extension_module where
  "em_ssl11 = \<lparr>module = ''_ssl'', init_fn = Some ''PyInit__ssl'', builtin_default = False,
     required = False, variant = ''openssl-1.1'', object_paths = [[''Modules'', ''_ssl.o'']],
     links = [\<lparr>lib_name = ''ssl'', static_path = Some [''lib'', ''libssl.a''], dynamic_path = None,
               framework = False, system = False\<rparr>]\<rparr>"

definition s4_dist :: python_distribution_info where
  "s4_dist = empty_dist\<lparr>extension_modules := [(''_ssl'', [em_ssl11, em_ssl])]\<rparr>"

definition s4_result :: python_resources where
  "s4_result = \<lparr>module_sources = [], module_bytecodes = [], all_modules = {}, resources = [],
     pr_extension_modules = [(''_ssl'', em_ssl)], read_files = []\<rparr>"

text \<open>A virtualenv whose \<open>site-packages\<close> holds \<open>foo\<close>, \<open>foo.bar\<close>,
  \<open>foo.bar.baz\<close>, \<open>foo.barbell\<close> and a data file.\<close>

definition venv_env :: env where
  "venv_env = test_env\<lparr>fs := (\<lambda>_. Some [0x70]),
     scan := (\<lambda>_. [\<lparr>res_name = ''foo'', flavor = Source, res_path = [''foo'', ''__init__.py'']\<rparr>,
                   \<lparr>res_name = ''foo.bar'', flavor = Source, res_path = [''foo'', ''bar.py'']\<rparr>,
                   \<lparr>res_name = ''foo.bar.baz'', flavor = Source, res_path = [''foo'', ''bar'', ''baz.py'']\<rparr>,
                   \<lparr>res_name = ''foo.barbell'', flavor = Source, res_path = [''foo'', ''barbell.py'']\<rparr>,
                   \<lparr>res_name = ''foo.data'', flavor = Resource, res_path = [''foo'', ''data.txt'']\<rparr>])\<rparr>"

lemma test_env_sel [model_simps]:
  "target test_env = Linux" "compile test_env src n ol = Inr (0x63 # src)"
  "fs test_env [''lib'', ''json'', ''__init__.py''] = Some [0x6A]"
  "fs test_env [''F''] = Some (str_bytes ''# names\<newline>json\<newline>json.tests.test_foo\<newline>'')"
  by (simp_all add: test_env_def)

lemma s1_policy:
  "resolve_extensions_policy ''minimal'' s1_dist =
     Inr [add_entry (ExtensionModule ''_io'' em_io), add_entry (ExtensionModule ''zlib'' em_zlib)]"
  by (simp add: resolve_extensions_policy_def policy_entries_def s1_dist_def em_io_def em_zlib_def
      em_readline_def)

lemma s1_rules:
  "process_rules test_env s1_dist [StdlibExtensionsPolicy ''minimal''] =
     Inr (empty_staging\<lparr>st_extension_modules := [(''_io'', em_io), (''zlib'', em_zlib)]\<rparr>)"
  by (simp add: process_rules_def process_rule_def s1_policy apply_entry_def add_entry_def empty_staging_def)

lemma s1_required:
  "add_required s1_dist [(''_io'', em_io), (''zlib'', em_zlib)] = Inr [(''_io'', em_io), (''zlib'', em_zlib)]"
  by (simp add: add_required_def add_required_one_def s1_dist_def om_contains_def em_io_def em_zlib_def
      em_readline_def)

lemma s1_resolves:
  "resolve_python_resources test_env s1_dist [StdlibExtensionsPolicy ''minimal''] = Inr s1_result"
  by (simp add: resolve_python_resources_def s1_rules s1_required compile_bytecodes_def empty_staging_def
      remove_ignored_def OS_IGNORE_EXTENSIONS_def s1_result_def om_keys_def model_simps)

lemma s3_names: "read_resource_names_file test_env [''F''] = Inr {''json'', ''json.tests.test_foo''}"
  by (simp add: read_resource_names_file_def read_resource_names_def model_simps insert_commute valid_utf8_str_bytes_Cons)

lemma s3_stdlib:
  "resolve_stdlib test_env 0 True True s3_dist =
     Inr [add_entry (ModuleSource ''json'' [0x6A]), add_entry (ModuleBytecode ''json'' [0x6A] 0)]"
  by (simp add: resolve_stdlib_def s3_dist_def is_stdlib_test_package_def STDLIB_TEST_PACKAGES_def
      read_module_def module_entries_def as_i32_def model_simps)

lemma s3_staged:
  "process_rules test_env s3_dist s3_rules =
     Inr (empty_staging\<lparr>st_sources := [(''json'', [0x6A])],
                        st_bytecode_requests := [(''json'', ([0x6A], 0))], st_read_files := [[''F'']]\<rparr>)"
  by (simp add: process_rules_def process_rule_def s3_rules_def s3_stdlib s3_names apply_entry_def
      add_entry_def empty_staging_def filter_staging_def filter_btreemap_def om_keys_def)

lemma s3_required: "add_required s3_dist [] = Inr []"
  by (simp add: add_required_def s3_dist_def empty_dist_def)

lemma s3_resolves: "resolve_python_resources test_env s3_dist s3_rules = Inr s3_result"
  by (simp add: resolve_python_resources_def s3_staged s3_required compile_bytecodes_def empty_staging_def
      remove_ignored_def OS_IGNORE_EXTENSIONS_def s3_result_def om_keys_def model_simps)

lemma crypt_rules:
  "process_rules test_env crypt_dist [StdlibExtensionsPolicy ''all''] =
     Inr (empty_staging\<lparr>st_extension_modules :=
       [(''_crypt'', em_crypt), (''_io'', em_io), (''zlib'', em_zlib)]\<rparr>)"
  by (simp add: process_rules_def process_rule_def resolve_extensions_policy_def policy_entries_def
      crypt_dist_def empty_dist_def apply_entry_def add_entry_def empty_staging_def)

lemma crypt_required:
  "add_required crypt_dist [(''_crypt'', em_crypt), (''_io'', em_io), (''zlib'', em_zlib)] =
     Inr [(''_crypt'', em_crypt), (''_io'', em_io), (''zlib'', em_zlib)]"
  by (simp add: add_required_def add_required_one_def crypt_dist_def om_contains_def em_io_def
      em_zlib_def em_crypt_def)

lemma crypt_resolves:
  "resolve_python_resources test_env crypt_dist [StdlibExtensionsPolicy ''all''] = Inr s1_result"
  by (simp add: resolve_python_resources_def crypt_rules crypt_required compile_bytecodes_def
      empty_staging_def remove_ignored_def OS_IGNORE_EXTENSIONS_def s1_result_def om_keys_def model_simps)

lemma filter_st0_step:
  "process_rule test_env s3_dist (FilterFileInclude [''F'']) filter_st0 = Inr filter_st1"
  by (simp add: process_rule_def s3_names filter_st0_def filter_st1_def filter_staging_def
      filter_btreemap_def om_keys_def empty_staging_def)

subsection \<open>Scenarios\<close>

text \<open>Scenario S1: with the \<open>minimal\<close> policy the staged
  extensions are \<open>_io\<close> (built in) and \<open>zlib\<close> (required), and not
  \<open>readline\<close>.\<close>

theorem s1_minimal_policy:
  "resolve_python_resources test_env s1_dist [StdlibExtensionsPolicy ''minimal''] = Inr s1_result
   \<and> om_keys (pr_extension_modules s1_result) = [''_io'', ''zlib'']
   \<and> inittab_rows (pr_extension_modules s1_result) = [(''_io'', ''PyInit__io''), (''zlib'', ''PyInit_zlib'')]"
  by (simp add: s1_resolves s1_result_def om_keys_def inittab_rows_def om_values_def init_fn_of_def
      em_io_def em_zlib_def)

text \<open>Scenario S3: the standard-library rule with test
  exclusion followed by a filter stages the source of \<open>json\<close> only; the test
  module is never staged, although the names file lists it.\<close>

theorem s3_exclude_then_filter:
  "resolve_python_resources test_env s3_dist s3_rules = Inr s3_result
   \<and> om_keys (module_sources s3_result) = [''json'']
   \<and> read_resource_names_file test_env [''F''] = Inr {''json'', ''json.tests.test_foo''}"
  by (simp add: s3_resolves s3_names s3_result_def om_keys_def)

lemma s5_extensions_eq: "s5_extensions = [(''_io'', em_io), (''_ssl'', em_ssl), (''zlib'', em_zlib)]"
  by (simp add: s5_extensions_def om_from_list_def)

text \<open>Scenario S5: extensions staged in the order \<open>zlib\<close>,
  \<open>_io\<close>, \<open>_ssl\<close> are emitted in name order \<open>_io\<close>, \<open>_ssl\<close>, \<open>zlib\<close>; this
  is the whole text of the generated \<open>config.c\<close>.\<close>

theorem s5_config_c:
  \<open>make_config_c s5_extensions =
     ''#include "Python.h"\<newline>'' @
     ''extern PyObject* PyInit__io(void);\<newline>'' @
     ''extern PyObject* PyInit__ssl(void);\<newline>'' @
     ''extern PyObject* PyInit_zlib(void);\<newline>'' @
     ''struct _inittab _PyImport_Inittab[] = {\<newline>'' @
     ''{"_io", PyInit__io},\<newline>'' @
     ''{"_ssl", PyInit__ssl},\<newline>'' @
     ''{"zlib", PyInit_zlib},\<newline>'' @
     ''{0, 0}\<newline>'' @
     ''};''\<close>
  by (simp add: s5_extensions_eq make_config_c_def config_c_lines_def extern_lines_def inittab_lines_def
      om_values_def init_fn_of_def em_io_def em_ssl_def em_zlib_def)

subsection \<open>Witnesses of the reducer's properties\<close>

theorem required_extensions_closure_witness:
  "resolve_python_resources test_env s1_dist [StdlibExtensionsPolicy ''minimal''] = Inr s1_result
   \<and> (''_io'', [em_io]) \<in> set (extension_modules s1_dist)
   \<and> (builtin_default em_io \<or> required em_io)
   \<and> ''_io'' \<notin> set (OS_IGNORE_EXTENSIONS (target test_env))
   \<and> ''_io'' \<in> set (om_keys (pr_extension_modules s1_result))"
proof -
  have h2: "(''_io'', [em_io]) \<in> set (extension_modules s1_dist)" by (simp add: s1_dist_def)
  have h3: "builtin_default em_io \<or> required em_io" by (simp add: em_io_def)
  have h4: "''_io'' \<notin> set (OS_IGNORE_EXTENSIONS (target test_env))"
    by (simp add: OS_IGNORE_EXTENSIONS_def model_simps)
  show ?thesis using required_extensions_closure [OF s1_resolves h2 h3 h4] s1_resolves h2 h3 h4 by simp
qed

theorem ignored_extensions_absent_witness:
  "resolve_python_resources test_env crypt_dist [StdlibExtensionsPolicy ''all''] = Inr s1_result
   \<and> required em_crypt
   \<and> ''_crypt'' \<in> set (OS_IGNORE_EXTENSIONS (target test_env))
   \<and> ''_crypt'' \<notin> set (om_keys (pr_extension_modules s1_result))"
proof -
  have h: "''_crypt'' \<in> set (OS_IGNORE_EXTENSIONS (target test_env))"
    by (simp add: OS_IGNORE_EXTENSIONS_def model_simps)
  show ?thesis using ignored_extensions_absent [OF crypt_resolves h] crypt_resolves h
    by (simp add: em_crypt_def)
qed

theorem bytecodes_from_final_requests_witness:
  "resolve_python_resources test_env s3_dist s3_rules = Inr s3_result
   \<and> (\<exists>st. process_rules test_env s3_dist s3_rules = Inr st \<and>
       (\<forall>n b. om_get n (module_bytecodes s3_result) = Some b \<longleftrightarrow>
          (\<exists>src ol. om_get n (st_bytecode_requests st) = Some (src, ol) \<and> compile test_env src n ol = Inr b)))"
  using bytecodes_from_final_requests [OF s3_resolves] s3_resolves by simp

theorem filter_rule_idempotent_witness:
  "staging_wf filter_st0
   \<and> process_rule test_env s3_dist (FilterFileInclude [''F'']) filter_st0 = Inr filter_st1
   \<and> process_rule test_env s3_dist (FilterFileInclude [''F'']) filter_st1
       = Inr (filter_st1\<lparr>st_read_files := st_read_files filter_st1 @ [[''F'']]\<rparr>)"
proof -
  have h: "staging_wf filter_st0"
    by (simp add: staging_wf_def filter_st0_def empty_staging_def om_wf_def om_keys_def)
  show ?thesis using filter_rule_idempotent [OF h filter_st0_step] h filter_st0_step by simp
qed

theorem filter_files_refines_witness:
  "\<exists>st'. process_rule glob_env s3_dist (FilterFilesInclude ''*.names'') filter_st0 = Inr st'
     \<and> abs_of st' = abs_filter ({''json'', ''json.tests.test_foo''} \<union> {''_io''}) (abs_of filter_st0)
     \<and> st_read_files st' = st_read_files filter_st0 @ [[''F''], [''G'']]"
proof -
  have wf: "staging_wf filter_st0"
    by (simp add: staging_wf_def filter_st0_def empty_staging_def om_wf_def om_keys_def)
  have g: "glob glob_env ''*.names'' = Some [[''F''], [''G'']]" by (simp add: glob_env_def)
  have f: "read_resource_names_file glob_env [''F''] = Inr {''json'', ''json.tests.test_foo''}"
    using s3_names by (simp add: read_resource_names_file_def glob_env_def test_env_def)
  have "read_resource_names_file glob_env [''G''] = Inr {''_io''}"
    by (simp add: read_resource_names_file_def read_resource_names_def glob_env_def valid_utf8_str_bytes_Cons)
  with f have "\<forall>q \<in> set [[''F''], [''G'']]. read_resource_names_file glob_env q
      = Inr ((\<lambda>q. if q = [''F''] then {''json'', ''json.tests.test_foo''} else {''_io''}) q)"
    by simp
  from filter_files_refines [OF wf g this, of s3_dist] show ?thesis by (simp add: insert_commute)
qed

theorem filter_rules_succeed_iff_witness:
  "(\<exists>st'. process_rule glob_env s3_dist (FilterFilesInclude ''*.names'') filter_st0 = Inr st')
   \<and> \<not> (\<exists>st'. process_rule bad_names_env s3_dist (FilterFileInclude [''F'']) filter_st0 = Inr st')"
proof -
  have "valid_utf8 (str_bytes ''# names\<newline>json\<newline>json.tests.test_foo\<newline>'')"
    "valid_utf8 (str_bytes ''_io\<newline>'')"
    by (simp_all add: valid_utf8_str_bytes_Cons)
  moreover have "\<not> valid_utf8 [0x6A, 0xFF, 0x0A]" by (simp add: utf8_cont_def)
  ultimately show ?thesis
    using filter_rules_succeed_iff [of glob_env s3_dist "[''F'']" filter_st0 "''*.names''"]
      filter_rules_succeed_iff [of bad_names_env s3_dist "[''F'']" filter_st0 "''*.names''"]
    by (simp add: glob_env_def bad_names_env_def test_env_def)
qed

theorem filter_btreemap_equiv_witness:
  "om_wf [(''a'', 1 :: nat), (''b'', 2)]
   \<and> filter_btreemap [(''a'', 1 :: nat), (''b'', 2)] {''b''} = filter (\<lambda>p. fst p \<in> {''b''}) [(''a'', 1), (''b'', 2)]
   \<and> om_lookup (filter_btreemap [(''a'', 1 :: nat), (''b'', 2)] {''b''}) = om_lookup [(''a'', 1), (''b'', 2)] |` {''b''}"
proof -
  have h: "om_wf [(''a'', 1 :: nat), (''b'', 2)]" by (simp add: om_wf_def om_keys_def)
  show ?thesis using filter_btreemap_equiv [OF h, of "{''b''}"] h by blast
qed

theorem process_rule_refines_witness:
  "staging_wf empty_staging
   \<and> resolve_python_packaging test_env (StdlibExtensionsPolicy ''minimal'') s1_dist
       = Inr [add_entry (ExtensionModule ''_io'' em_io), add_entry (ExtensionModule ''zlib'' em_zlib)]
   \<and> (\<forall>p. StdlibExtensionsPolicy ''minimal'' \<noteq> FilterFileInclude p)
   \<and> (\<forall>g. StdlibExtensionsPolicy ''minimal'' \<noteq> FilterFilesInclude g)
   \<and> process_rule test_env s1_dist (StdlibExtensionsPolicy ''minimal'') empty_staging
       = Inr (empty_staging\<lparr>st_extension_modules := [(''_io'', em_io), (''zlib'', em_zlib)]\<rparr>)
   \<and> abs_of (empty_staging\<lparr>st_extension_modules := [(''_io'', em_io), (''zlib'', em_zlib)]\<rparr>)
       = fold (\<lambda>entry a. abs_apply a entry)
           [add_entry (ExtensionModule ''_io'' em_io), add_entry (ExtensionModule ''zlib'' em_zlib)]
           (abs_of empty_staging)"
proof -
  have h1: "staging_wf empty_staging" by simp
  have h2: "resolve_python_packaging test_env (StdlibExtensionsPolicy ''minimal'') s1_dist
       = Inr [add_entry (ExtensionModule ''_io'' em_io), add_entry (ExtensionModule ''zlib'' em_zlib)]"
    by (simp add: s1_policy)
  have h3: "\<forall>p. StdlibExtensionsPolicy ''minimal'' \<noteq> FilterFileInclude p" by simp
  have h4: "\<forall>g. StdlibExtensionsPolicy ''minimal'' \<noteq> FilterFilesInclude g" by simp
  have h5: "process_rule test_env s1_dist (StdlibExtensionsPolicy ''minimal'') empty_staging
       = Inr (empty_staging\<lparr>st_extension_modules := [(''_io'', em_io), (''zlib'', em_zlib)]\<rparr>)"
    by (simp add: process_rule_def s1_policy apply_entry_def add_entry_def empty_staging_def)
  show ?thesis using process_rule_refines [OF h1 h2 h3 h4 h5] h1 h2 h3 h4 h5 by blast
qed

subsection \<open>Witnesses of the generator's properties\<close>

theorem config_c_inittab_witness:
  "\<exists>rows. parse_config_c (make_config_c s5_extensions) = Some (map snd rows, rows)
     \<and> map fst rows = sorted_list_of_set
         {k. \<exists>em f. om_get k s5_extensions = Some em \<and> init_fn em = Some f \<and> f \<noteq> ''NULL''}
     \<and> set rows \<subseteq> {(k, f). \<exists>em. om_get k s5_extensions = Some em \<and> init_fn em = Some f \<and> f \<noteq> ''NULL''}"
proof -
  have h1: "om_wf s5_extensions" by (simp add: s5_extensions_def om_from_list_wf)
  have h2: "\<forall>(k, em) \<in> set s5_extensions. module em = k \<and> CHR 0x22 \<notin> set k \<and> plain_line k
      \<and> (\<forall>f. init_fn em = Some f \<longrightarrow> plain_line f)"
    by (simp add: s5_extensions_eq em_io_def em_ssl_def em_zlib_def plain_line_def)
  show ?thesis using config_c_inittab [OF h1 h2] .
qed

subsection \<open>Witnesses of the linker's properties\<close>

lemma link_dist_sets:
  "link_sets link_dist (pr_extension_modules s1_result) =
     ([[''Modules'', ''zlibmodule.o'']], {''z''}, {}, {''m''})"
  by (simp add: link_sets_def link_dist_def s1_dist_def empty_dist_def s1_result_def em_io_def em_zlib_def
      extension_step_def classify_link_def classify_core_link_def)

lemma link_dist_ok: "\<exists>p. link_libpython link_dist s1_result [''out''] [''tmp''] Linux = Inr p"
  unfolding link_libpython_ok libraries_ok
  unfolding needed_libraries_def link_dist_sets
  by (simp add: kept_core_def config_o_suffix_def link_dist_def s1_dist_def empty_dist_def OS_IGNORE_LIBRARIES_def)

theorem pythonxy_objects_witness:
  "\<exists>acts info. link_libpython link_dist s1_result [''out''] [''tmp''] Linux = Inr (acts, info)
     \<and> last acts = CompileLibrary ''pythonXY'' [[''tmp'', ''Python'', ''ceval.o''], [''Modules'', ''zlibmodule.o'']]"
proof -
  obtain acts info where r: "link_libpython link_dist s1_result [''out''] [''tmp''] Linux = Inr (acts, info)"
    using link_dist_ok by auto
  have "last acts = CompileLibrary ''pythonXY'' [[''tmp'', ''Python'', ''ceval.o''], [''Modules'', ''zlibmodule.o'']]"
    using pythonxy_objects [OF r]
    by (simp add: link_dist_def s1_dist_def empty_dist_def s1_result_def em_io_def em_zlib_def path_ends_with_def)
  with r show ?thesis by blast
qed

theorem link_metadata_order_witness:
  "\<exists>acts info. link_libpython link_dist s1_result [''out''] [''tmp''] Linux = Inr (acts, info)
     \<and> cargo_metadata info = [link_static ''pyembeddedconfig'', link_static ''z'', link_system ''m'']"
proof -
  obtain acts info where r: "link_libpython link_dist s1_result [''out''] [''tmp''] Linux = Inr (acts, info)"
    using link_dist_ok by auto
  have "cargo_metadata info = [link_static ''pyembeddedconfig'', link_static ''z'', link_system ''m'']"
    using link_metadata_order [OF r]
    by (simp add: needed_libraries_def needed_frameworks_def needed_system_libraries_def link_dist_sets
        OS_IGNORE_LIBRARIES_def)
  with r show ?thesis by blast
qed

theorem link_libpython_succeeds_iff_witness:
  "(\<exists>p. link_libpython link_dist s1_result [''out''] [''tmp''] Linux = Inr p)
   \<and> \<not> (\<exists>p. link_libpython (link_dist\<lparr>libraries := []\<rparr>) s1_result [''out''] [''tmp''] Linux = Inr p)"
proof -
  have sets: "link_sets (link_dist\<lparr>libraries := []\<rparr>) (pr_extension_modules s1_result) =
      link_sets link_dist (pr_extension_modules s1_result)"
    by (simp add: link_sets_def)
  show ?thesis
    using link_libpython_succeeds_iff [of link_dist s1_result "[''out'']" "[''tmp'']" Linux]
      link_libpython_succeeds_iff [of "link_dist\<lparr>libraries := []\<rparr>" s1_result "[''out'']" "[''tmp'']" Linux]
    unfolding needed_libraries_def sets link_dist_sets
    by (simp add: kept_core_def config_o_suffix_def link_dist_def s1_dist_def empty_dist_def OS_IGNORE_LIBRARIES_def)
qed

subsection \<open>Scenarios S4 and S6\<close>

lemma s4_rules:
  "process_rules test_env s4_dist [StdlibExtensionsPolicy ''no-libraries''] =
     Inr (empty_staging\<lparr>st_extension_modules := [(''_ssl'', em_ssl)]\<rparr>)"
  by (simp add: process_rules_def process_rule_def resolve_extensions_policy_def policy_entries_def
      s4_dist_def empty_dist_def em_ssl11_def em_ssl_def apply_entry_def add_entry_def empty_staging_def)

lemma s4_required: "add_required s4_dist [(''_ssl'', em_ssl)] = Inr [(''_ssl'', em_ssl)]"
  by (simp add: add_required_def add_required_one_def s4_dist_def empty_dist_def em_ssl11_def om_contains_def)

lemma s6_rules:
  "process_rules test_env s1_dist [StdlibExtensionsExplicitIncludes [''json'']] = Inr empty_staging"
  by (simp add: process_rules_def process_rule_def resolve_explicit_includes_def s1_dist_def empty_dist_def
      apply_entry_def)

lemma s6_required:
  "add_required s1_dist [] = Inr [(''_io'', em_io), (''zlib'', em_zlib)]"
  by (simp add: add_required_def add_required_one_def s1_dist_def om_contains_def em_io_def em_zlib_def
      em_readline_def)

lemma s4_resolves:
  "resolve_python_resources test_env s4_dist [StdlibExtensionsPolicy ''no-libraries''] = Inr s4_result"
  by (simp add: resolve_python_resources_def s4_rules s4_required compile_bytecodes_def empty_staging_def
      remove_ignored_def OS_IGNORE_EXTENSIONS_def s4_result_def om_keys_def model_simps)

text \<open>Scenario S4: under the \<open>no-libraries\<close> policy the first
  variant that links no library is staged, here \<open>openssl-3\<close>.\<close>

theorem s4_no_libraries_variant:
  "resolve_python_resources test_env s4_dist [StdlibExtensionsPolicy ''no-libraries''] = Inr s4_result
   \<and> map (variant \<circ> snd) (pr_extension_modules s4_result) = [''openssl-3'']"
  by (simp add: s4_resolves s4_result_def em_ssl_def)

text \<open>Scenario S6: including only \<open>json\<close>, which the
  distribution does not have, stages nothing by rule, and the closure still
  adds the built-in \<open>_io\<close> and the required \<open>zlib\<close>.\<close>

theorem s6_required_closure:
  "resolve_python_resources test_env s1_dist [StdlibExtensionsExplicitIncludes [''json'']] = Inr s1_result
   \<and> om_keys (pr_extension_modules s1_result) = [''_io'', ''zlib'']"
  by (simp add: resolve_python_resources_def s6_rules s6_required compile_bytecodes_def empty_staging_def
      remove_ignored_def OS_IGNORE_EXTENSIONS_def s1_result_def om_keys_def model_simps)

text \<open>The site-packages directory of the \<open>Virtualenv\<close> rule
  takes the first three bytes of the version string, so Python 3.10 is looked
  up under \<open>python3.1\<close>.\<close>

theorem site_packages_python310:
  "site_packages_path [''venv''] (empty_dist\<lparr>version := ''3.10.4''\<rparr>) = Inr [''venv'', ''lib'', ''python3.1'', ''site-packages'']"
  by (simp add: site_packages_path_def empty_dist_def)

subsection \<open>Witnesses of the resolver's properties\<close>

lemma venv_resolves:
  "\<exists>es. resolve_virtualenv venv_env [''venv''] 0 [''foo.bar''] False empty_dist = Inr es"
  by (simp add: resolve_virtualenv_def site_packages_path_def empty_dist_def venv_env_def scan_sources_def
      read_module_def venv_relevant_def prefix_match_def)

theorem virtualenv_prefix_safety_witness:
  "\<exists>es. resolve_virtualenv venv_env [''venv''] 0 [''foo.bar''] False empty_dist = Inr es
     \<and> resource_name ` resource ` set es = {''foo'', ''foo.barbell''}"
proof -
  obtain es where r: "resolve_virtualenv venv_env [''venv''] 0 [''foo.bar''] False empty_dist = Inr es"
    using venv_resolves by blast
  have "resource_name ` resource ` set es = {''foo'', ''foo.barbell''}"
    using virtualenv_prefix_safety [OF r] by (simp add: venv_env_def insert_commute)
  with r show ?thesis by blast
qed

theorem resolver_only_adds_witness:
  "resolve_python_packaging test_env (StdlibExtensionsPolicy ''minimal'') s1_dist =
     Inr [add_entry (ExtensionModule ''_io'' em_io), add_entry (ExtensionModule ''zlib'' em_zlib)]
   \<and> action (add_entry (ExtensionModule ''zlib'' em_zlib)) = Add"
  using resolver_only_adds [of test_env "StdlibExtensionsPolicy ''minimal''" s1_dist
      "[add_entry (ExtensionModule ''_io'' em_io), add_entry (ExtensionModule ''zlib'' em_zlib)]"
      "add_entry (ExtensionModule ''zlib'' em_zlib)"]
  by (simp add: s1_policy)

theorem extensions_policy_illegal_witness:
  "resolve_extensions_policy ''smallest'' s1_dist = Inl (IllegalPolicy ''smallest'')
   \<and> resolve_extensions_policy ''smallest'' empty_dist = Inr []"
  using extensions_policy_illegal [of "''smallest''" s1_dist] extensions_policy_illegal [of "''smallest''" empty_dist]
  by (simp add: s1_dist_def empty_dist_def)

theorem is_stdlib_test_package_witness:
  "is_stdlib_test_package ''json.tests.test_foo'' \<and> \<not> is_stdlib_test_package ''json.tests''
   \<and> \<not> is_stdlib_test_package ''test''"
  using is_stdlib_test_package_iff [of "''json.tests.test_foo''"] is_stdlib_test_package_iff [of "''json.tests''"]
    is_stdlib_test_package_iff [of "''test''"]
  by (simp add: STDLIB_TEST_PACKAGES_def prefix_match_def)

theorem explicit_includes_result_witness:
  "resolve_explicit_includes [''zlib'', ''json'', ''_io''] s1_dist =
     Inr [add_entry (ExtensionModule ''zlib'' em_zlib), add_entry (ExtensionModule ''_io'' em_io)]"
  using explicit_includes_result [of s1_dist "[''zlib'', ''json'', ''_io'']"]
  by (simp add: s1_dist_def empty_dist_def)

end
