(* ===== verification/Tar.thy ===== *)
theory Tar
  imports Ordered_Map
begin

text \<open>
  The Rust toolchain package archive (\<open>src/tugger-rust-toolchain/src/tar.rs\<close>).
  \<open>PackageArchive::new\<close> reads a compressed tar archive into an in-memory
  \<open>FileManifest\<close>, dropping the first component of every entry path, and
  checks the \<open>rust-installer-version\<close> and \<open>components\<close> files;
  \<open>install\<close> reads each component's \<open>manifest.in\<close> (\<open>parse_manifest\<close>) and
  writes the files it lists under the destination directory.

  Decompression and tar parsing (the \<open>zstd\<close>, \<open>xz2\<close>, \<open>flate2\<close> and \<open>tar\<close>
  crates) are a parameter \<open>tar_reader\<close> that yields the entries or an error.
  Paths are lists of components, as \<open>Path::components\<close> yields them and as
  \<open>Path\<close> compares them; a leading \<open>''/''\<close> component is the root.
  \<open>FileManifest\<close> (crate \<open>tugger-file-manifest\<close>, outside this repository) is a
  \<open>BTreeMap\<close> from paths to file entries whose \<open>add_file_entry\<close> refuses a
  path whose display contains \<open>..\<close> or starts with \<open>/\<close>.  File writes are the
  actions \<open>install\<close> performs; a failed write is not modelled.
\<close>

datatype compression_format = Gzip | Xz | Zstd

text \<open>A tar entry: its path, its contents and the mode of its header, which
  \<open>Header::mode\<close> may fail to parse.\<close>

record tar_entry =
  te_path :: path
  te_data :: bytes
  te_mode :: "32 word option"

record file_entry =
  fe_data :: bytes
  fe_executable :: bool

type_synonym file_manifest = "(path, file_entry) btree_map"

record package_archive =
  pa_manifest :: file_manifest
  pa_components :: "string list"

datatype tar_error =
    ReadError compression_format
  | NoFirstComponent
  | ModeError path
  | IllegalRelativePath string
  | IllegalAbsolutePath string
  | MissingInstallerVersion
  | UnsupportedInstallerVersion
  | MissingComponents
  | Utf8Error
  | ManifestNotFound path
  | DirsNotImplemented
  | MissingFile path
  | UnhandledAction string

type_synonym tar_reader = "compression_format \<Rightarrow> bytes \<Rightarrow> tar_error + tar_entry list"

subsection \<open>Paths\<close>

text \<open>\<open>base.join(s)\<close>: an absolute \<open>s\<close> replaces the base; otherwise its
  components are appended, and a \<open>.\<close> survives only in front.\<close>

definition path_join :: "path \<Rightarrow> string \<Rightarrow> path" where
  "path_join base s =
     (if s \<noteq> [] \<and> hd s = CHR ''/'' then path_of_str s
      else (case base @ path_of_str s of c # cs \<Rightarrow> c # filter (\<lambda>c. c \<noteq> ''.'') cs | [] \<Rightarrow> []))"

subsection \<open>The file manifest\<close>

definition add_file_entry :: "path \<Rightarrow> file_entry \<Rightarrow> file_manifest \<Rightarrow> tar_error + file_manifest" where
  "add_file_entry p fe m =
     (let s = display_path p in
      if str_contains ''..'' s then Inl (IllegalRelativePath s)
      else if starts_with s ''/'' then Inl (IllegalAbsolutePath s)
      else Inr (om_insert p fe m))"

subsection \<open>\<open>PackageArchive::new\<close>\<close>

text \<open>\<open>entry.header().mode()? & 0o111 != 0\<close>; octal \<open>111\<close> is \<open>0x49\<close>.\<close>

definition is_executable :: "32 word \<Rightarrow> bool" where
  "is_executable mode \<longleftrightarrow> mode AND 0x49 \<noteq> 0"

text \<open>The body of the loop over the archive's entries.\<close>

definition archive_step :: "tar_entry \<Rightarrow> file_manifest \<Rightarrow> tar_error + file_manifest" where
  "archive_step te m =
     (case te_path te of
        [] \<Rightarrow> Inl NoFirstComponent
      | _ # rest \<Rightarrow>
          (case te_mode te of
             None \<Rightarrow> Inl (ModeError (te_path te))
           | Some mode \<Rightarrow> add_file_entry rest \<lparr>fe_data = te_data te, fe_executable = is_executable mode\<rparr> m))"

definition installer_version_ok :: "bytes \<Rightarrow> bool" where
  "installer_version_ok d \<longleftrightarrow> d = str_bytes ''3\<newline>''"

text \<open>The checks after the loop, and the parse of the \<open>components\<close> file.\<close>

definition archive_finish :: "file_manifest \<Rightarrow> tar_error + package_archive" where
  "archive_finish m =
     (case om_get [''rust-installer-version''] m of
        None \<Rightarrow> Inl MissingInstallerVersion
      | Some v \<Rightarrow>
          if \<not> installer_version_ok (fe_data v) then Inl UnsupportedInstallerVersion
          else (case om_get [''components''] m of
                  None \<Rightarrow> Inl MissingComponents
                | Some c \<Rightarrow>
                    if \<not> valid_utf8 (fe_data c) then Inl Utf8Error
                    else Inr \<lparr>pa_manifest = m, pa_components = split_lines (bytes_str (fe_data c)) []\<rparr>))"

definition package_archive_new :: "tar_reader \<Rightarrow> compression_format \<Rightarrow> bytes \<Rightarrow> tar_error + package_archive" where
  "package_archive_new read format data =
     (case read format data of
        Inl err \<Rightarrow> Inl err
      | Inr entries \<Rightarrow>
          (case fold_e archive_step entries [] of
             Inl err \<Rightarrow> Inl err
           | Inr m \<Rightarrow> archive_finish m))"

subsection \<open>\<open>parse_manifest\<close>\<close>

text \<open>One line of \<open>manifest.in\<close>: split at the first colon into an action
  and a path; a line without a colon is skipped.\<close>

definition manifest_line ::
  "string \<Rightarrow> string list \<times> string list \<Rightarrow> tar_error + string list \<times> string list" where
  "manifest_line line acc =
     (case find_char CHR '':'' line of
        None \<Rightarrow> Inr acc
      | Some pos \<Rightarrow>
          (let action = take pos line; p = drop (Suc pos) line in
           if action = ''file'' then Inr (fst acc, snd acc @ [p])
           else if action = ''dir'' then Inr (fst acc @ [p], snd acc)
           else Inl (UnhandledAction action)))"

definition parse_manifest :: "bytes \<Rightarrow> tar_error + string list \<times> string list" where
  "parse_manifest data =
     (if \<not> valid_utf8 data then Inl Utf8Error
      else fold_e manifest_line (split_lines (bytes_str data) []) ([], []))"

subsection \<open>\<open>install\<close>\<close>

datatype install_action = WriteEntry path file_entry

text \<open>The loop over the files of one component: each is looked up in the
  manifest under the component's directory and written under the destination.
  The result is the writes performed and the error that stopped the loop.\<close>

fun install_files ::
  "file_manifest \<Rightarrow> path \<Rightarrow> path \<Rightarrow> string list \<Rightarrow> install_action list \<times> tar_error option" where
  "install_files m dest cp [] = ([], None)"
| "install_files m dest cp (f # fs) =
     (case om_get (path_join cp f) m of
        None \<Rightarrow> ([], Some (MissingFile (path_join cp f)))
      | Some fe \<Rightarrow> (let (ws, err) = install_files m dest cp fs in (WriteEntry (path_join dest f) fe # ws, err)))"

definition install_component :: "file_manifest \<Rightarrow> path \<Rightarrow> string \<Rightarrow> install_action list \<times> tar_error option" where
  "install_component m dest component =
     (let cp = path_of_str component; mp = path_join cp ''manifest.in'' in
      case om_get mp m of
        None \<Rightarrow> ([], Some (ManifestNotFound mp))
      | Some me \<Rightarrow>
          (case parse_manifest (fe_data me) of
             Inl err \<Rightarrow> ([], Some err)
           | Inr (dirs, files) \<Rightarrow>
               if dirs \<noteq> [] then ([], Some DirsNotImplemented) else install_files m dest cp files))"

fun install_components ::
  "file_manifest \<Rightarrow> path \<Rightarrow> string list \<Rightarrow> install_action list \<times> tar_error option" where
  "install_components m dest [] = ([], None)"
| "install_components m dest (c # cs) =
     (case install_component m dest c of
        (ws, Some err) \<Rightarrow> (ws, Some err)
      | (ws, None) \<Rightarrow> (let (ws', err) = install_components m dest cs in (ws @ ws', err)))"

definition install :: "package_archive \<Rightarrow> path \<Rightarrow> install_action list \<times> tar_error option" where
  "install pa dest = install_components (pa_manifest pa) dest (pa_components pa)"

text \<open>The \<open>manifest.in\<close> format as the installer writes it: one
  \<open>dir:\<close> or \<open>file:\<close> line per entry, each ended by a newline.\<close>

definition render_manifest :: "string list \<Rightarrow> string list \<Rightarrow> string" where
  "render_manifest dirs files =
     concat (map (\<lambda>l. l @ [CHR 0x0A]) (map (\<lambda>d. ''dir:'' @ d) dirs @ map (\<lambda>f. ''file:'' @ f) files))"

text \<open>The invariant of a manifest built by \<open>add_file_entry\<close>: no key displays
  with \<open>..\<close> or a leading \<open>/\<close>.\<close>

definition safe_key :: "path \<Rightarrow> bool" where
  "safe_key k \<longleftrightarrow> \<not> str_contains ''..'' (display_path k) \<and> \<not> starts_with (display_path k) ''/''"

definition manifest_safe :: "file_manifest \<Rightarrow> bool" where
  "manifest_safe m \<longleftrightarrow> om_wf m \<and> (\<forall>k \<in> set (om_keys m). safe_key k)"

subsection \<open>Lemmas\<close>

lemma manifest_safe_Nil: "manifest_safe []"
  by (simp add: manifest_safe_def om_keys_def)

lemma add_file_entry_Inr:
  "add_file_entry p fe m = Inr m' \<longleftrightarrow> safe_key p \<and> m' = om_insert p fe m"
  by (auto simp: add_file_entry_def safe_key_def Let_def)

lemma archive_step_Inr:
  "archive_step te m = Inr m' \<longleftrightarrow>
     (\<exists>c rest mode. te_path te = c # rest \<and> te_mode te = Some mode \<and> safe_key rest
        \<and> m' = om_insert rest \<lparr>fe_data = te_data te, fe_executable = is_executable mode\<rparr> m)"
  by (auto simp: archive_step_def add_file_entry_Inr split: list.splits option.splits)

lemma archive_step_Cons:
  "te_path te = c # rest \<Longrightarrow> te_mode te = Some mode \<Longrightarrow> safe_key rest \<Longrightarrow>
   archive_step te m = Inr (om_insert rest \<lparr>fe_data = te_data te, fe_executable = is_executable mode\<rparr> m)"
  by (simp add: archive_step_Inr)

lemma archive_fold_safe:
  assumes "fold_e archive_step es m = Inr m'" and "manifest_safe m"
  shows "manifest_safe m' \<and> set (om_keys m') = set (om_keys m) \<union> (\<lambda>te. tl (te_path te)) ` set es"
  using assms
proof (induction es arbitrary: m)
  case (Cons te es)
  then obtain m1 where s1: "archive_step te m = Inr m1" and rest: "fold_e archive_step es m1 = Inr m'"
    by (auto split: sum.splits)
  from s1 obtain c r mode where "te_path te = c # r" "safe_key r"
    "m1 = om_insert r \<lparr>fe_data = te_data te, fe_executable = is_executable mode\<rparr> m"
    by (auto simp: archive_step_Inr)
  with Cons.prems(2) have "manifest_safe m1" "set (om_keys m1) = insert (tl (te_path te)) (set (om_keys m))"
    by (auto simp: manifest_safe_def)
  with Cons.IH [OF rest] show ?case by auto
qed simp

lemma archive_finish_Inr:
  "archive_finish m = Inr pa \<longleftrightarrow>
     (\<exists>v c. om_get [''rust-installer-version''] m = Some v \<and> fe_data v = str_bytes ''3\<newline>''
        \<and> om_get [''components''] m = Some c \<and> valid_utf8 (fe_data c)
        \<and> pa = \<lparr>pa_manifest = m, pa_components = split_lines (bytes_str (fe_data c)) []\<rparr>)"
  by (auto simp: archive_finish_def installer_version_ok_def split: option.splits)

lemma package_archive_new_Inr:
  assumes "package_archive_new read fmt data = Inr pa"
  obtains es where "read fmt data = Inr es" "fold_e archive_step es [] = Inr (pa_manifest pa)"
    "archive_finish (pa_manifest pa) = Inr pa"
  using assms
  by (auto simp: package_archive_new_def archive_finish_Inr split: sum.splits)

lemma manifest_line_Inr_iff:
  "(\<exists>r. manifest_line l acc = Inr r) \<longleftrightarrow>
     (\<forall>pos. find_char CHR '':'' l = Some pos \<longrightarrow> take pos l \<in> {''file'', ''dir''})"
  by (auto simp: manifest_line_def Let_def split: option.splits)

lemma manifest_lines_render:
  "fold_e manifest_line (map (\<lambda>d. ''dir:'' @ d) ds @ map (\<lambda>f. ''file:'' @ f) fs) (a, b) = Inr (a @ ds, b @ fs)"
proof -
  have dirs: "fold_e manifest_line (map (\<lambda>d. ''dir:'' @ d) ds) (a, b) = Inr (a @ ds, b)" for a b
    by (induction ds arbitrary: a) (simp_all add: manifest_line_def)
  have files: "fold_e manifest_line (map (\<lambda>f. ''file:'' @ f) fs) (a, b) = Inr (a, b @ fs)" for a b
    by (induction fs arbitrary: b) (simp_all add: manifest_line_def)
  show ?thesis unfolding fold_e_append dirs by (simp only: files sum.case)
qed

lemma valid_utf8_render:
  assumes "\<forall>p \<in> set ds \<union> set fs. valid_utf8 (str_bytes p)"
  shows "valid_utf8 (str_bytes (render_manifest ds fs))"
  unfolding render_manifest_def
  by (rule valid_utf8_lines) (use assms in \<open>auto simp: valid_utf8_str_bytes_Cons\<close>)

lemma split_on_no_sep: "c \<notin> set acc \<Longrightarrow> x \<in> set (split_on c s acc) \<Longrightarrow> c \<notin> set x"
  by (induction c s acc rule: split_on.induct) (auto split: if_splits)

lemma path_of_str_rel:
  assumes "\<not> (s \<noteq> [] \<and> hd s = CHR ''/'')"
  shows "''/'' \<notin> set (path_of_str s)"
proof -
  obtain parts where parts: "split_on CHR ''/'' s [] = parts" by simp
  have "''/'' \<notin> set parts"
    using split_on_no_sep [of "CHR ''/''" "[]" "''/''" s] parts by auto
  moreover have "set (path_of_str s) \<subseteq> set parts \<union> {''.''}"
    using assms parts by (cases parts) (auto simp: path_of_str_def)
  ultimately show ?thesis by auto
qed

lemma display_path_dotdot: "''..'' \<in> set k \<Longrightarrow> str_contains ''..'' (display_path k)"
proof (cases k)
  case (Cons c cs)
  assume "''..'' \<in> set k"
  with Cons have "''..'' \<in> set (if c = ''/'' then cs else k)" by auto
  then obtain a b where j: "join_with ''/'' (if c = ''/'' then cs else k) = a @ ''..'' @ b"
    by (blast dest: join_with_mem)
  have "display_path k = (if c = ''/'' then ''/'' @ a else a) @ ''..'' @ b"
    using Cons j by (auto simp: display_path_def split: if_splits)
  then show ?thesis by (simp only: str_contains_infix)
qed simp

lemma display_path_root: "starts_with (display_path (''/'' # cs)) ''/''"
  by (simp add: display_path_def starts_with_prefix)

lemma mem_path_norm:
  "x \<noteq> ''.'' \<Longrightarrow> x \<in> set xs \<Longrightarrow> x \<in> set (case xs of c # cs \<Rightarrow> c # filter (\<lambda>c. c \<noteq> ''.'') cs | [] \<Rightarrow> [])"
  by (cases xs) auto

text \<open>Where a file of a component goes: when its path under the component is
  a safe key, its destination is the destination directory followed by
  components that are neither \<open>..\<close>, nor \<open>.\<close>, nor the root.\<close>

lemma written_path:
  assumes "safe_key (path_join cp f)" and "dest \<noteq> []" and "''.'' \<notin> set (tl dest)"
  shows "\<exists>rel. path_join dest f = dest @ rel \<and> ''..'' \<notin> set rel \<and> ''/'' \<notin> set rel \<and> ''.'' \<notin> set rel"
proof -
  have rel: "\<not> (f \<noteq> [] \<and> hd f = CHR ''/'')"
  proof
    assume abs: "f \<noteq> [] \<and> hd f = CHR ''/''"
    then have "path_join cp f = ''/'' # filter (\<lambda>c. c \<noteq> [] \<and> c \<noteq> ''.'') (split_on CHR ''/'' f [])"
      by (simp add: path_join_def path_of_str_def)
    with assms(1) display_path_root show False by (simp add: safe_key_def)
  qed
  let ?rel = "filter (\<lambda>c. c \<noteq> ''.'') (path_of_str f)"
  have "''..'' \<notin> set (path_of_str f)"
  proof
    assume "''..'' \<in> set (path_of_str f)"
    then have "''..'' \<in> set (path_join cp f)"
      using rel mem_path_norm [of "''..''" "cp @ path_of_str f"] by (simp add: path_join_def)
    with assms(1) show False by (auto simp: safe_key_def dest: display_path_dotdot)
  qed
  moreover have "path_join dest f = dest @ ?rel"
    using rel assms(2,3) by (cases dest) (auto simp: path_join_def filter_id_conv)
  ultimately show ?thesis
    using path_of_str_rel [OF rel] by (intro exI [of _ ?rel]) auto
qed

lemma install_files_safe:
  assumes "manifest_safe m" and "dest \<noteq> []" and "''.'' \<notin> set (tl dest)"
    and "WriteEntry p fe \<in> set (fst (install_files m dest cp fs))"
  shows "\<exists>rel. p = dest @ rel \<and> ''..'' \<notin> set rel \<and> ''/'' \<notin> set rel \<and> ''.'' \<notin> set rel"
  using assms(4)
proof (induction fs)
  case (Cons f fs)
  show ?case
  proof (cases "om_get (path_join cp f) m")
    case (Some fe')
    then have "safe_key (path_join cp f)"
      using assms(1) om_get_Some_in_keys by (fastforce simp: manifest_safe_def)
    with Some Cons show ?thesis
      using written_path [OF _ assms(2,3)] by (auto simp: split_def Let_def)
  qed (use Cons.prems in simp)
qed simp

lemma install_components_safe:
  assumes "manifest_safe m" and "dest \<noteq> []" and "''.'' \<notin> set (tl dest)"
    and "WriteEntry p fe \<in> set (fst (install_components m dest cs))"
  shows "\<exists>rel. p = dest @ rel \<and> ''..'' \<notin> set rel \<and> ''/'' \<notin> set rel \<and> ''.'' \<notin> set rel"
  using assms(4)
proof (induction cs)
  case (Cons c cs)
  have comp: "WriteEntry p fe \<in> set (fst (install_component m dest c)) \<Longrightarrow> ?case"
    using install_files_safe [OF assms(1,2,3)]
    by (auto simp: install_component_def Let_def split: option.splits sum.splits if_splits)
  show ?case
    using Cons comp by (auto simp: split_def Let_def split: option.splits prod.splits)
qed simp

lemma bit_0o111_int: "bit (73::int) n \<longleftrightarrow> n = 0 \<or> n = 3 \<or> n = 6"
proof (cases "n < 7")
  case True
  then have "n \<in> {0, 1, 2, 3, 4, 5, 6}" by auto
  then show ?thesis by (auto simp: bit_iff_odd)
next
  case False
  then have "(2::int) ^ 7 \<le> 2 ^ n" by (intro power_increasing) auto
  then have "73 div (2::int) ^ n = 0" by (intro div_pos_pos_trivial) auto
  with False show ?thesis by (simp add: bit_iff_odd)
qed

lemma install_files_prefix:
  "install_files m dest cp fs =
     (let k = length (takeWhile (\<lambda>f. om_get (path_join cp f) m \<noteq> None) fs) in
      (map (\<lambda>f. WriteEntry (path_join dest f) (the (om_get (path_join cp f) m))) (take k fs),
       if k < length fs then Some (MissingFile (path_join cp (fs ! k))) else None))"
proof (induction fs)
  case (Cons f fs)
  then show ?case by (cases "om_get (path_join cp f) m") (simp_all add: Let_def split_def)
qed simp

subsection \<open>Properties of the archive\<close>

text \<open>C21 (bounds). An entry is executable exactly when one of the three
  execute bits of its 32-bit mode (owner, group, other: bits 6, 3 and 0) is
  set; the other bits of the mode are ignored.\<close>

theorem executable_bits:
  "is_executable mode \<longleftrightarrow> bit mode 0 \<or> bit mode 3 \<or> bit mode 6"
proof -
  have mask: "bit (0x49 :: 32 word) n \<longleftrightarrow> n = 0 \<or> n = 3 \<or> n = 6" for n
    by (auto simp: bit_numeral_word_iff bit_0o111_int)
  have "mode AND 0x49 \<noteq> 0 \<longleftrightarrow> (\<exists>n. bit mode n \<and> bit (0x49 :: 32 word) n)"
    by (simp add: bit_eq_iff bit_and_iff) blast
  also have "\<dots> \<longleftrightarrow> bit mode 0 \<or> bit mode 3 \<or> bit mode 6"
    by (simp only: mask) blast
  finally show ?thesis by (simp add: is_executable_def)
qed

text \<open>C22 (roundtrip). \<open>parse_manifest\<close> reads back the directory and file
  entries of a \<open>manifest.in\<close> in their order, for paths that are UTF-8 and
  hold no line break (a path may itself contain a colon).\<close>

theorem manifest_roundtrip:
  assumes "\<forall>p \<in> set ds \<union> set fs. plain_line p \<and> valid_utf8 (str_bytes p)"
  shows "parse_manifest (str_bytes (render_manifest ds fs)) = Inr (ds, fs)"
proof -
  have "valid_utf8 (str_bytes (render_manifest ds fs))"
    using assms by (intro valid_utf8_render) auto
  moreover have "\<forall>l \<in> set (map (\<lambda>d. ''dir:'' @ d) ds @ map (\<lambda>f. ''file:'' @ f) fs). plain_line l"
    using assms by (auto simp: plain_line_def)
  then have "split_lines (render_manifest ds fs) [] = map (\<lambda>d. ''dir:'' @ d) ds @ map (\<lambda>f. ''file:'' @ f) fs"
    unfolding render_manifest_def by (rule split_lines_terminated)
  ultimately show ?thesis
    unfolding parse_manifest_def bytes_str_str_bytes
    by (simp only: if_True not_True_eq_False if_False manifest_lines_render append_Nil)
qed

text \<open>C23 (error). \<open>parse_manifest\<close> fails exactly on bytes that are not
  UTF-8, or when a line with a colon has an action other than \<open>file\<close> or
  \<open>dir\<close> before its first colon; lines without a colon are ignored.\<close>

theorem parse_manifest_ok:
  "(\<exists>r. parse_manifest d = Inr r) \<longleftrightarrow>
     valid_utf8 d \<and> (\<forall>l \<in> set (split_lines (bytes_str d) []).
        \<forall>pos. find_char CHR '':'' l = Some pos \<longrightarrow> take pos l \<in> {''file'', ''dir''})"
proof -
  have "(\<exists>r. fold_e manifest_line (split_lines (bytes_str d) []) ([], []) = Inr r) \<longleftrightarrow>
     (\<forall>l \<in> set (split_lines (bytes_str d) []).
        \<forall>pos. find_char CHR '':'' l = Some pos \<longrightarrow> take pos l \<in> {''file'', ''dir''})"
    by (rule fold_e_Inr_iff) (rule manifest_line_Inr_iff)
  then show ?thesis
    unfolding parse_manifest_def by (cases "valid_utf8 d") (simp_all only: if_True if_False not_True_eq_False not_False_eq_True simp_thms, auto)
qed

text \<open>C24 (invariant). The manifest of an archive that \<open>PackageArchive::new\<close>
  accepts is a well-formed map whose keys are the entry paths without their
  first component, none displaying with \<open>..\<close> or a leading \<open>/\<close>.\<close>

theorem archive_manifest_safe:
  assumes "package_archive_new read fmt data = Inr pa"
  shows "manifest_safe (pa_manifest pa)
    \<and> (\<exists>es. read fmt data = Inr es \<and> set (om_keys (pa_manifest pa)) = (\<lambda>te. tl (te_path te)) ` set es)"
proof -
  obtain es where r: "read fmt data = Inr es" and f: "fold_e archive_step es [] = Inr (pa_manifest pa)"
    using assms by (rule package_archive_new_Inr)
  have nil: "set (om_keys ([] :: file_manifest)) = {}" by (simp add: om_keys_def)
  from archive_fold_safe [OF f manifest_safe_Nil]
  have "manifest_safe (pa_manifest pa)" "set (om_keys (pa_manifest pa)) = (\<lambda>te. tl (te_path te)) ` set es"
    by (simp_all only: nil Un_empty_left)
  with r show ?thesis by blast
qed

text \<open>C25 (functional). An accepted archive has a \<open>rust-installer-version\<close>
  file holding exactly \<open>3\<newline>\<close>, and its components are the lines of its
  UTF-8 \<open>components\<close> file.\<close>

theorem archive_version_components:
  assumes "package_archive_new read fmt data = Inr pa"
  shows "\<exists>v c. om_get [''rust-installer-version''] (pa_manifest pa) = Some v \<and> fe_data v = str_bytes ''3\<newline>''
    \<and> om_get [''components''] (pa_manifest pa) = Some c \<and> valid_utf8 (fe_data c)
    \<and> pa_components pa = split_lines (bytes_str (fe_data c)) []"
proof -
  obtain es where "archive_finish (pa_manifest pa) = Inr pa"
    using assms by (rule package_archive_new_Inr)
  then obtain v c where "om_get [''rust-installer-version''] (pa_manifest pa) = Some v"
    "fe_data v = str_bytes ''3\<newline>''" "om_get [''components''] (pa_manifest pa) = Some c"
    "valid_utf8 (fe_data c)" and eq: "pa = \<lparr>pa_manifest = pa_manifest pa,
       pa_components = split_lines (bytes_str (fe_data c)) []\<rparr>"
    unfolding archive_finish_Inr by blast
  moreover from eq have "pa_components pa = split_lines (bytes_str (fe_data c)) []"
    by (metis package_archive.select_convs(2))
  ultimately show ?thesis by blast
qed

text \<open>C26 (safety). Installing an archive that \<open>PackageArchive::new\<close> accepted
  writes only inside the destination directory: every written path is the
  destination followed by components that are neither \<open>..\<close>, \<open>.\<close> nor the
  root, whatever the \<open>manifest.in\<close> files list, and also when the
  installation stops at an error.\<close>

theorem install_stays_in_dest:
  assumes "package_archive_new read fmt data = Inr pa"
    and "dest \<noteq> []" and "''.'' \<notin> set (tl dest)"
    and "WriteEntry p fe \<in> set (fst (install pa dest))"
  shows "\<exists>rel. p = dest @ rel \<and> ''..'' \<notin> set rel \<and> ''/'' \<notin> set rel \<and> ''.'' \<notin> set rel"
proof -
  obtain es where f: "fold_e archive_step es [] = Inr (pa_manifest pa)"
    using assms(1) by (rule package_archive_new_Inr)
  have "manifest_safe (pa_manifest pa)"
    using archive_fold_safe [OF f manifest_safe_Nil] by blast
  then show ?thesis
    using install_components_safe assms(2,3,4) by (simp add: install_def)
qed

text \<open>C39 (functional). Installing a component copies the files its
  \<open>manifest.in\<close> lists, in the listed order, each from the archive entry under
  the component's directory to the same relative path under the destination;
  at the first listed file the archive lacks it stops with \<open>MissingFile\<close>,
  the copies before it made and none after.\<close>

theorem install_component_writes:
  assumes "om_get (path_join (path_of_str c) ''manifest.in'') m = Some me"
    and "parse_manifest (fe_data me) = Inr ([], files)"
  shows "install_component m dest c =
    (let cp = path_of_str c; k = length (takeWhile (\<lambda>f. om_get (path_join cp f) m \<noteq> None) files) in
     (map (\<lambda>f. WriteEntry (path_join dest f) (the (om_get (path_join cp f) m))) (take k files),
      if k < length files then Some (MissingFile (path_join cp (files ! k))) else None))"
  using assms by (simp add: install_component_def install_files_prefix Let_def)

end
