(* ===== verification/Tar_Scenarios.thy ===== *)
theory Tar_Scenarios
  imports Tar
begin

text \<open>
  A concrete Rust toolchain archive: a \<open>rust-installer-version\<close> of \<open>3\<close>, one
  component \<open>rustc\<close> whose \<open>manifest.in\<close> lists \<open>bin/rustc\<close>, and that file
  with mode \<open>0o755\<close>; every entry under the top directory \<open>rust-1.0\<close>.  The
  theorems evaluate \<open>PackageArchive::new\<close> and \<open>install\<close> on it, and apply the
  general properties of \<open>Tar\<close> to it.
\<close>

definition toolchain_entries :: "tar_entry list" where
  "toolchain_entries =
     [\<lparr>te_path = [''rust-1.0'', ''rust-installer-version''], te_data = str_bytes ''3\<newline>'', te_mode = Some 0x1A4\<rparr>,
      \<lparr>te_path = [''rust-1.0'', ''components''], te_data = str_bytes ''rustc\<newline>'', te_mode = Some 0x1A4\<rparr>,
      \<lparr>te_path = [''rust-1.0'', ''rustc'', ''manifest.in''], te_data = str_bytes ''file:bin/rustc\<newline>'',
       te_mode = Some 0x1A4\<rparr>,
      \<lparr>te_path = [''rust-1.0'', ''rustc'', ''bin'', ''rustc''], te_data = [0x7F, 0x45], te_mode = Some 0x1ED\<rparr>]"

definition toolchain_reader :: tar_reader where
  "toolchain_reader fmt data = Inr toolchain_entries"

definition rustc_entry :: file_entry where
  "rustc_entry = \<lparr>fe_data = [0x7F, 0x45], fe_executable = True\<rparr>"

definition toolchain_manifest :: file_manifest where
  "toolchain_manifest =
     [([''components''], \<lparr>fe_data = str_bytes ''rustc\<newline>'', fe_executable = False\<rparr>),
      ([''rust-installer-version''], \<lparr>fe_data = str_bytes ''3\<newline>'', fe_executable = False\<rparr>),
      ([''rustc'', ''bin'', ''rustc''], rustc_entry),
      ([''rustc'', ''manifest.in''], \<lparr>fe_data = str_bytes ''file:bin/rustc\<newline>'', fe_executable = False\<rparr>)]"

definition toolchain_archive :: package_archive where
  "toolchain_archive = \<lparr>pa_manifest = toolchain_manifest, pa_components = [''rustc'']\<rparr>"

text \<open>The same archive with a file entry whose path climbs out of the top
  directory.\<close>

definition escaping_entries :: "tar_entry list" where
  "escaping_entries = toolchain_entries @
     [\<lparr>te_path = [''rust-1.0'', ''..'', ''etc'', ''passwd''], te_data = [], te_mode = Some 0x1A4\<rparr>]"

text \<open>The toolchain archive with a \<open>manifest.in\<close> that lists a second file,
  \<open>bin/cargo\<close>, which the archive does not hold.\<close>

definition short_manifest :: file_manifest where
  "short_manifest =
     om_insert [''rustc'', ''manifest.in'']
       \<lparr>fe_data = str_bytes ''file:bin/rustc\<newline>file:bin/cargo\<newline>'', fe_executable = False\<rparr>
       toolchain_manifest"

subsection \<open>Evaluation\<close>

lemma executable_modes: "\<not> is_executable 0x1A4 \<and> is_executable 0x1ED"
  by (simp add: is_executable_def)

lemma toolchain_keys_safe:
  "safe_key [''rust-installer-version''] \<and> safe_key [''components''] \<and> safe_key [''rustc'', ''manifest.in'']
   \<and> safe_key [''rustc'', ''bin'', ''rustc'']"
  by (simp add: safe_key_def display_path_def)

lemma toolchain_fold: "fold_e archive_step toolchain_entries [] = Inr toolchain_manifest"
  by (simp add: toolchain_entries_def archive_step_Cons toolchain_keys_safe executable_modes
      toolchain_manifest_def rustc_entry_def)

lemma toolchain_finish: "archive_finish toolchain_manifest = Inr toolchain_archive"
  by (simp add: archive_finish_def toolchain_manifest_def installer_version_ok_def valid_utf8_str_bytes_Cons
      toolchain_archive_def)

lemma toolchain_new: "package_archive_new toolchain_reader Zstd [] = Inr toolchain_archive"
  by (simp add: package_archive_new_def toolchain_reader_def toolchain_fold toolchain_finish)

lemma rustc_manifest_parse: "parse_manifest (str_bytes ''file:bin/rustc\<newline>'') = Inr ([], [''bin/rustc''])"
  by (simp add: parse_manifest_def valid_utf8_str_bytes_Cons manifest_line_def)

lemma toolchain_paths:
  "path_of_str ''rustc'' = [''rustc'']
   \<and> path_join [''rustc''] ''manifest.in'' = [''rustc'', ''manifest.in'']
   \<and> path_join [''rustc''] ''bin/rustc'' = [''rustc'', ''bin'', ''rustc'']
   \<and> path_join [''/'', ''opt''] ''bin/rustc'' = [''/'', ''opt'', ''bin'', ''rustc'']"
  by (simp add: path_join_def path_of_str_def)

lemma toolchain_install:
  "install toolchain_archive [''/'', ''opt''] = ([WriteEntry [''/'', ''opt'', ''bin'', ''rustc''] rustc_entry], None)"
  by (simp add: install_def install_component_def toolchain_archive_def toolchain_paths toolchain_manifest_def
      rustc_manifest_parse)

subsection \<open>Scenario\<close>

text \<open>The toolchain archive is accepted with the first
  directory stripped from every path, and installing it under \<open>/opt\<close> writes
  exactly \<open>/opt/bin/rustc\<close>, executable.\<close>

theorem toolchain_install_scenario:
  "package_archive_new toolchain_reader Zstd [] = Inr toolchain_archive
   \<and> om_keys (pa_manifest toolchain_archive) =
       [[''components''], [''rust-installer-version''], [''rustc'', ''bin'', ''rustc''], [''rustc'', ''manifest.in'']]
   \<and> install toolchain_archive [''/'', ''opt''] =
       ([WriteEntry [''/'', ''opt'', ''bin'', ''rustc''] \<lparr>fe_data = [0x7F, 0x45], fe_executable = True\<rparr>], None)"
  using toolchain_new toolchain_install
  by (simp add: rustc_entry_def om_keys_def toolchain_archive_def toolchain_manifest_def)

text \<open>An archive with an entry whose path contains \<open>..\<close> is
  refused by the manifest, before any check of its contents.\<close>

theorem escaping_archive_refused:
  "package_archive_new (\<lambda>fmt data. Inr escaping_entries) Gzip [] = Inl (IllegalRelativePath ''../etc/passwd'')"
  by (simp add: package_archive_new_def escaping_entries_def fold_e_append toolchain_fold archive_step_def
      add_file_entry_def display_path_def)

subsection \<open>Witnesses of the archive's properties\<close>

theorem manifest_roundtrip_witness:
  "parse_manifest (str_bytes (render_manifest [''share''] [''bin/rustc'', ''a:b''])) =
     Inr ([''share''], [''bin/rustc'', ''a:b''])"
  by (rule manifest_roundtrip) (simp add: plain_line_def valid_utf8_str_bytes_Cons)

theorem parse_manifest_ok_witness:
  "(\<exists>r. parse_manifest (str_bytes ''file:a\<newline>'') = Inr r)
   \<and> \<not> (\<exists>r. parse_manifest (str_bytes ''link:a\<newline>'') = Inr r)"
  using parse_manifest_ok [of "str_bytes ''file:a\<newline>''"] parse_manifest_ok [of "str_bytes ''link:a\<newline>''"]
  by (simp add: valid_utf8_str_bytes_Cons)

theorem archive_manifest_safe_witness:
  "manifest_safe (pa_manifest toolchain_archive)
   \<and> set (om_keys (pa_manifest toolchain_archive)) = (\<lambda>te. tl (te_path te)) ` set toolchain_entries"
  using archive_manifest_safe [OF toolchain_new] by (simp add: toolchain_reader_def)

theorem archive_version_components_witness:
  "pa_components toolchain_archive = [''rustc'']
   \<and> (\<exists>v. om_get [''rust-installer-version''] (pa_manifest toolchain_archive) = Some v
          \<and> fe_data v = str_bytes ''3\<newline>'')"
  using archive_version_components [OF toolchain_new] by (auto simp: toolchain_archive_def)

theorem install_stays_in_dest_witness:
  "package_archive_new toolchain_reader Zstd [] = Inr toolchain_archive
   \<and> [''/'', ''opt''] \<noteq> [] \<and> ''.'' \<notin> set (tl [''/'', ''opt''])
   \<and> WriteEntry [''/'', ''opt'', ''bin'', ''rustc''] rustc_entry \<in> set (fst (install toolchain_archive [''/'', ''opt'']))
   \<and> (\<exists>rel. [''/'', ''opt'', ''bin'', ''rustc''] = [''/'', ''opt''] @ rel
          \<and> ''..'' \<notin> set rel \<and> ''/'' \<notin> set rel \<and> ''.'' \<notin> set rel)"
proof -
  have w: "WriteEntry [''/'', ''opt'', ''bin'', ''rustc''] rustc_entry \<in> set (fst (install toolchain_archive [''/'', ''opt'']))"
    by (simp add: toolchain_install)
  have d: "[''/'', ''opt''] \<noteq> []" "''.'' \<notin> set (tl [''/'', ''opt''])" by simp_all
  show ?thesis
    using install_stays_in_dest [OF toolchain_new d w] toolchain_new d w by blast
qed

lemma short_manifest_parse:
  "parse_manifest (str_bytes ''file:bin/rustc\<newline>file:bin/cargo\<newline>'') = Inr ([], [''bin/rustc'', ''bin/cargo''])"
  by (simp add: parse_manifest_def valid_utf8_str_bytes_Cons manifest_line_def)

theorem install_component_writes_witness:
  "install_component short_manifest [''/'', ''opt''] ''rustc'' =
     ([WriteEntry [''/'', ''opt'', ''bin'', ''rustc''] rustc_entry], Some (MissingFile [''rustc'', ''bin'', ''cargo'']))"
proof -
  have me: "om_get (path_join (path_of_str ''rustc'') ''manifest.in'') short_manifest
      = Some \<lparr>fe_data = str_bytes ''file:bin/rustc\<newline>file:bin/cargo\<newline>'', fe_executable = False\<rparr>"
    by (simp add: short_manifest_def toolchain_paths)
  have p: "parse_manifest (fe_data \<lparr>fe_data = str_bytes ''file:bin/rustc\<newline>file:bin/cargo\<newline>'',
      fe_executable = False\<rparr>) = Inr ([], [''bin/rustc'', ''bin/cargo''])"
    by (simp only: file_entry.select_convs short_manifest_parse)
  show ?thesis
    using install_component_writes [OF me p, of "[''/'', ''opt'']"]
    by (simp add: short_manifest_def toolchain_manifest_def path_join_def path_of_str_def)
qed

end
