(* ===== verification/Orchestrator.thy ===== *)
theory Orchestrator
  imports Reducer Linker Blob
begin

text \<open>
  The orchestrator of \<open>src/pyoxidizer/src/pyrepackager/repackage.rs\<close>:
  \<open>PythonResources::sources_blob\<close>, \<open>bytecodes_blob\<close> and \<open>write_blobs\<close>
  (lines 160-200), \<open>derive_importlib\<close> (lines 720-752), \<open>derive_python_config\<close>
  and \<open>write_data_rs\<close> (lines 1025-1124), \<open>process_config\<close> (lines 1160-1302),
  \<open>find_pyoxidizer_config_file\<close> and \<open>run_from_build\<close> (lines 1381-1452).

  Files are written as the actions \<open>build_action\<close>; the collaborators outside
  the engine (the TOML parser \<open>parse_config\<close>, the distribution download and
  analysis, \<open>PYTHON_IMPORTER\<close>, the temporary directory of the linker) are the
  fields of a record \<open>collaborators\<close>; the build script's environment
  variables and the existence of files are functions.  \<open>Config\<close> and
  \<open>RunMode\<close> of \<open>config.rs\<close> (not in this repository) are modelled from the
  specification with the fields the orchestrator reads.
\<close>

datatype build_action =
    WriteBytes path bytes
  | LinkStep link_action

subsection \<open>Blobs\<close>

definition sources_blob :: "python_resources \<Rightarrow> blob_entries" where
  "sources_blob res = map (\<lambda>(n, s). \<lparr>name = n, data = s\<rparr>) (module_sources res)"

definition bytecodes_blob :: "python_resources \<Rightarrow> blob_entries" where
  "bytecodes_blob res = map (\<lambda>(n, b). \<lparr>name = n, data = b\<rparr>) (module_bytecodes res)"

text \<open>The module names file: every name of the \<open>BTreeSet\<close> \<open>all_modules\<close>, in
  ascending order, each followed by a newline.\<close>

definition module_names_data :: "python_resources \<Rightarrow> bytes" where
  "module_names_data res = concat (map (\<lambda>n. str_bytes n @ [0x0A]) (sorted_list_of_set (all_modules res)))"

definition write_blobs :: "python_resources \<Rightarrow> path \<Rightarrow> path \<Rightarrow> path \<Rightarrow> build_action list" where
  "write_blobs res module_names_path modules_path bytecodes_path =
     [WriteBytes module_names_path (module_names_data res),
      WriteBytes modules_path (write_blob_entries (sources_blob res)),
      WriteBytes bytecodes_path (write_blob_entries (bytecodes_blob res))]"

subsection \<open>Frozen importlib\<close>

record importlib_data =
  bootstrap_source :: bytes
  bootstrap_bytecode :: bytes
  bootstrap_external_source :: bytes
  bootstrap_external_bytecode :: bytes

definition importlib_marker :: bytes where
  "importlib_marker = str_bytes ''\<newline># END OF importlib/_bootstrap_external.py\<newline>\<newline>''"

definition bootstrap_name :: string where
  "bootstrap_name = ''<frozen importlib._bootstrap>''"

definition bootstrap_external_name :: string where
  "bootstrap_external_name = ''<frozen importlib._bootstrap_external>''"

definition compile_e :: "env \<Rightarrow> bytes \<Rightarrow> string \<Rightarrow> error + bytes" where
  "compile_e e src n = (case compile e src n 0 of Inl msg \<Rightarrow> Inl (CompileError n msg) | Inr b \<Rightarrow> Inr b)"

definition derive_importlib :: "env \<Rightarrow> bytes \<Rightarrow> python_distribution_info \<Rightarrow> error + importlib_data" where
  "derive_importlib e python_importer dist =
     (case om_get ''importlib._bootstrap'' (py_modules dist) of
        None \<Rightarrow> Inl (MissingKey ''importlib._bootstrap'')
      | Some bp \<Rightarrow>
     (case om_get ''importlib._bootstrap_external'' (py_modules dist) of
        None \<Rightarrow> Inl (MissingKey ''importlib._bootstrap_external'')
      | Some bep \<Rightarrow>
     (case fs e bp of
        None \<Rightarrow> Inl (ReadError bp)
      | Some bs \<Rightarrow>
     (case compile_e e bs bootstrap_name of
        Inl err \<Rightarrow> Inl err
      | Inr bb \<Rightarrow>
     (case fs e bep of
        None \<Rightarrow> Inl (ReadError bep)
      | Some bes \<Rightarrow>
     (let bes' = bes @ importlib_marker @ python_importer in
      case compile_e e bes' bootstrap_external_name of
        Inl err \<Rightarrow> Inl err
      | Inr beb \<Rightarrow>
          Inr \<lparr>bootstrap_source = bs, bootstrap_bytecode = bb,
               bootstrap_external_source = bes', bootstrap_external_bytecode = beb\<rparr>))))))"

subsection \<open>The runtime configuration\<close>

datatype run_mode = Repl | RunModule string | Eval string

record py_config =
  program_name :: string
  stdio_encoding_name :: "string option"
  stdio_encoding_errors :: "string option"
  optimize_level :: int
  filesystem_importer :: bool
  sys_paths :: "string list"
  no_site :: bool
  no_user_site_directory :: bool
  ignore_environment :: bool
  dont_write_bytecode :: bool
  unbuffered_stdio :: bool
  rust_allocator_raw :: bool
  write_modules_directory_env :: "string option"
  run :: run_mode
  python_distribution_path :: "string option"
  packaging_rules :: "python_packaging list"

text \<open>\<open>format!("{}", _)\<close> of a \<open>bool\<close> and of an integer.\<close>

definition bool_str :: "bool \<Rightarrow> string" where
  "bool_str b = (if b then ''true'' else ''false'')"

fun nat_str :: "nat \<Rightarrow> string" where
  "nat_str n = (if n < 10 then [char_of (48 + n)] else nat_str (n div 10) @ [char_of (48 + n mod 10)])"

definition int_str :: "int \<Rightarrow> string" where
  "int_str i = (if i < 0 then ''-'' @ nat_str (nat (- i)) else nat_str (nat i))"

definition opt_str_lit :: "string option \<Rightarrow> string" where
  "opt_str_lit v = (case v of Some s \<Rightarrow> ''Some(\"'' @ s @ ''\")'' | None \<Rightarrow> ''None'')"

definition run_mode_str :: "run_mode \<Rightarrow> string" where
  "run_mode_str r = (case r of
       Repl \<Rightarrow> ''PythonRunMode::Repl''
     | RunModule m \<Rightarrow> ''PythonRunMode::Module { module: \"'' @ m @ ''\".to_string() }''
     | Eval c \<Rightarrow> ''PythonRunMode::Eval { code: \"'' @ c @ ''\".to_string() }'')"

definition derive_python_config :: "py_config \<Rightarrow> path \<Rightarrow> path \<Rightarrow> path \<Rightarrow> path \<Rightarrow> string" where
  "derive_python_config cfg importlib_bootstrap_path importlib_bootstrap_external_path py_modules_path
     pyc_modules_path =
     ''PythonConfig {\<newline>    program_name: \"'' @ program_name cfg @ ''\".to_string(),\<newline>    ''
     @ ''standard_io_encoding: '' @ opt_str_lit (stdio_encoding_name cfg) @ '',\<newline>    ''
     @ ''standard_io_errors: '' @ opt_str_lit (stdio_encoding_errors cfg) @ '',\<newline>    ''
     @ ''opt_level: '' @ int_str (optimize_level cfg) @ '',\<newline>    ''
     @ ''use_custom_importlib: true,\<newline>    ''
     @ ''filesystem_importer: '' @ bool_str (filesystem_importer cfg) @ '',\<newline>    ''
     @ ''sys_paths: ['' @ join_with '', '' (map (\<lambda>p. ''\"'' @ p @ ''\".to_string()'') (sys_paths cfg))
     @ ''].to_vec(),\<newline>    ''
     @ ''import_site: '' @ bool_str (\<not> no_site cfg) @ '',\<newline>    ''
     @ ''import_user_site: '' @ bool_str (\<not> no_user_site_directory cfg) @ '',\<newline>    ''
     @ ''ignore_python_env: '' @ bool_str (ignore_environment cfg) @ '',\<newline>    ''
     @ ''dont_write_bytecode: '' @ bool_str (dont_write_bytecode cfg) @ '',\<newline>    ''
     @ ''unbuffered_stdio: '' @ bool_str (unbuffered_stdio cfg) @ '',\<newline>    ''
     @ ''frozen_importlib_data: include_bytes!(\"'' @ display_path importlib_bootstrap_path @ ''\"),\<newline>    ''
     @ ''frozen_importlib_external_data: include_bytes!(\"'' @ display_path importlib_bootstrap_external_path
     @ ''\"),\<newline>    ''
     @ ''py_modules_data: include_bytes!(\"'' @ display_path py_modules_path @ ''\"),\<newline>    ''
     @ ''pyc_modules_data: include_bytes!(\"'' @ display_path pyc_modules_path @ ''\"),\<newline>    ''
     @ ''argvb: false,\<newline>    ''
     @ ''rust_allocator_raw: '' @ bool_str (rust_allocator_raw cfg) @ '',\<newline>    ''
     @ ''write_modules_directory_env: ''
     @ (case write_modules_directory_env cfg of Some p \<Rightarrow> ''Some(\"'' @ p @ ''\".to_string())'' | None \<Rightarrow> ''None'')
     @ '',\<newline>    ''
     @ ''run: '' @ run_mode_str (run cfg) @ '',\<newline>''
     @ ''}''"

text \<open>\<open>write_data_rs\<close>: every piece of the configuration between newlines
  (\<open>str::split('\n')\<close>, which keeps empty pieces) is indented by four spaces.\<close>

definition indent_lines :: "string \<Rightarrow> string" where
  "indent_lines s = join_with [CHR 0x0A] (map (\<lambda>l. ''    '' @ l) (split_on CHR 0x0A s []))"

definition data_rs :: "string \<Rightarrow> string" where
  "data_rs python_config_rs =
     ''use super::config::{PythonConfig, PythonRunMode};\<newline>\<newline>''
     @ ''pub fn default_python_config() -> PythonConfig {\<newline>'' @ indent_lines python_config_rs @ ''\<newline>}\<newline>''"

definition write_data_rs :: "path \<Rightarrow> string \<Rightarrow> build_action" where
  "write_data_rs p python_config_rs = WriteBytes p (str_bytes (data_rs python_config_rs))"

subsection \<open>\<open>process_config\<close>\<close>

text \<open>What the orchestrator takes from collaborators outside the engine: the
  parse of the configuration file, the resolved distribution archive, its
  analysis (\<open>None\<close> is the \<open>unwrap\<close> panic), \<open>PYTHON_IMPORTER\<close>, and the
  temporary directory \<open>link_libpython\<close> creates.\<close>

record collaborators =
  parse_config :: "bytes \<Rightarrow> py_config"
  dist_archive :: "py_config \<Rightarrow> path \<Rightarrow> path"
  analyze_dist :: "bytes \<Rightarrow> python_distribution_info option"
  python_importer :: bytes
  link_temp_dir :: path

record embedded_python_config =
  epc_config :: py_config
  epc_python_distribution_path :: path
  epc_importlib_bootstrap_path :: path
  epc_importlib_bootstrap_external_path :: path
  epc_module_names_path :: path
  epc_py_modules_path :: path
  epc_pyc_modules_path :: path
  epc_libpython_path :: path
  epc_cargo_metadata :: "string list"
  epc_python_config_rs :: string

definition rerun_if_changed :: "string \<Rightarrow> string" where
  "rerun_if_changed p = ''cargo:rerun-if-changed='' @ p"

definition process_config ::
  "env \<Rightarrow> collaborators \<Rightarrow> path \<Rightarrow> path \<Rightarrow> error + build_action list \<times> embedded_python_config" where
  "process_config e c config_path out_dir =
     (case fs e config_path of
        None \<Rightarrow> Inl (ReadError config_path)
      | Some config_data \<Rightarrow>
     (let config = parse_config c config_data;
          m0 = (case python_distribution_path config of Some p \<Rightarrow> [rerun_if_changed p] | None \<Rightarrow> []);
          dist_path = dist_archive c config out_dir in
      case fs e dist_path of
        None \<Rightarrow> Inl (ReadError dist_path)
      | Some dist_data \<Rightarrow>
     (case analyze_dist c dist_data of
        None \<Rightarrow> Inl (DistributionError dist_path)
      | Some dist \<Rightarrow>
     (case derive_importlib e (python_importer c) dist of
        Inl err \<Rightarrow> Inl err
      | Inr il \<Rightarrow>
     (let ib = out_dir @ [''importlib_bootstrap''];
          ibe = out_dir @ [''importlib_bootstrap_external''];
          w1 = [WriteBytes ib (bootstrap_bytecode il), WriteBytes ibe (bootstrap_external_bytecode il)] in
      case resolve_python_resources e dist (packaging_rules config) of
        Inl err \<Rightarrow> Inl err
      | Inr res \<Rightarrow>
     (let np = out_dir @ [''py-module-names''];
          mp = out_dir @ [''py-modules''];
          bp = out_dir @ [''pyc-modules''];
          w2 = write_blobs res np mp bp in
      case link_libpython dist res out_dir (link_temp_dir c) (target e) of
        Inl err \<Rightarrow> Inl err
      | Inr (la, info) \<Rightarrow>
     (let md = m0 @ cargo_metadata info @ map (\<lambda>p. rerun_if_changed (display_path p)) (read_files res);
          rs = derive_python_config config ib ibe mp bp;
          dp = out_dir @ [''data.rs''] in
      Inr (w1 @ w2 @ map LinkStep la @ [write_data_rs dp rs],
           \<lparr>epc_config = config, epc_python_distribution_path = dist_path,
            epc_importlib_bootstrap_path = ib, epc_importlib_bootstrap_external_path = ibe,
            epc_module_names_path = np, epc_py_modules_path = mp, epc_pyc_modules_path = bp,
            epc_libpython_path = lp_path info, epc_cargo_metadata = md, epc_python_config_rs = rs\<rparr>))))))))"

subsection \<open>Build script entry point\<close>

text \<open>\<open>Path::ancestors\<close>: the path, then each parent up to the root, or up to the
  empty path when the path is relative.\<close>

definition ancestors :: "path \<Rightarrow> path list" where
  "ancestors p = map (\<lambda>n. take n p) (rev [(if p \<noteq> [] \<and> hd p = ''/'' then 1 else 0)..<Suc (length p)])"

definition config_basename :: "string \<Rightarrow> string" where
  "config_basename triple = ''pyoxidizer.'' @ triple @ ''.toml''"

text \<open>\<open>Path::parent\<close>: none for the root and for the empty path, otherwise the
  path without its last component.\<close>

definition path_parent :: "path \<Rightarrow> path option" where
  "path_parent p = (if p = [] \<or> p = [''/''] then None else Some (butlast p))"

text \<open>The \<open>for test_dir in start_dir.ancestors()\<close> loop, \<open>ancestors\<close> being
  the iterator that repeats \<open>Path::parent\<close> until it returns none: \<open>Some r\<close>
  is the loop's result (the first candidate that exists, or none), \<open>None\<close> a
  loop that never ends.\<close>

partial_function (option) search_ancestors ::
  "(path \<Rightarrow> bool) \<Rightarrow> string \<Rightarrow> path option \<Rightarrow> path option option" where
  "search_ancestors exists basename test_dir =
     (case test_dir of
        None \<Rightarrow> Some None
      | Some d \<Rightarrow>
          (let candidate = d @ [basename] in
           if exists candidate then Some (Some candidate)
           else search_ancestors exists basename (path_parent d)))"

definition find_pyoxidizer_config_file :: "(path \<Rightarrow> bool) \<Rightarrow> path \<Rightarrow> string \<Rightarrow> path option" where
  "find_pyoxidizer_config_file exists start_dir triple =
     (case search_ancestors exists (config_basename triple) (Some start_dir) of
        Some r \<Rightarrow> r
      | None \<Rightarrow> None)"

definition env_config_directive :: string where
  "env_config_directive = ''cargo:rerun-if-env-changed=PYOXIDIZER_CONFIG''"

text \<open>The configuration file: \<open>PYOXIDIZER_CONFIG\<close> when set, else the search
  from \<open>CARGO_MANIFEST_DIR\<close>.\<close>

definition locate_config :: "(string \<Rightarrow> string option) \<Rightarrow> (path \<Rightarrow> bool) \<Rightarrow> string \<Rightarrow> error + path" where
  "locate_config env_var exists triple =
     (case env_var ''PYOXIDIZER_CONFIG'' of
        Some config_env \<Rightarrow> Inr (path_of_str config_env)
      | None \<Rightarrow>
          (case env_var ''CARGO_MANIFEST_DIR'' of
             None \<Rightarrow> Inl (MissingEnv ''CARGO_MANIFEST_DIR'')
           | Some manifest_dir \<Rightarrow>
               (case find_pyoxidizer_config_file exists (path_of_str manifest_dir) triple of
                  None \<Rightarrow> Inl ConfigNotFound
                | Some p \<Rightarrow> Inr p)))"

text \<open>\<open>run_from_build\<close>: the directives it prints (before a panic too) and the
  build actions or the panic.\<close>

definition run_from_build ::
  "env \<Rightarrow> collaborators \<Rightarrow> (string \<Rightarrow> string option) \<Rightarrow> (path \<Rightarrow> bool) \<Rightarrow> string
     \<Rightarrow> string list \<times> (error + build_action list)" where
  "run_from_build e c env_var exists build_script =
     (let d0 = [rerun_if_changed build_script, env_config_directive] in
      case env_var ''HOST'' of None \<Rightarrow> (d0, Inl (MissingEnv ''HOST'')) | Some host \<Rightarrow>
      case env_var ''TARGET'' of None \<Rightarrow> (d0, Inl (MissingEnv ''TARGET'')) | Some triple \<Rightarrow>
      case env_var ''OPT_LEVEL'' of None \<Rightarrow> (d0, Inl (MissingEnv ''OPT_LEVEL'')) | Some opt_level \<Rightarrow>
      case locate_config env_var exists triple of Inl err \<Rightarrow> (d0, Inl err) | Inr config_path \<Rightarrow>
      if \<not> exists config_path then (d0, Inl (ConfigMissing config_path))
      else if \<not> valid_utf8 (str_bytes (display_path config_path)) then (d0, Inl (NotUtf8 config_path))
      else
        (let d1 = d0 @ [rerun_if_changed (display_path config_path)] in
         case env_var ''OUT_DIR'' of None \<Rightarrow> (d1, Inl (MissingEnv ''OUT_DIR'')) | Some out_dir \<Rightarrow>
         case process_config e c config_path (path_of_str out_dir) of
           Inl err \<Rightarrow> (d1, Inl err)
         | Inr (acts, epc) \<Rightarrow> (d1 @ epc_cargo_metadata epc, Inr acts)))"

text \<open>The body of a Rust string literal after its opening quote, as \<open>rustc\<close>
  reads it: the decoded contents up to the closing quote and the text after
  it.  The escapes \<open>\n \t \r \0 \\ \" \'\<close> are decoded; any other escape (the
  \<open>\x\<close> and \<open>\u\<close> forms included) is refused.\<close>

definition rust_escape :: "char \<Rightarrow> char option" where
  "rust_escape d =
     (if d = CHR ''n'' then Some (CHR 0x0A) else if d = CHR ''t'' then Some (CHR 0x09)
      else if d = CHR ''r'' then Some (CHR 0x0D) else if d = CHR ''0'' then Some (CHR 0x00)
      else if d = CHR 0x5C \<or> d = CHR 0x22 \<or> d = CHR 0x27 then Some d else None)"

fun rust_lit :: "string \<Rightarrow> (string \<times> string) option" where
  "rust_lit [] = None"
| "rust_lit (c # r) =
     (if c = CHR 0x22 then Some ([], r)
      else if c = CHR 0x5C then
        (case r of
           [] \<Rightarrow> None
         | d # r' \<Rightarrow>
             (case rust_escape d of
                None \<Rightarrow> None
              | Some x \<Rightarrow> map_option (\<lambda>(s, rest). (x # s, rest)) (rust_lit r')))
      else map_option (\<lambda>(s, rest). (c # s, rest)) (rust_lit r))"

definition python_config_prefix :: string where
  "python_config_prefix = ''PythonConfig {\<newline>    program_name: \"''"

subsection \<open>Lemmas\<close>

lemma sources_blob_names: "map name (sources_blob res) = om_keys (module_sources res)"
  by (simp add: sources_blob_def om_keys_def split_def)

lemma bytecodes_blob_names: "map name (bytecodes_blob res) = om_keys (module_bytecodes res)"
  by (simp add: bytecodes_blob_def om_keys_def split_def)

lemma blob_entry_in_map:
  "om_wf m \<Longrightarrow> e \<in> set (map (\<lambda>(n, s). \<lparr>name = n, data = s\<rparr>) m) \<Longrightarrow> om_get (name e) m = Some (data e)"
  by (auto simp: om_get_wf_iff)

lemma bytes_str_append: "bytes_str (a @ b) = bytes_str a @ bytes_str b"
  by (simp add: bytes_str_def)

lemma module_names_text:
  "bytes_str (module_names_data res) = concat (map (\<lambda>n. n @ [CHR 0x0A]) (sorted_list_of_set (all_modules res)))"
proof -
  have "bytes_str (concat (map (\<lambda>n. str_bytes n @ [0x0A]) ns)) = concat (map (\<lambda>n. n @ [CHR 0x0A]) ns)" for ns
    by (induction ns) (simp_all add: bytes_str_append bytes_str_newline, simp add: bytes_str_def)
  then show ?thesis by (simp add: module_names_data_def)
qed

lemma module_names_bytes:
  "module_names_data res = str_bytes (concat (map (\<lambda>n. n @ [CHR 0x0A]) (sorted_list_of_set (all_modules res))))"
proof -
  have "concat (map (\<lambda>n. str_bytes n @ [0x0A]) ns) = str_bytes (concat (map (\<lambda>n. n @ [CHR 0x0A]) ns))" for ns
    by (induction ns) (simp_all add: str_bytes_def)
  then show ?thesis by (simp add: module_names_data_def)
qed

lemma rust_lit_plain:
  "CHR 0x22 \<notin> set a \<Longrightarrow> CHR 0x5C \<notin> set a \<Longrightarrow> rust_lit (a @ CHR 0x22 # r) = Some (a, r)"
  by (induction a) auto

lemma derive_python_config_prefix:
  "derive_python_config cfg p1 p2 p3 p4 = python_config_prefix @ program_name cfg @ CHR 0x22 #
     drop (length python_config_prefix + length (program_name cfg) + 1) (derive_python_config cfg p1 p2 p3 p4)"
  by (simp add: derive_python_config_def python_config_prefix_def)

lemma ancestors_parent_None: "path_parent p = None \<Longrightarrow> ancestors p = [p]"
  by (auto simp: path_parent_def ancestors_def split: if_splits)

lemma ancestors_parent_Some:
  assumes "path_parent p = Some q"
  shows "ancestors p = p # ancestors q"
proof -
  have p: "p \<noteq> []" "p \<noteq> [''/'']" and q: "q = butlast p"
    using assms by (auto simp: path_parent_def split: if_splits)
  define a where "a = (if p \<noteq> [] \<and> hd p = ''/'' then 1 else 0 :: nat)"
  have a: "(if q \<noteq> [] \<and> hd q = ''/'' then 1 else 0) = a"
  proof (cases p)
    case (Cons c cs)
    with p show ?thesis by (cases cs) (auto simp: a_def q)
  qed (use p in simp)
  have al: "a \<le> length p" using p by (cases p) (auto simp: a_def)
  have lq: "Suc (length q) = length p" using p q by simp
  have "map (\<lambda>n. take n q) (rev [a..<length p]) = map (\<lambda>n. take n p) (rev [a..<length p])"
    by (rule map_cong) (auto simp: q take_butlast)
  then show ?thesis
    using al by (simp add: ancestors_def a lq [symmetric] a_def [symmetric] upt_Suc_append)
qed

lemma search_ancestors_find:
  "search_ancestors exists b (Some p) = Some (find exists (map (\<lambda>d. d @ [b]) (ancestors p)))"
proof (induction "length p" arbitrary: p rule: less_induct)
  case less
  show ?case
  proof (cases "path_parent p")
    case None
    then show ?thesis
      by (subst search_ancestors.simps) (simp add: ancestors_parent_None search_ancestors.simps)
  next
    case (Some q)
    then have "length q < length p" by (auto simp: path_parent_def split: if_splits)
    with less Some show ?thesis
      by (subst search_ancestors.simps) (simp add: ancestors_parent_Some)
  qed
qed

lemma find_pyoxidizer_config_file_find:
  "find_pyoxidizer_config_file exists start_dir triple =
     find exists (map (\<lambda>d. d @ [config_basename triple]) (ancestors start_dir))"
  by (simp add: find_pyoxidizer_config_file_def search_ancestors_find)

lemma process_config_paths:
  assumes "process_config e c config_path out_dir = Inr (acts, epc)"
  shows "epc_importlib_bootstrap_path epc = out_dir @ [''importlib_bootstrap'']
    \<and> epc_importlib_bootstrap_external_path epc = out_dir @ [''importlib_bootstrap_external'']
    \<and> epc_module_names_path epc = out_dir @ [''py-module-names'']
    \<and> epc_py_modules_path epc = out_dir @ [''py-modules''] \<and> epc_pyc_modules_path epc = out_dir @ [''pyc-modules'']"
  using assms by (auto simp: process_config_def Let_def split: option.splits sum.splits prod.splits)

lemma process_config_Inr:
  assumes "process_config e c config_path out_dir = Inr (acts, epc)"
  obtains dist il res la info where
    "derive_importlib e (python_importer c) dist = Inr il"
    "resolve_python_resources e (dist) (packaging_rules (epc_config epc)) = Inr res"
    "link_libpython dist res out_dir (link_temp_dir c) (target e) = Inr (la, info)"
    "epc_cargo_metadata epc =
       (case python_distribution_path (epc_config epc) of Some p \<Rightarrow> [rerun_if_changed p] | None \<Rightarrow> [])
       @ cargo_metadata info @ map (\<lambda>p. rerun_if_changed (display_path p)) (read_files res)"
    "acts = [WriteBytes (out_dir @ [''importlib_bootstrap'']) (bootstrap_bytecode il),
             WriteBytes (out_dir @ [''importlib_bootstrap_external'']) (bootstrap_external_bytecode il)]
       @ write_blobs res (out_dir @ [''py-module-names'']) (out_dir @ [''py-modules'']) (out_dir @ [''pyc-modules''])
       @ map LinkStep la @ [write_data_rs (out_dir @ [''data.rs'']) (epc_python_config_rs epc)]"
  using assms
  by (auto simp: process_config_def Let_def split: option.splits sum.splits prod.splits intro!: that)

subsection \<open>Properties of the orchestrator\<close>

text \<open>C27 (roundtrip). Of the three files \<open>write_blobs\<close> writes, in this order
  (module names, sources, bytecodes), the blob at the sources path decodes to
  the resolved module sources and the blob at the bytecodes path to the
  resolved bytecodes: entry for entry, each name with its bytes, in ascending
  name order, when every length fits in a \<open>u32\<close>.\<close>

theorem written_blobs_decode:
  assumes "resolve_python_resources e dist rules = Inr res"
    and "blob_fits (sources_blob res)" and "blob_fits (bytecodes_blob res)"
  shows "\<exists>nd ms bc ses bes. write_blobs res np mp bp = [WriteBytes np nd, WriteBytes mp ms, WriteBytes bp bc]
    \<and> read_blob_entries ms = Some ses \<and> map (\<lambda>e. (name e, data e)) ses = module_sources res
    \<and> map name ses = sorted_list_of_set (set (om_keys (module_sources res)))
    \<and> read_blob_entries bc = Some bes \<and> map (\<lambda>e. (name e, data e)) bes = module_bytecodes res
    \<and> map name bes = sorted_list_of_set (set (om_keys (module_bytecodes res)))"
proof -
  have wf: "om_wf (module_sources res)" "om_wf (module_bytecodes res)"
    using resolve_python_resources_wf [OF assms(1)] by simp_all
  have "map (\<lambda>e. (name e, data e)) (sources_blob res) = module_sources res"
    and "map (\<lambda>e. (name e, data e)) (bytecodes_blob res) = module_bytecodes res"
    by (simp_all add: sources_blob_def bytecodes_blob_def comp_def split_def)
  then show ?thesis
    using read_write_blob_entries [OF assms(2)] read_write_blob_entries [OF assms(3)]
      om_keys_sorted_list [OF wf(1)] om_keys_sorted_list [OF wf(2)]
    by (simp add: write_blobs_def sources_blob_names bytecodes_blob_names)
qed

text \<open>C28 (functional). The module names file lists, one per line, exactly the
  names of the source and bytecode maps, sorted ascending, each once, when no
  name holds a line break.\<close>

theorem module_names_file:
  assumes "resolve_python_resources e dist rules = Inr res"
    and "\<forall>n \<in> all_modules res. plain_line n"
  shows "split_lines (bytes_str (module_names_data res)) [] =
    sorted_list_of_set (set (om_keys (module_sources res)) \<union> set (om_keys (module_bytecodes res)))"
proof -
  have am: "all_modules res = set (om_keys (module_sources res)) \<union> set (om_keys (module_bytecodes res))"
    using resolve_python_resources_wf [OF assms(1)] by simp
  then have "\<forall>l \<in> set (sorted_list_of_set (all_modules res)). plain_line l"
    using assms(2) by simp
  then show ?thesis
    unfolding module_names_text by (simp add: split_lines_terminated am)
qed

text \<open>C7 (roundtrip). The module names file one build writes is a valid
  \<open>filter-file-include\<close> for another: \<open>read_resource_names_file\<close> reads it
  back as exactly the module set of the first build, less the names a names
  file cannot carry (empty, or starting with \<open>#\<close>), when every name is a
  UTF-8 line without line breaks.\<close>

theorem names_file_reread:
  assumes "resolve_python_resources e dist rules = Inr res"
    and "\<forall>n \<in> all_modules res. plain_line n \<and> valid_utf8 (str_bytes n)"
    and "fs e' p = Some (module_names_data res)"
  shows "read_resource_names_file e' p = Inr {n \<in> all_modules res. n \<noteq> [] \<and> \<not> starts_with n ''#''}"
proof -
  have "all_modules res = set (om_keys (module_sources res)) \<union> set (om_keys (module_bytecodes res))"
    using resolve_python_resources_wf [OF assms(1)] by simp
  then have fin: "finite (all_modules res)" by simp
  let ?ns = "sorted_list_of_set (all_modules res)"
  have "valid_utf8 (module_names_data res)"
    unfolding module_names_bytes by (rule valid_utf8_lines) (use assms(2) fin in simp)
  moreover have "split_lines (bytes_str (module_names_data res)) [] = ?ns"
    unfolding module_names_text by (rule split_lines_terminated) (use assms(2) fin in simp)
  ultimately show ?thesis
    using assms(3) fin by (auto simp: read_resource_names_file_def read_resource_names_def)
qed

text \<open>C29 (functional). \<open>derive_importlib\<close> compiles the distribution's
  \<open>importlib._bootstrap\<close> source unchanged, and its
  \<open>importlib._bootstrap_external\<close> source followed by the end marker and the
  in-memory importer, both at optimisation level 0 and under the names
  \<open><frozen importlib._bootstrap>\<close> and \<open><frozen importlib._bootstrap_external>\<close>.\<close>

theorem derive_importlib_result:
  assumes "derive_importlib e importer dist = Inr d"
  shows "\<exists>bp bep src.
    om_get ''importlib._bootstrap'' (py_modules dist) = Some bp
    \<and> om_get ''importlib._bootstrap_external'' (py_modules dist) = Some bep
    \<and> fs e bp = Some (bootstrap_source d)
    \<and> compile e (bootstrap_source d) ''<frozen importlib._bootstrap>'' 0 = Inr (bootstrap_bytecode d)
    \<and> fs e bep = Some src
    \<and> bootstrap_external_source d = src @ importlib_marker @ importer
    \<and> compile e (bootstrap_external_source d) ''<frozen importlib._bootstrap_external>'' 0
        = Inr (bootstrap_external_bytecode d)"
  using assms
  by (auto simp: derive_importlib_def compile_e_def bootstrap_name_def bootstrap_external_name_def Let_def
      split: option.splits sum.splits)

text \<open>In the generated \<open>PythonConfig\<close> source, the string
  literal opened for \<open>program_name\<close> reads back as the program name, when the
  name holds no double quote and no backslash.\<close>

theorem python_config_program_name:
  assumes "CHR 0x22 \<notin> set (program_name cfg)" and "CHR 0x5C \<notin> set (program_name cfg)"
  shows "take (length python_config_prefix) (derive_python_config cfg p1 p2 p3 p4) = python_config_prefix
    \<and> (\<exists>r. rust_lit (drop (length python_config_prefix) (derive_python_config cfg p1 p2 p3 p4))
             = Some (program_name cfg, r))"
  using rust_lit_plain [OF assms] derive_python_config_prefix [of cfg p1 p2 p3 p4]
  by (metis append_eq_conv_conj)

text \<open>C30 (error). \<open>derive_python_config\<close> escapes nothing: a program name
  with a double quote ends the literal at that quote, and the rest of the name
  is read as Rust source.\<close>

theorem python_config_quote_truncates:
  assumes "program_name cfg = a @ CHR 0x22 # b"
    and "CHR 0x22 \<notin> set a" and "CHR 0x5C \<notin> set a"
  shows "\<exists>r. rust_lit (drop (length python_config_prefix) (derive_python_config cfg p1 p2 p3 p4)) = Some (a, r)
    \<and> take (length b) r = b"
proof -
  have "drop (length python_config_prefix) (derive_python_config cfg p1 p2 p3 p4) =
      a @ CHR 0x22 # (b @ CHR 0x22 #
        drop (length python_config_prefix + length (program_name cfg) + 1) (derive_python_config cfg p1 p2 p3 p4))"
    using derive_python_config_prefix [of cfg p1 p2 p3 p4] assms(1)
    by (metis append.assoc append_Cons append_eq_conv_conj)
  then show ?thesis using rust_lit_plain [OF assms(2,3)] by simp
qed

text \<open>C31 (functional). A successful \<open>run_from_build\<close> prints first the
  \<open>rerun-if-changed\<close> line of the build script, then the
  \<open>rerun-if-env-changed=PYOXIDIZER_CONFIG\<close> line, then the line of the
  configuration file it found, and ends with one \<open>rerun-if-changed\<close> line
  per file the filter rules read, in order.\<close>

theorem run_from_build_directives:
  assumes "run_from_build e c env_var exists build_script = (ds, Inr acts)"
  shows "\<exists>config_path out_dir epc.
    process_config e c config_path out_dir = Inr (acts, epc) \<and> exists config_path
    \<and> ds = [rerun_if_changed build_script, env_config_directive, rerun_if_changed (display_path config_path)]
         @ epc_cargo_metadata epc"
  using assms
  by (auto simp: run_from_build_def Let_def split: option.splits sum.splits if_splits prod.splits)


text \<open>C38 (termination). The ancestor loop of \<open>find_pyoxidizer_config_file\<close>
  returns on every start directory, never running forever: \<open>Path::parent\<close>
  shortens the path until the root or the empty path; and it returns the first
  candidate along \<open>Path::ancestors\<close> that exists, or none.\<close>

theorem search_ancestors_terminates:
  "search_ancestors exists basename (Some start_dir) =
     Some (find exists (map (\<lambda>d. d @ [basename]) (ancestors start_dir)))"
  by (rule search_ancestors_find)

end
