(* ===== verification/Orchestrator_Scenarios.thy ===== *)
theory Orchestrator_Scenarios
  imports Orchestrator Scenarios
begin

text \<open>
  A build script run end to end: \<open>CARGO_MANIFEST_DIR\<close> is \<open>/work/app\<close> and
  the configuration file is found one directory up, in \<open>/work\<close>; the
  configuration applies the \<open>minimal\<close> extension policy to the linked S1
  distribution of \<open>Scenarios\<close>, extended with the two \<open>importlib\<close> bootstrap
  modules.  The theorems evaluate the orchestrator on these inputs and apply its
  general properties to them.
\<close>

definition o_triple :: string where
  "o_triple = ''x86_64-unknown-linux-gnu''"

definition o_config_path :: path where
  "o_config_path = [''/'', ''work'', ''pyoxidizer.x86_64-unknown-linux-gnu.toml'']"

definition o_out_dir :: path where
  "o_out_dir = [''/'', ''work'', ''out'']"

definition o_dist :: python_distribution_info where
  "o_dist = link_dist\<lparr>py_modules :=
     [(''importlib._bootstrap'', [''lib'', ''importlib'', ''_bootstrap.py'']),
      (''importlib._bootstrap_external'', [''lib'', ''importlib'', ''_bootstrap_external.py''])]\<rparr>"

definition o_config :: py_config where
  "o_config = \<lparr>program_name = ''myapp'', stdio_encoding_name = None, stdio_encoding_errors = None,
     optimize_level = 0, filesystem_importer = False, sys_paths = [], no_site = True,
     no_user_site_directory = True, ignore_environment = True, dont_write_bytecode = True,
     unbuffered_stdio = False, rust_allocator_raw = False, write_modules_directory_env = None,
     run = Repl, python_distribution_path = None,
     packaging_rules = [StdlibExtensionsPolicy ''minimal'']\<rparr>"

definition o_env :: env where
  "o_env = test_env\<lparr>fs := [o_config_path \<mapsto> [], [''dist.tar.zst''] \<mapsto> [],
     [''lib'', ''importlib'', ''_bootstrap.py''] \<mapsto> [0x62],
     [''lib'', ''importlib'', ''_bootstrap_external.py''] \<mapsto> [0x65]]\<rparr>"

definition o_collab :: collaborators where
  "o_collab = \<lparr>parse_config = (\<lambda>_. o_config), dist_archive = (\<lambda>_ _. [''dist.tar.zst'']),
     analyze_dist = (\<lambda>_. Some o_dist), python_importer = [0x69], link_temp_dir = [''tmp'']\<rparr>"

definition o_env_var :: "string \<Rightarrow> string option" where
  "o_env_var = [''HOST'' \<mapsto> o_triple, ''TARGET'' \<mapsto> o_triple, ''OPT_LEVEL'' \<mapsto> ''0'',
     ''CARGO_MANIFEST_DIR'' \<mapsto> ''/work/app'', ''OUT_DIR'' \<mapsto> ''/work/out'']"

definition o_exists :: "path \<Rightarrow> bool" where
  "o_exists p \<longleftrightarrow> p = o_config_path"

definition quoted_config :: py_config where
  "quoted_config = o_config\<lparr>program_name := ''my'' @ [CHR 0x22] @ ''app''\<rparr>"

subsection \<open>Evaluation\<close>

lemma o_locate: "locate_config o_env_var o_exists o_triple = Inr o_config_path"
  by (simp add: locate_config_def o_env_var_def find_pyoxidizer_config_file_find ancestors_def path_of_str_def
      config_basename_def o_exists_def o_config_path_def o_triple_def upt_rec)

lemma o_importlib:
  "derive_importlib o_env [0x69] o_dist =
     Inr \<lparr>bootstrap_source = [0x62], bootstrap_bytecode = [0x63, 0x62],
          bootstrap_external_source = [0x65] @ importlib_marker @ [0x69],
          bootstrap_external_bytecode = 0x63 # [0x65] @ importlib_marker @ [0x69]\<rparr>"
  by (simp add: derive_importlib_def o_dist_def o_env_def test_env_def compile_e_def o_config_path_def Let_def)

lemma o_resolves: "resolve_python_resources o_env o_dist [StdlibExtensionsPolicy ''minimal''] = Inr s1_result"
proof -
  have "resolve_extensions_policy ''minimal'' o_dist = resolve_extensions_policy ''minimal'' s1_dist"
    by (simp add: resolve_extensions_policy_def o_dist_def link_dist_def)
  then have "process_rules o_env o_dist [StdlibExtensionsPolicy ''minimal''] =
      Inr (empty_staging\<lparr>st_extension_modules := [(''_io'', em_io), (''zlib'', em_zlib)]\<rparr>)"
    by (simp add: process_rules_def process_rule_def s1_policy apply_entry_def add_entry_def empty_staging_def)
  moreover have "add_required o_dist [(''_io'', em_io), (''zlib'', em_zlib)] = Inr [(''_io'', em_io), (''zlib'', em_zlib)]"
    by (simp add: add_required_def add_required_one_def o_dist_def link_dist_def s1_dist_def om_contains_def
        em_io_def em_zlib_def em_readline_def)
  moreover have "target o_env = Linux" by (simp add: o_env_def test_env_def)
  ultimately show ?thesis
    by (simp add: resolve_python_resources_def compile_bytecodes_def empty_staging_def remove_ignored_def
        OS_IGNORE_EXTENSIONS_def s1_result_def om_keys_def)
qed

lemma o_link: "\<exists>p. link_libpython o_dist s1_result o_out_dir [''tmp''] Linux = Inr p"
proof -
  have ls: "link_sets o_dist = link_sets link_dist" and lb: "library_step o_dist = library_step link_dist"
    by (simp_all add: link_sets_def library_step_def o_dist_def fun_eq_iff)
  have "link_libpython o_dist s1_result o_out_dir [''tmp''] Linux =
      link_libpython link_dist s1_result o_out_dir [''tmp''] Linux"
    unfolding link_libpython_def ls lb by (simp add: o_dist_def)
  moreover have "\<exists>p. link_libpython link_dist s1_result o_out_dir [''tmp''] Linux = Inr p"
    using link_dist_ok unfolding link_libpython_ok libraries_ok .
  ultimately show ?thesis by simp
qed

lemma o_process: "\<exists>acts epc. process_config o_env o_collab o_config_path o_out_dir = Inr (acts, epc)"
proof -
  obtain la info where "link_libpython o_dist s1_result o_out_dir [''tmp''] Linux = Inr (la, info)"
    using o_link by auto
  moreover have "target o_env = Linux" "fs o_env o_config_path = Some []" "fs o_env [''dist.tar.zst''] = Some []"
    by (simp_all add: o_env_def test_env_def o_config_path_def)
  ultimately show ?thesis
    by (simp add: process_config_def o_collab_def o_importlib o_config_def o_resolves Let_def)
qed

lemma o_env_var_vals:
  "o_env_var ''HOST'' = Some o_triple \<and> o_env_var ''TARGET'' = Some o_triple \<and> o_env_var ''OPT_LEVEL'' = Some ''0''
   \<and> o_env_var ''PYOXIDIZER_CONFIG'' = None \<and> o_env_var ''OUT_DIR'' = Some ''/work/out''"
  by (simp add: o_env_var_def)

lemma o_run: "\<exists>ds acts. run_from_build o_env o_collab o_env_var o_exists ''build.rs'' = (ds, Inr acts)"
proof -
  obtain acts epc where p: "process_config o_env o_collab o_config_path (path_of_str ''/work/out'') = Inr (acts, epc)"
    using o_process by (auto simp: o_out_dir_def path_of_str_def)
  have "valid_utf8 (str_bytes (display_path o_config_path))"
    by (simp add: o_config_path_def display_path_def valid_utf8_str_bytes_Cons)
  with p show ?thesis
    by (simp add: run_from_build_def o_env_var_vals o_locate o_exists_def)
qed

subsection \<open>Witnesses of the orchestrator's properties\<close>

theorem written_blobs_decode_witness:
  "\<exists>nd ms bc ses bes.
     write_blobs s3_result [''N''] [''M''] [''B''] = [WriteBytes [''N''] nd, WriteBytes [''M''] ms, WriteBytes [''B''] bc]
     \<and> read_blob_entries ms = Some ses \<and> map (\<lambda>e. (name e, data e)) ses = [(''json'', [0x6A])]
     \<and> map name ses = [''json'']
     \<and> read_blob_entries bc = Some bes \<and> map (\<lambda>e. (name e, data e)) bes = [(''json'', [0x63, 0x6A])]
     \<and> map name bes = [''json'']"
proof -
  have "blob_fits (sources_blob s3_result)" "blob_fits (bytecodes_blob s3_result)"
    by (simp_all add: blob_fits_def sources_blob_def bytecodes_blob_def s3_result_def)
  from written_blobs_decode [OF s3_resolves this, of "[''N'']" "[''M'']" "[''B'']"] show ?thesis
    by (simp add: s3_result_def om_keys_def)
qed

theorem module_names_file_witness:
  "split_lines (bytes_str (module_names_data s3_result)) [] = [''json'']"
proof -
  have "\<forall>n \<in> all_modules s3_result. plain_line n"
    by (simp add: s3_result_def plain_line_def)
  from module_names_file [OF s3_resolves this] show ?thesis
    by (simp add: s3_result_def om_keys_def)
qed

theorem names_file_reread_witness:
  "read_resource_names_file (test_env\<lparr>fs := [[''N''] \<mapsto> module_names_data s3_result]\<rparr>) [''N''] = Inr {''json''}"
proof -
  have "\<forall>n \<in> all_modules s3_result. plain_line n \<and> valid_utf8 (str_bytes n)"
    by (simp add: s3_result_def plain_line_def valid_utf8_str_bytes_Cons)
  from names_file_reread [OF s3_resolves this, of "test_env\<lparr>fs := [[''N''] \<mapsto> module_names_data s3_result]\<rparr>" "[''N'']"]
  show ?thesis by (simp add: s3_result_def) auto
qed

theorem derive_importlib_result_witness:
  "om_get ''importlib._bootstrap'' (py_modules o_dist) = Some [''lib'', ''importlib'', ''_bootstrap.py'']
   \<and> compile o_env [0x62] ''<frozen importlib._bootstrap>'' 0 = Inr [0x63, 0x62]
   \<and> compile o_env ([0x65] @ importlib_marker @ [0x69]) ''<frozen importlib._bootstrap_external>'' 0
       = Inr (0x63 # [0x65] @ importlib_marker @ [0x69])"
  using derive_importlib_result [OF o_importlib] by (auto simp: o_dist_def)

theorem python_config_program_name_witness:
  "\<exists>r. rust_lit (drop (length python_config_prefix) (derive_python_config o_config o_out_dir o_out_dir o_out_dir o_out_dir))
     = Some (''myapp'', r)"
  using python_config_program_name [of o_config o_out_dir o_out_dir o_out_dir o_out_dir]
  by (simp add: o_config_def)

theorem python_config_quote_truncates_witness:
  "\<exists>r. rust_lit (drop (length python_config_prefix)
          (derive_python_config quoted_config o_out_dir o_out_dir o_out_dir o_out_dir)) = Some (''my'', r)
     \<and> take 3 r = ''app''"
  using python_config_quote_truncates [of quoted_config "''my''" "''app''" o_out_dir o_out_dir o_out_dir o_out_dir]
  by (simp add: quoted_config_def numeral_3_eq_3)

theorem run_from_build_directives_witness:
  "\<exists>ds acts. run_from_build o_env o_collab o_env_var o_exists ''build.rs'' = (ds, Inr acts)
     \<and> take 3 ds = [rerun_if_changed ''build.rs'', env_config_directive,
                     rerun_if_changed ''/work/pyoxidizer.x86_64-unknown-linux-gnu.toml'']"
proof -
  obtain ds acts where r: "run_from_build o_env o_collab o_env_var o_exists ''build.rs'' = (ds, Inr acts)"
    using o_run by blast
  from run_from_build_directives [OF r] have "take 3 ds = [rerun_if_changed ''build.rs'', env_config_directive,
      rerun_if_changed ''/work/pyoxidizer.x86_64-unknown-linux-gnu.toml'']"
    by (auto simp: o_exists_def o_config_path_def display_path_def)
  with r show ?thesis by blast
qed

end
