(* ===== verification/Project_FS.thy ===== *)
theory Project_FS
  imports Ordered_Map
begin

text \<open>
  The file system a new PyOxidizer project is written to, and the effects of
  \<open>project_layout.rs\<close> on it.  A file system holds the contents of the files,
  keyed by path in path order (the order \<open>walk_tree_files\<close> reports them in),
  and the list of directories.  An operation of the source that returns
  \<open>Result<T>\<close> is an \<open>'a pl_io\<close>: a function from the file system to its
  result and the file system after it, so that the files written before an
  error stay written, as they do on disk.  \<open>io_bind\<close> is Rust's \<open>?\<close>,
  \<open>io_context\<close> is \<open>anyhow::Context::context\<close>.  The \<open>std::fs\<close> primitives
  fail as the operating system does: \<open>write\<close> and \<open>create_dir\<close> need the
  parent directory, \<open>create_dir\<close> refuses an existing path, \<open>read\<close> a missing
  file.  The theory also holds \<open>str::find\<close> for a string pattern, the search
  loop that locates the \<open>version\<close> line of \<open>Cargo.toml\<close>.
\<close>

subsection \<open>Errors\<close>

text \<open>The errors of \<open>project_layout.rs\<close>: the \<open>anyhow!\<close> messages, the
  errors \<open>?\<close> passes on, and the panics of \<open>expect\<close>, \<open>unwrap\<close> and
  \<open>panic!\<close>; \<open>Context\<close> wraps an error with the message of \<open>.context\<close>.\<close>

datatype pl_error =
    Io path
  | NotUtf8Content path
  | PathNotStr path
  | StripPrefix path
  | Render string
  | ExistingFiles
  | NoCargoToml
  | ManifestParse
  | NoPackage
  | NoVersionLine
  | NoNewlineAfterVersion
  | LockParse
  | BadName string
  | DependencyMissing string
  | CargoInitFailed
  | NoLastComponent
  | Context string pl_error

subsection \<open>The file system and its monad\<close>

record project_fs =
  pf_files :: "(path, bytes) btree_map"
  pf_dirs :: "path list"

type_synonym 'a pl_io = "project_fs \<Rightarrow> (pl_error + 'a) \<times> project_fs"

definition io_ret :: "'a \<Rightarrow> 'a pl_io" where
  "io_ret a fs = (Inr a, fs)"

definition io_fail :: "pl_error \<Rightarrow> 'a pl_io" where
  "io_fail e fs = (Inl e, fs)"

definition io_bind :: "'a pl_io \<Rightarrow> ('a \<Rightarrow> 'b pl_io) \<Rightarrow> 'b pl_io" where
  "io_bind m f fs = (case m fs of (Inl e, fs') \<Rightarrow> (Inl e, fs') | (Inr a, fs') \<Rightarrow> f a fs')"

definition io_lift :: "pl_error + 'a \<Rightarrow> 'a pl_io" where
  "io_lift r = (case r of Inl e \<Rightarrow> io_fail e | Inr a \<Rightarrow> io_ret a)"

definition io_context :: "string \<Rightarrow> 'a pl_io \<Rightarrow> 'a pl_io" where
  "io_context ctx m fs = (case m fs of (Inl e, fs') \<Rightarrow> (Inl (Context ctx e), fs') | r \<Rightarrow> r)"

text \<open>A query of the file system that changes nothing, and an operation run
  unless a query holds (\<open>if !cond { op?; }\<close>).\<close>

definition io_get :: "(project_fs \<Rightarrow> pl_error + 'a) \<Rightarrow> 'a pl_io" where
  "io_get f fs = (f fs, fs)"

definition io_unless :: "(project_fs \<Rightarrow> bool) \<Rightarrow> unit pl_io \<Rightarrow> unit pl_io" where
  "io_unless b m fs = (if b fs then (Inr (), fs) else m fs)"

subsection \<open>\<open>std::fs\<close> and \<open>Path\<close> primitives\<close>

definition fs_is_dir :: "path \<Rightarrow> project_fs \<Rightarrow> bool" where
  "fs_is_dir p fs \<longleftrightarrow> p \<in> set (pf_dirs fs)"

definition fs_exists :: "path \<Rightarrow> project_fs \<Rightarrow> bool" where
  "fs_exists p fs \<longleftrightarrow> fs_is_dir p fs \<or> om_contains p (pf_files fs)"

definition fs_write :: "path \<Rightarrow> bytes \<Rightarrow> unit pl_io" where
  "fs_write p d fs =
     (if fs_is_dir (butlast p) fs \<and> \<not> fs_is_dir p fs
      then (Inr (), fs\<lparr>pf_files := om_insert p d (pf_files fs)\<rparr>) else (Inl (Io p), fs))"

definition fs_create_dir :: "path \<Rightarrow> unit pl_io" where
  "fs_create_dir p fs =
     (if fs_exists p fs \<or> \<not> fs_is_dir (butlast p) fs then (Inl (Io p), fs)
      else (Inr (), fs\<lparr>pf_dirs := pf_dirs fs @ [p]\<rparr>))"

definition fs_read :: "path \<Rightarrow> bytes pl_io" where
  "fs_read p fs = (case om_get p (pf_files fs) of None \<Rightarrow> (Inl (Io p), fs) | Some d \<Rightarrow> (Inr d, fs))"

definition fs_read_to_string :: "path \<Rightarrow> string pl_io" where
  "fs_read_to_string p =
     io_bind (fs_read p) (\<lambda>d. if valid_utf8 d then io_ret (bytes_str d) else io_fail (NotUtf8Content p))"

text \<open>\<open>Path::to_str\<close> followed by \<open>unwrap\<close> or \<open>expect\<close>: a path that is not
  UTF-8 panics.\<close>

definition io_to_str :: "path \<Rightarrow> string pl_io" where
  "io_to_str p =
     (if valid_utf8 (str_bytes (display_path p)) then io_ret (display_path p) else io_fail (PathNotStr p))"

text \<open>\<open>walk_tree_files\<close> of the \<open>python-packaging\<close> crate: every file below the
  root, as a path that starts with the root.\<close>

definition walk_tree_files :: "path \<Rightarrow> project_fs \<Rightarrow> path list" where
  "walk_tree_files root fs = filter (\<lambda>p. prefix root p \<and> p \<noteq> root) (om_keys (pf_files fs))"

subsection \<open>\<open>str::find\<close> for a string pattern\<close>

text \<open>The search loop: the least index from \<open>i\<close> on at which \<open>pat\<close> occurs.
  The index grows and is bounded by the length of the text, so the loop ends.\<close>

function find_from :: "string \<Rightarrow> string \<Rightarrow> nat \<Rightarrow> nat option" where
  "find_from pat s i =
     (if length s < i + length pat then None
      else if take (length pat) (drop i s) = pat then Some i
      else find_from pat s (Suc i))"
  by pat_completeness auto
termination
  by (relation "measure (\<lambda>(pat, s, i). Suc (length s) - i)") auto

declare find_from.simps [simp del]

definition str_find :: "string \<Rightarrow> string \<Rightarrow> nat option" where
  "str_find pat s = find_from pat s 0"

subsection \<open>Relations kept by the effects\<close>

text \<open>An operation keeps a relation \<open>R\<close> between file systems when the file
  system after it is related to the one before, whatever its result.  For a
  reflexive and transitive \<open>R\<close> this is closed under \<open>io_bind\<close>, so a property
  of each step carries over to a whole function.  Two such relations: an
  operation is confined to a directory when every file it creates or changes,
  and every directory it creates, lies below that directory, and it removes no
  directory; and it keeps the file system well formed.\<close>

definition fs_preorder :: "(project_fs \<Rightarrow> project_fs \<Rightarrow> bool) \<Rightarrow> bool" where
  "fs_preorder R \<longleftrightarrow> (\<forall>a. R a a) \<and> (\<forall>a b c. R a b \<longrightarrow> R b c \<longrightarrow> R a c)"

definition io_keeps :: "(project_fs \<Rightarrow> project_fs \<Rightarrow> bool) \<Rightarrow> 'a pl_io \<Rightarrow> bool" where
  "io_keeps R m \<longleftrightarrow> (\<forall>fs. R fs (snd (m fs)))"

text \<open>\<open>R\<close> is kept by every \<open>create_dir\<close> and \<open>write\<close> below \<open>Q\<close>.\<close>

definition keeps_below :: "(project_fs \<Rightarrow> project_fs \<Rightarrow> bool) \<Rightarrow> path \<Rightarrow> bool" where
  "keeps_below R Q \<longleftrightarrow> fs_preorder R
     \<and> (\<forall>q. prefix Q q \<longrightarrow> io_keeps R (fs_create_dir q) \<and> (\<forall>d. io_keeps R (fs_write q d)))"

definition confined :: "path \<Rightarrow> project_fs \<Rightarrow> project_fs \<Rightarrow> bool" where
  "confined P fs fs' \<longleftrightarrow>
     (\<forall>p. om_get p (pf_files fs') \<noteq> om_get p (pf_files fs) \<longrightarrow> prefix P p)
     \<and> set (pf_dirs fs) \<subseteq> set (pf_dirs fs') \<and> (\<forall>d \<in> set (pf_dirs fs') - set (pf_dirs fs). prefix P d)"

abbreviation io_confined :: "path \<Rightarrow> 'a pl_io \<Rightarrow> bool" where
  "io_confined P \<equiv> io_keeps (confined P)"

subsection \<open>Lemmas\<close>

named_theorems io_simps "equations that run the project file-system monad"

lemma io_bind_ret [simp, io_simps]: "io_bind (io_ret a) f = f a"
  by (simp add: io_bind_def io_ret_def fun_eq_iff)

lemma io_bind_fail [simp, io_simps]: "io_bind (io_fail e) f = io_fail e"
  by (simp add: io_bind_def io_fail_def fun_eq_iff)

lemma io_bind_apply [io_simps]:
  "m fs = (Inr a, fs') \<Longrightarrow> io_bind m f fs = f a fs'"
  "m fs = (Inl e, fs') \<Longrightarrow> io_bind m f fs = (Inl e, fs')"
  by (simp_all add: io_bind_def)

lemma io_bind_assoc: "io_bind (io_bind m f) g = io_bind m (\<lambda>a. io_bind (f a) g)"
  by (simp add: io_bind_def fun_eq_iff split: prod.splits sum.splits)

lemma io_context_apply [io_simps]:
  "m fs = (Inr a, fs') \<Longrightarrow> io_context ctx m fs = (Inr a, fs')"
  "m fs = (Inl e, fs') \<Longrightarrow> io_context ctx m fs = (Inl (Context ctx e), fs')"
  by (simp_all add: io_context_def)

lemma io_lift_simps [simp, io_simps]: "io_lift (Inl e) = io_fail e" "io_lift (Inr a) = io_ret a"
  by (simp_all add: io_lift_def)

lemma io_ret_apply [simp, io_simps]: "io_ret a fs = (Inr a, fs)"
  and io_fail_apply [simp, io_simps]: "io_fail e fs = (Inl e, fs)"
  by (simp_all add: io_ret_def io_fail_def)

lemma fs_write_ok [io_simps]:
  "fs_is_dir (butlast p) fs \<Longrightarrow> \<not> fs_is_dir p fs \<Longrightarrow>
     fs_write p d fs = (Inr (), fs\<lparr>pf_files := om_insert p d (pf_files fs)\<rparr>)"
  by (simp add: fs_write_def)

lemma fs_read_to_string_ok [io_simps]:
  "om_get p (pf_files fs) = Some (str_bytes s) \<Longrightarrow> valid_utf8 (str_bytes s) \<Longrightarrow>
     fs_read_to_string p fs = (Inr s, fs)"
  by (simp add: fs_read_to_string_def fs_read_def io_bind_def)

lemma fs_read_to_string_fs: "snd (fs_read_to_string p fs) = fs"
  by (simp add: fs_read_to_string_def fs_read_def io_bind_def split: option.splits)

text \<open>\<open>str::find\<close> returns the first occurrence, and none exactly when the
  pattern does not occur.\<close>

lemma find_from_Some:
  "find_from pat s i = Some j \<Longrightarrow>
     i \<le> j \<and> j + length pat \<le> length s \<and> take (length pat) (drop j s) = pat
     \<and> (\<forall>k. i \<le> k \<and> k < j \<longrightarrow> take (length pat) (drop k s) \<noteq> pat)"
proof (induction pat s i rule: find_from.induct)
  case (1 pat s i)
  show ?case
  proof (cases "length s < i + length pat \<or> take (length pat) (drop i s) = pat")
    case True
    with "1.prems" show ?thesis by (auto simp: find_from.simps [of pat s i] split: if_splits)
  next
    case False
    with "1.prems" have "find_from pat s (Suc i) = Some j" by (simp add: find_from.simps [of pat s i])
    with "1.IH" False show ?thesis by (auto simp: le_Suc_eq Suc_le_eq) (metis le_neq_implies_less)
  qed
qed

lemma find_from_None:
  "find_from pat s i = None \<Longrightarrow> \<forall>k. i \<le> k \<and> k + length pat \<le> length s \<longrightarrow> take (length pat) (drop k s) \<noteq> pat"
proof (induction pat s i rule: find_from.induct)
  case (1 pat s i)
  show ?case
  proof (intro allI impI)
    fix k assume k: "i \<le> k \<and> k + length pat \<le> length s"
    with "1.prems" have ne: "take (length pat) (drop i s) \<noteq> pat" and rec: "find_from pat s (Suc i) = None"
      by (auto simp: find_from.simps [of pat s i] split: if_splits)
    show "take (length pat) (drop k s) \<noteq> pat"
    proof (cases "k = i")
      case False
      with k "1.IH" [OF _ _ rec] "1.prems" ne show ?thesis by (auto simp: find_from.simps [of pat s i])
    qed (use ne in simp)
  qed
qed

lemma find_from_first:
  assumes "i \<le> j" "j + length pat \<le> length s" "take (length pat) (drop j s) = pat"
    and "\<forall>k. i \<le> k \<and> k < j \<longrightarrow> take (length pat) (drop k s) \<noteq> pat"
  shows "find_from pat s i = Some j"
proof (cases "find_from pat s i")
  case None
  with find_from_None assms(1-3) show ?thesis by blast
next
  case (Some j')
  from find_from_Some [OF Some] assms have "j' = j"
    by (meson linorder_neqE_nat)
  with Some show ?thesis by simp
qed

lemma take_drop_append_occurs:
  "take (length pat) (drop (length x) (x @ pat @ r)) = pat"
  by simp

lemma occurs_str_contains:
  "take (length pat) (drop k s) = pat \<Longrightarrow> k + length pat \<le> length s \<Longrightarrow> str_contains pat s"
proof (induction k arbitrary: s)
  case 0
  then show ?case
    by (cases s) (auto simp: starts_with_prefix, metis take_is_prefix)
next
  case (Suc k)
  then obtain c cs where "s = c # cs" by (cases s) auto
  with Suc show ?case by simp
qed

lemma str_contains_occurs:
  "str_contains pat s \<Longrightarrow> \<exists>k. k + length pat \<le> length s \<and> take (length pat) (drop k s) = pat"
proof (induction s)
  case (Cons c cs)
  show ?case
  proof (cases "starts_with (c # cs) pat")
    case True
    then obtain r where "c # cs = pat @ r" by (auto simp: starts_with_prefix prefix_def)
    then show ?thesis by (intro exI [of _ 0]) simp
  next
    case False
    with Cons obtain k where "k + length pat \<le> length cs \<and> take (length pat) (drop k cs) = pat" by auto
    then show ?thesis by (intro exI [of _ "Suc k"]) simp
  qed
qed simp

lemma str_find_None: "str_find pat s = None \<longleftrightarrow> \<not> str_contains pat s"
proof
  assume "str_find pat s = None"
  then show "\<not> str_contains pat s"
    using find_from_None str_contains_occurs unfolding str_find_def by blast
next
  assume nc: "\<not> str_contains pat s"
  show "str_find pat s = None"
  proof (cases "str_find pat s")
    case (Some j)
    then show ?thesis using find_from_Some [of pat s 0 j] occurs_str_contains nc
      unfolding str_find_def by blast
  qed
qed

lemma take_drop_append_left: "k + n \<le> length a \<Longrightarrow> take n (drop k (a @ b)) = take n (drop k a)"
  by simp

lemma str_find_first:
  assumes "\<not> str_contains pat (x @ butlast pat)" and "pat \<noteq> []"
  shows "str_find pat (x @ pat @ r) = Some (length x)"
  unfolding str_find_def
proof (rule find_from_first)
  show "\<forall>k. 0 \<le> k \<and> k < length x \<longrightarrow> take (length pat) (drop k (x @ pat @ r)) \<noteq> pat"
  proof (intro allI impI)
    fix k assume k: "0 \<le> k \<and> k < length x"
    have split: "x @ pat @ r = (x @ butlast pat) @ (last pat # r)"
      using assms(2) by (metis append.assoc append_Cons append_butlast_last_id self_append_conv2)
    have len: "k + length pat \<le> length (x @ butlast pat)" using k assms(2) by (cases pat) auto
    show "take (length pat) (drop k (x @ pat @ r)) \<noteq> pat"
      unfolding split take_drop_append_left [OF len]
      using occurs_str_contains [OF _ len] assms(1) by blast
  qed
qed simp_all

lemma confined_refl [simp]: "confined P fs fs"
  by (simp add: confined_def)

lemma confined_trans: "confined P fs1 fs2 \<Longrightarrow> confined P fs2 fs3 \<Longrightarrow> confined P fs1 fs3"
  unfolding confined_def by (metis (mono_tags, lifting) Diff_iff subset_eq)

lemma confined_preorder: "fs_preorder (confined P)"
  unfolding fs_preorder_def using confined_trans by auto

lemma fs_preorder_refl: "fs_preorder R \<Longrightarrow> R a a"
  and fs_preorder_trans: "fs_preorder R \<Longrightarrow> R a b \<Longrightarrow> R b c \<Longrightarrow> R a c"
  by (auto simp: fs_preorder_def)

named_theorems keeps_intros "the monad's combinators keep a preorder when their parts do"

lemma io_keeps_pure: "fs_preorder R \<Longrightarrow> (\<And>fs. snd (m fs) = fs) \<Longrightarrow> io_keeps R m"
  by (simp add: io_keeps_def fs_preorder_refl)

lemma io_keeps_ret [keeps_intros]: "fs_preorder R \<Longrightarrow> io_keeps R (io_ret a)"
  and io_keeps_fail [keeps_intros]: "fs_preorder R \<Longrightarrow> io_keeps R (io_fail e)"
  and io_keeps_lift [keeps_intros]: "fs_preorder R \<Longrightarrow> io_keeps R (io_lift r)"
  and io_keeps_get [keeps_intros]: "fs_preorder R \<Longrightarrow> io_keeps R (io_get f)"
  and io_keeps_read [keeps_intros]: "fs_preorder R \<Longrightarrow> io_keeps R (fs_read p)"
  and io_keeps_read_to_string [keeps_intros]: "fs_preorder R \<Longrightarrow> io_keeps R (fs_read_to_string p)"
  and io_keeps_to_str [keeps_intros]: "fs_preorder R \<Longrightarrow> io_keeps R (io_to_str p)"
  by (auto intro!: io_keeps_pure simp: io_lift_def io_get_def fs_read_def fs_read_to_string_def io_bind_def
      io_to_str_def split: sum.splits option.splits)

lemma io_keeps_after:
  assumes "fs_preorder R" and "\<And>a. io_keeps R (f a)"
  shows "R (snd (m fs)) (snd (io_bind m f fs))"
  using assms by (auto simp: io_bind_def io_keeps_def fs_preorder_refl split: prod.splits sum.splits)

lemma io_keeps_bind [keeps_intros]:
  assumes "fs_preorder R" and "io_keeps R m" and "\<And>a. io_keeps R (f a)"
  shows "io_keeps R (io_bind m f)"
  unfolding io_keeps_def
proof
  fix fs
  have 1: "R fs (snd (m fs))" using assms(2) by (simp add: io_keeps_def)
  have 2: "R (snd (m fs)) (snd (io_bind m f fs))" by (rule io_keeps_after [OF assms(1,3)])
  show "R fs (snd (io_bind m f fs))" by (rule fs_preorder_trans [OF assms(1) 1 2])
qed

lemma snd_io_context [simp]: "snd (io_context ctx m fs) = snd (m fs)"
  by (simp add: io_context_def split: prod.splits sum.splits)

lemma io_keeps_after_context:
  "fs_preorder R \<Longrightarrow> (\<And>a. io_keeps R (f a)) \<Longrightarrow> R (snd (m fs)) (snd (io_bind (io_context ctx m) f fs))"
  using io_keeps_after [of R f "io_context ctx m" fs] by simp

lemma io_keeps_context [keeps_intros]: "io_keeps R m \<Longrightarrow> io_keeps R (io_context ctx m)"
  by (simp add: io_keeps_def)

lemma io_keeps_if [keeps_intros]:
  "(b \<Longrightarrow> io_keeps R m1) \<Longrightarrow> (\<not> b \<Longrightarrow> io_keeps R m2) \<Longrightarrow> io_keeps R (if b then m1 else m2)"
  by simp

lemma io_keeps_unless [keeps_intros]: "fs_preorder R \<Longrightarrow> io_keeps R m \<Longrightarrow> io_keeps R (io_unless b m)"
  by (simp add: io_keeps_def io_unless_def fs_preorder_refl)

lemma prefix_append_self [simp, intro]: "prefix P (P @ q)"
  by simp

lemma prefix_append_right: "prefix Q P \<Longrightarrow> prefix Q (P @ q)"
  using prefix_order.trans prefix_append_self by blast

lemma keeps_below_write: "keeps_below R Q \<Longrightarrow> prefix Q p \<Longrightarrow> io_keeps R (fs_write p d)"
  and keeps_below_create_dir: "keeps_below R Q \<Longrightarrow> prefix Q p \<Longrightarrow> io_keeps R (fs_create_dir p)"
  and keeps_below_preorder: "keeps_below R Q \<Longrightarrow> fs_preorder R"
  by (simp_all add: keeps_below_def)

lemma keeps_below_confined: "keeps_below (confined P) P"
  by (auto simp: keeps_below_def confined_preorder io_keeps_def confined_def fs_write_def fs_create_dir_def)

end
