(* ===== verification/Project_Layout.thy ===== *)
theory Project_Layout
  imports Project_FS Tar Orchestrator "HOL-Library.Multiset"
begin

text \<open>
  \<open>src/pyoxidizer/src/project_layout.rs\<close>: the creation of a new Rust
  project that embeds Python (\<open>initialize_project\<close>) and the functions it
  calls, each a \<open>pl_io\<close> operation on the project file system of
  \<open>Project_FS\<close>.  The Handlebars templates are included from
  \<open>src/pyoxidizer/src/templates\<close>, which is not in the repository, so their
  rendering is the field \<open>render\<close> of the collaborator record
  \<open>layout_env\<close>, as are the frozen \<open>Cargo.lock\<close> of new projects, the
  \<open>cargo_lock\<close> and \<open>cargo_toml\<close> crates, \<open>cargo init\<close>, and the build
  constants of \<open>environment.rs\<close>.
\<close>

subsection \<open>Template data\<close>

datatype pyoxidizer_source = LocalPath path | GitUrl string "string option" "string option"

record python_distribution_t =
  pd_build_target :: string
  pd_url :: string
  pd_sha256 :: string

record template_data =
  td_pyoxidizer_version :: "string option"
  td_pyoxidizer_commit :: "string option"
  td_pyoxidizer_local_repo_path :: "string option"
  td_pyoxidizer_git_url :: "string option"
  td_pyoxidizer_git_commit :: "string option"
  td_pyoxidizer_git_tag :: "string option"
  td_python_distributions :: "python_distribution_t list"
  td_program_name :: "string option"
  td_code :: "string option"
  td_pip_install_simple :: "string list"

definition template_data_new :: template_data where
  "template_data_new =
     \<lparr>td_pyoxidizer_version = None, td_pyoxidizer_commit = None, td_pyoxidizer_local_repo_path = None,
      td_pyoxidizer_git_url = None, td_pyoxidizer_git_commit = None, td_pyoxidizer_git_tag = None,
      td_python_distributions = [], td_program_name = None, td_code = None, td_pip_install_simple = []\<rparr>"

text \<open>What a template is rendered from: the \<open>TemplateData\<close> struct, or a
  \<open>BTreeMap<String, String>\<close>.\<close>

datatype render_data = TemplateData template_data | StringMap "(string, string) btree_map"

subsection \<open>Collaborators\<close>

datatype pyembed_location = Version string | PathLoc path | Git string string

record lock_dependency =
  ld_name :: string
  ld_version :: string
  ld_source :: "string option"

record lock_package =
  lp_name :: string
  lp_version :: string
  lp_source :: "string option"
  lp_checksum :: "string option"
  lp_dependencies :: "lock_dependency list"
  lp_replace :: "string option"

record cargo_manifest =
  cm_package :: "string option"

record layout_env =
  pyoxidizer_version :: string
  build_git_commit :: "string option"
  render :: "string \<Rightarrow> render_data \<Rightarrow> string option"
  frozen_lock :: "lock_package list option"
  valid_name :: "string \<Rightarrow> bool"
  lock_to_string :: "lock_package list \<Rightarrow> string"
  parse_cargo_manifest :: "bytes \<Rightarrow> cargo_manifest option"
  as_pyembed_location :: "pyoxidizer_source \<Rightarrow> pyembed_location"
  cargo_init :: "path \<Rightarrow> path \<Rightarrow> bool pl_io"

text \<open>\<open>HANDLEBARS.render(pname, tdata)?\<close>.\<close>

definition io_render :: "layout_env \<Rightarrow> string \<Rightarrow> render_data \<Rightarrow> string pl_io" where
  "io_render env pname tdata = io_lift (case render env pname tdata of None \<Rightarrow> Inl (Render pname) | Some t \<Rightarrow> Inr t)"

subsection \<open>The operations\<close>

definition populate_template_data :: "layout_env \<Rightarrow> pyoxidizer_source \<Rightarrow> template_data \<Rightarrow> template_data" where
  "populate_template_data env source tdata =
     (let d = tdata\<lparr>td_pyoxidizer_version := Some (pyoxidizer_version env),
                   td_pyoxidizer_commit := Some (case build_git_commit env of None \<Rightarrow> ''UNKNOWN'' | Some c \<Rightarrow> c)\<rparr> in
      case source of
        LocalPath p \<Rightarrow> d\<lparr>td_pyoxidizer_local_repo_path := Some (display_path p)\<rparr>
      | GitUrl url commit tag \<Rightarrow>
          d\<lparr>td_pyoxidizer_git_url := Some url,
            td_pyoxidizer_git_commit := (case commit of None \<Rightarrow> td_pyoxidizer_git_commit d | Some c \<Rightarrow> Some c),
            td_pyoxidizer_git_tag := (case tag of None \<Rightarrow> td_pyoxidizer_git_tag d | Some t \<Rightarrow> Some t)\<rparr>)"

definition find_pyoxidizer_files :: "path \<Rightarrow> project_fs \<Rightarrow> pl_error + path list" where
  "find_pyoxidizer_files root pfs =
     concat_map_e (\<lambda>f.
        if \<not> prefix root f then Inl (StripPrefix f)
        else (let path = drop (length root) f; path_s = display_path path in
              if \<not> valid_utf8 (str_bytes path_s) then Inl (PathNotStr path)
              else Inr (if str_contains ''pyoxidizer'' path_s \<or> str_contains ''pyembed'' path_s then [path] else [])))
       (walk_tree_files root pfs)"

definition write_new_cargo_config :: "layout_env \<Rightarrow> path \<Rightarrow> unit pl_io" where
  "write_new_cargo_config env project_path =
     (let cargo_path = project_path @ [''.cargo''] in
      io_bind (io_unless (fs_is_dir cargo_path) (fs_create_dir cargo_path)) (\<lambda>_.
      io_bind (io_render env ''new-cargo-config'' (StringMap [])) (\<lambda>t.
      fs_write (cargo_path @ [''config'']) (str_bytes t))))"

definition new_project_dependencies :: "string list" where
  "new_project_dependencies = [''embed-resource'', ''jemallocator'', ''mimalloc'', ''pyembed'', ''snmalloc-rs'']"

text \<open>The version of the first package of the frozen lock with the given name
  (\<open>filter_map(..).next()\<close>).\<close>

definition dep_version :: "lock_package list \<Rightarrow> string \<Rightarrow> string option" where
  "dep_version pkgs dep = map_option lp_version (find (\<lambda>p. lp_name p = dep) pkgs)"

definition lock_dependency_of :: "layout_env \<Rightarrow> lock_package list \<Rightarrow> string \<Rightarrow> pl_error + lock_dependency" where
  "lock_dependency_of env pkgs dep =
     (if \<not> valid_name env dep then Inl (BadName dep)
      else case dep_version pkgs dep of
             None \<Rightarrow> Inl (DependencyMissing dep)
           | Some v \<Rightarrow> Inr \<lparr>ld_name = dep, ld_version = v, ld_source = None\<rparr>)"

text \<open>The package entry of the new project.\<close>

definition project_package :: "string \<Rightarrow> lock_dependency list \<Rightarrow> lock_package" where
  "project_package pname deps =
     \<lparr>lp_name = pname, lp_version = ''0.1.0'', lp_source = None, lp_checksum = None,
      lp_dependencies = deps, lp_replace = None\<rparr>"

definition new_lock_packages :: "layout_env \<Rightarrow> lock_package list \<Rightarrow> string \<Rightarrow> pl_error + lock_package list" where
  "new_lock_packages env pkgs project_name =
     (case concat_map_e (\<lambda>dep. map_sum id (\<lambda>d. [d]) (lock_dependency_of env pkgs dep)) new_project_dependencies of
        Inl e \<Rightarrow> Inl e
      | Inr deps \<Rightarrow>
          if \<not> valid_name env project_name then Inl (BadName project_name)
          else Inr (sort_key lp_name (pkgs @ [project_package project_name deps])))"

definition write_new_cargo_lock :: "layout_env \<Rightarrow> path \<Rightarrow> string \<Rightarrow> unit pl_io" where
  "write_new_cargo_lock env project_path project_name =
     io_bind (io_lift (case frozen_lock env of None \<Rightarrow> Inl LockParse | Some pkgs \<Rightarrow> Inr pkgs)) (\<lambda>pkgs.
     io_bind (io_lift (new_lock_packages env pkgs project_name)) (\<lambda>pkgs'.
     fs_write (project_path @ [''Cargo.lock'']) (str_bytes (lock_to_string env pkgs'))))"

definition write_new_build_rs :: "layout_env \<Rightarrow> path \<Rightarrow> string \<Rightarrow> unit pl_io" where
  "write_new_build_rs env path prog_name =
     io_bind (io_render env ''new-build.rs'' (TemplateData (template_data_new\<lparr>td_program_name := Some prog_name\<rparr>)))
       (\<lambda>t. fs_write path (str_bytes t))"

definition write_new_main_rs :: "layout_env \<Rightarrow> path \<Rightarrow> string \<Rightarrow> unit pl_io" where
  "write_new_main_rs env path windows_subsystem =
     io_bind (io_render env ''new-main.rs'' (StringMap [(''windows_subsystem'', windows_subsystem)])) (\<lambda>t.
     io_bind (io_to_str path) (\<lambda>_. fs_write path (str_bytes t)))"

text \<open>\<open>code.replace("\"", "\\\"")\<close>.\<close>

definition escape_quotes :: "string \<Rightarrow> string" where
  "escape_quotes s = concat (map (\<lambda>c. if c = CHR 0x22 then [CHR 0x5C, CHR 0x22] else [c]) s)"

definition write_new_pyoxidizer_config_file ::
  "layout_env \<Rightarrow> pyoxidizer_source \<Rightarrow> path \<Rightarrow> string \<Rightarrow> string option \<Rightarrow> string list \<Rightarrow> unit pl_io" where
  "write_new_pyoxidizer_config_file env source project_dir pname code pip_inst =
     (let path = project_dir @ [''pyoxidizer.bzl''];
          tdata = (populate_template_data env source template_data_new)
                   \<lparr>td_program_name := Some pname, td_code := map_option escape_quotes code,
                    td_pip_install_simple := pip_inst\<rparr> in
      io_bind (io_render env ''new-pyoxidizer.bzl'' (TemplateData tdata)) (\<lambda>t.
      io_bind (io_to_str path) (\<lambda>_. fs_write path (str_bytes t))))"

definition write_application_manifest :: "layout_env \<Rightarrow> path \<Rightarrow> string \<Rightarrow> unit pl_io" where
  "write_application_manifest env project_dir prog_name =
     (let tdata = TemplateData (template_data_new\<lparr>td_program_name := Some prog_name\<rparr>);
          manifest_path = path_join project_dir (prog_name @ ''.exe.manifest'');
          rc_path = path_join project_dir (prog_name @ ''-manifest.rc'') in
      io_bind (io_render env ''exe.manifest'' tdata) (\<lambda>manifest_data.
      io_bind (fs_write manifest_path (str_bytes manifest_data)) (\<lambda>_.
      io_bind (io_render env ''application-manifest.rc'' tdata) (\<lambda>rc_data.
      fs_write rc_path (str_bytes rc_data)))))"

definition add_pyoxidizer :: "layout_env \<Rightarrow> path \<Rightarrow> unit pl_io" where
  "add_pyoxidizer env project_dir =
     io_bind (io_get (find_pyoxidizer_files project_dir)) (\<lambda>existing_files.
     if existing_files \<noteq> [] then io_fail ExistingFiles
     else (let cargo_toml = project_dir @ [''Cargo.toml''] in
           io_bind (io_get (\<lambda>pfs. Inr (fs_exists cargo_toml pfs))) (\<lambda>ex.
           if \<not> ex then io_fail NoCargoToml
           else io_bind (fs_read cargo_toml) (\<lambda>cargo_toml_data.
                case parse_cargo_manifest env cargo_toml_data of
                  None \<Rightarrow> io_fail ManifestParse
                | Some manifest \<Rightarrow>
                    (case cm_package manifest of None \<Rightarrow> io_fail NoPackage | Some _ \<Rightarrow> io_ret ())))))"

definition cargo_manifest_fields :: "pyembed_location \<Rightarrow> string" where
  "cargo_manifest_fields loc =
     (case loc of
        Version v \<Rightarrow> ''version = \"'' @ v @ ''\"''
      | PathLoc p \<Rightarrow> ''path = \"'' @ display_path p @ ''\"''
      | Git url commit \<Rightarrow> ''git = \"'' @ url @ ''\", rev = \"'' @ commit @ ''\"'')"

definition build_line :: string where
  "build_line = ''build = \"build.rs\"\<newline>''"

definition pyembed_line :: "pyembed_location \<Rightarrow> string" where
  "pyembed_line loc = ''pyembed = { '' @ cargo_manifest_fields loc @ '', default-features = false }\<newline>''"

definition update_new_cargo_toml :: "layout_env \<Rightarrow> path \<Rightarrow> pyembed_location \<Rightarrow> unit pl_io" where
  "update_new_cargo_toml env path pyembed_location =
     io_bind (fs_read_to_string path) (\<lambda>content.
     (case str_find ''version ='' content of
        None \<Rightarrow> io_fail NoVersionLine
      | Some version_start \<Rightarrow>
          (case find_char CHR ''\<newline>'' (drop version_start content) of
             None \<Rightarrow> io_fail NoNewlineAfterVersion
           | Some off \<Rightarrow>
               (let nl_off = version_start + off + 1;
                    content' = take nl_off content @ build_line @ drop nl_off content
                               @ pyembed_line pyembed_location @ ''\<newline>'' in
                io_bind (io_context ''rendering cargo-extra.toml template''
                           (io_render env ''cargo-extra.toml'' (TemplateData template_data_new))) (\<lambda>extra.
                fs_write path (str_bytes (content' @ extra)))))))"

definition initialize_project ::
  "layout_env \<Rightarrow> pyoxidizer_source \<Rightarrow> path \<Rightarrow> path \<Rightarrow> string option \<Rightarrow> string list \<Rightarrow> string \<Rightarrow> unit pl_io" where
  "initialize_project env source project_path cargo_exe code pip_inst windows_subsystem =
     io_bind (io_context ''invoking cargo init'' (cargo_init env cargo_exe project_path)) (\<lambda>success.
     if \<not> success then io_fail CargoInitFailed
     else if project_path = [] then io_fail NoLastComponent
     else (let path = project_path; pname = last path in
     if \<not> valid_utf8 (str_bytes pname) then io_fail (PathNotStr [pname])
     else
     io_bind (io_context ''adding PyOxidizer to Rust project'' (add_pyoxidizer env path)) (\<lambda>_.
     io_bind (io_context ''updating Cargo.toml''
                (update_new_cargo_toml env (path @ [''Cargo.toml'']) (as_pyembed_location env source))) (\<lambda>_.
     io_bind (io_context ''writing cargo config'' (write_new_cargo_config env path)) (\<lambda>_.
     io_bind (io_context ''writing Cargo.lock'' (write_new_cargo_lock env path pname)) (\<lambda>_.
     io_bind (io_context ''writing build.rs'' (write_new_build_rs env (path @ [''build.rs'']) pname)) (\<lambda>_.
     io_bind (io_context ''writing main.rs'' (write_new_main_rs env (path @ [''src'', ''main.rs'']) windows_subsystem)) (\<lambda>_.
     io_bind (io_context ''writing PyOxidizer config file''
                (write_new_pyoxidizer_config_file env source path pname code pip_inst)) (\<lambda>_.
     io_context ''writing application manifest'' (write_application_manifest env path pname))))))))))"

text \<open>The files a new project holds once \<open>initialize_project\<close> has run.\<close>

definition layout_files :: "path \<Rightarrow> path list" where
  "layout_files P =
     [P @ [''Cargo.toml''], P @ [''.cargo'', ''config''], P @ [''Cargo.lock''], P @ [''build.rs''],
      P @ [''src'', ''main.rs''], P @ [''pyoxidizer.bzl''], P @ [last P @ ''.exe.manifest''],
      P @ [last P @ ''-manifest.rc'']]"

subsection \<open>\<open>update_new_cargo_toml\<close>\<close>

lemma version_line_split:
  assumes "content = x @ ''version ='' @ y @ ''\<newline>'' @ after"
    and "\<not> str_contains ''version ='' (x @ butlast ''version ='')" and "CHR ''\<newline>'' \<notin> set y"
  shows "str_find ''version ='' content = Some (length x)
    \<and> find_char CHR ''\<newline>'' (drop (length x) content) = Some (length (''version ='' @ y))"
proof
  show "str_find ''version ='' content = Some (length x)"
    unfolding assms(1) by (rule str_find_first [OF assms(2)]) simp
  have "drop (length x) content = (''version ='' @ y) @ CHR ''\<newline>'' # after" using assms(1) by simp
  moreover have "CHR ''\<newline>'' \<notin> set (''version ='' @ y)" using assms(3) by simp
  ultimately show "find_char CHR ''\<newline>'' (drop (length x) content) = Some (length (''version ='' @ y))"
    by (metis find_char_prefix)
qed

lemma io_render_ok [io_simps]:
  "render env pname tdata = Some t \<Longrightarrow> io_render env pname tdata pfs = (Inr t, pfs)"
  by (simp add: io_render_def)

lemma io_render_fail [io_simps]:
  "render env pname tdata = None \<Longrightarrow> io_render env pname tdata pfs = (Inl (Render pname), pfs)"
  by (simp add: io_render_def)


subsection \<open>The lock file\<close>

lemma lock_deps_Inr:
  "concat_map_e (\<lambda>dep. map_sum id (\<lambda>d. [d]) (lock_dependency_of env pkgs dep)) ds = Inr deps \<Longrightarrow>
     map ld_name deps = ds \<and> (\<forall>d \<in> set deps. dep_version pkgs (ld_name d) = Some (ld_version d) \<and> ld_source d = None)"
  by (induction ds arbitrary: deps)
     (auto simp: lock_dependency_of_def split: sum.splits option.splits if_splits)

lemma new_lock_packages_Inr:
  assumes "new_lock_packages env pkgs pname = Inr pkgs'"
  obtains deps where "pkgs' = sort_key lp_name (pkgs @ [project_package pname deps])"
    and "map ld_name deps = new_project_dependencies"
    and "\<forall>d \<in> set deps. dep_version pkgs (ld_name d) = Some (ld_version d) \<and> ld_source d = None"
    and "valid_name env pname"
  using assms lock_deps_Inr unfolding new_lock_packages_def
  by (auto split: sum.splits if_splits)

subsection \<open>Confinement of each operation\<close>

lemma path_join_below:
  assumes "P \<noteq> []" and "''.'' \<notin> set (tl P)" and "s \<noteq> []" and "hd s \<noteq> CHR ''/''"
  shows "prefix P (path_join P s)"
proof -
  obtain c cs where P: "P = c # cs" using assms(1) by (cases P) auto
  have "filter (\<lambda>c. c \<noteq> ''.'') cs = cs" using assms(2) P by (auto simp: filter_id_conv)
  then show ?thesis using assms(3,4) P by (simp add: path_join_def)
qed

lemma hd_name_suffix: "CHR ''/'' \<notin> set pname \<Longrightarrow> hd sfx \<noteq> CHR ''/'' \<Longrightarrow> hd (pname @ sfx) \<noteq> CHR ''/''"
  by (cases pname) auto

lemma write_new_cargo_config_keeps:
  assumes "keeps_below R Q" and "prefix Q P"
  shows "io_keeps R (write_new_cargo_config env P)"
  using assms keeps_below_preorder [OF assms(1)]
  unfolding write_new_cargo_config_def Let_def io_render_def
  by (auto intro!: keeps_intros keeps_below_create_dir keeps_below_write prefix_append_right)

lemma write_new_cargo_lock_keeps:
  assumes "keeps_below R Q" and "prefix Q P"
  shows "io_keeps R (write_new_cargo_lock env P pname)"
  using assms keeps_below_preorder [OF assms(1)]
  unfolding write_new_cargo_lock_def
  by (auto intro!: keeps_intros keeps_below_write prefix_append_right)

lemma write_file_keeps:
  assumes "keeps_below R Q"
  shows "prefix Q p \<Longrightarrow> io_keeps R (write_new_build_rs env p pname)"
    and "prefix Q p \<Longrightarrow> io_keeps R (write_new_main_rs env p ws)"
    and "prefix Q P \<Longrightarrow> io_keeps R (write_new_pyoxidizer_config_file env source P pname code pip)"
  using assms keeps_below_preorder [OF assms(1)]
  unfolding write_new_build_rs_def write_new_main_rs_def write_new_pyoxidizer_config_file_def Let_def io_render_def
  by (auto intro!: keeps_intros keeps_below_write prefix_append_right)

lemma write_application_manifest_keeps:
  assumes "keeps_below R Q" and "prefix Q (path_join P (pname @ ''.exe.manifest''))"
    and "prefix Q (path_join P (pname @ ''-manifest.rc''))"
  shows "io_keeps R (write_application_manifest env P pname)"
  using assms keeps_below_preorder [OF assms(1)]
  unfolding write_application_manifest_def Let_def io_render_def
  by (auto intro!: keeps_intros keeps_below_write)

lemma add_pyoxidizer_keeps: "fs_preorder R \<Longrightarrow> io_keeps R (add_pyoxidizer env Q)"
  unfolding add_pyoxidizer_def Let_def
  by (auto intro!: keeps_intros split: option.split)

lemma update_new_cargo_toml_keeps:
  assumes "keeps_below R Q" and "prefix Q p"
  shows "io_keeps R (update_new_cargo_toml env p loc)"
  using assms keeps_below_preorder [OF assms(1)]
  unfolding update_new_cargo_toml_def Let_def io_render_def
  by (auto intro!: keeps_intros keeps_below_write split: option.split)

text \<open>Every step after \<open>cargo init\<close> keeps a preorder that every write and
  directory creation below \<open>Q\<close> keeps, when the project lies below \<open>Q\<close>.\<close>

lemma initialize_project_keeps_after:
  assumes kb: "keeps_below R Q" and "prefix Q P"
    and "prefix Q (path_join P (last P @ ''.exe.manifest''))" and "prefix Q (path_join P (last P @ ''-manifest.rc''))"
  shows "R (snd (cargo_init env cargo_exe P pfs))
           (snd (initialize_project env source P cargo_exe code pip_inst windows_subsystem pfs))"
  unfolding initialize_project_def Let_def
  by (rule io_keeps_after_context [OF keeps_below_preorder [OF kb]])
     (use assms keeps_below_preorder [OF kb] in \<open>auto intro!: keeps_intros add_pyoxidizer_keeps
        update_new_cargo_toml_keeps [OF kb] write_new_cargo_config_keeps [OF kb]
        write_new_cargo_lock_keeps [OF kb] write_file_keeps [OF kb] write_application_manifest_keeps [OF kb]
        prefix_append_right\<close>)


lemma split_on_none: "c \<notin> set s \<Longrightarrow> split_on c s acc = [rev acc @ s]"
  by (induction s arbitrary: acc) auto

lemma path_join_single:
  assumes "P \<noteq> []" and "''.'' \<notin> set (tl P)" and "CHR ''/'' \<notin> set s" and "s \<noteq> []" and "s \<noteq> ''.''"
  shows "path_join P s = P @ [s]"
proof -
  obtain c cs where P: "P = c # cs" using assms(1) by (cases P) auto
  have hd: "hd s \<noteq> CHR ''/''" using assms(3,4) by (cases s) auto
  have "path_of_str s = [s]" using assms(3-5) hd by (simp add: path_of_str_def split_on_none)
  moreover have "filter (\<lambda>c. c \<noteq> ''.'') cs = cs" using assms(2) P by (auto simp: filter_id_conv)
  ultimately show ?thesis using assms(4,5) hd P by (simp add: path_join_def)
qed

lemma io_render_some [io_simps]:
  "render env pname tdata \<noteq> None \<Longrightarrow> io_render env pname tdata pfs = (Inr (the (render env pname tdata)), pfs)"
  by (auto simp: io_render_def)

lemma add_pyoxidizer_ok:
  assumes "find_pyoxidizer_files P pfs = Inr []" and "om_get (P @ [''Cargo.toml'']) (pf_files pfs) = Some d"
    and "parse_cargo_manifest env d = Some m" and "cm_package m \<noteq> None"
  shows "add_pyoxidizer env P pfs = (Inr (), pfs)"
  using assms by (auto simp: add_pyoxidizer_def io_get_def io_bind_def fs_exists_def om_contains_def fs_read_def Let_def)

lemma write_new_cargo_config_ok:
  assumes "render env ''new-cargo-config'' (StringMap []) \<noteq> None" and "fs_is_dir P pfs"
    and "\<not> fs_exists (P @ [''.cargo'']) pfs" and "\<not> fs_is_dir (P @ [''.cargo'', ''config'']) pfs"
  shows "write_new_cargo_config env P pfs =
    (Inr (), pfs\<lparr>pf_dirs := pf_dirs pfs @ [P @ [''.cargo'']],
               pf_files := om_insert (P @ [''.cargo'', ''config''])
                             (str_bytes (the (render env ''new-cargo-config'' (StringMap [])))) (pf_files pfs)\<rparr>)"
  using assms
  by (auto simp: write_new_cargo_config_def io_unless_def fs_create_dir_def io_bind_def fs_write_def
      io_render_some fs_is_dir_def fs_exists_def Let_def butlast_append)

lemma new_lock_packages_ok:
  assumes "\<forall>dep \<in> set new_project_dependencies. valid_name env dep \<and> dep_version pkgs dep \<noteq> None"
    and "valid_name env pname"
  shows "\<exists>pkgs'. new_lock_packages env pkgs pname = Inr pkgs'"
proof -
  have "\<exists>deps. concat_map_e (\<lambda>dep. map_sum id (\<lambda>d. [d]) (lock_dependency_of env pkgs dep))
      new_project_dependencies = Inr deps"
    using assms(1) unfolding concat_map_e_Inr_iff by (auto simp: lock_dependency_of_def)
  with assms(2) show ?thesis by (auto simp: new_lock_packages_def)
qed

lemma write_new_cargo_lock_ok:
  assumes "frozen_lock env = Some pkgs" and "new_lock_packages env pkgs pname = Inr pkgs'"
    and "fs_is_dir P pfs" and "\<not> fs_is_dir (P @ [''Cargo.lock'']) pfs"
  shows "write_new_cargo_lock env P pname pfs =
    (Inr (), pfs\<lparr>pf_files := om_insert (P @ [''Cargo.lock'']) (str_bytes (lock_to_string env pkgs')) (pf_files pfs)\<rparr>)"
  using assms by (simp add: write_new_cargo_lock_def io_bind_def fs_write_def)

lemma write_template_file_ok:
  assumes "\<forall>n d. render env n d \<noteq> None" and "fs_is_dir (butlast p) pfs" and "\<not> fs_is_dir p pfs"
  shows "\<exists>t. write_new_build_rs env p pname pfs = (Inr (), pfs\<lparr>pf_files := om_insert p (str_bytes t) (pf_files pfs)\<rparr>)"
    and "valid_utf8 (str_bytes (display_path p)) \<Longrightarrow>
      \<exists>t. write_new_main_rs env p ws pfs = (Inr (), pfs\<lparr>pf_files := om_insert p (str_bytes t) (pf_files pfs)\<rparr>)"
  using assms
  by (auto simp: write_new_build_rs_def write_new_main_rs_def write_new_pyoxidizer_config_file_def
      io_bind_def io_render_some io_to_str_def fs_write_def Let_def)

lemma write_pyoxidizer_config_ok:
  assumes "\<forall>n d. render env n d \<noteq> None" and "fs_is_dir Q pfs" and "\<not> fs_is_dir (Q @ [''pyoxidizer.bzl'']) pfs"
    and "valid_utf8 (str_bytes (display_path (Q @ [''pyoxidizer.bzl''])))"
  shows "\<exists>t. write_new_pyoxidizer_config_file env source Q pname code pip pfs =
    (Inr (), pfs\<lparr>pf_files := om_insert (Q @ [''pyoxidizer.bzl'']) (str_bytes t) (pf_files pfs)\<rparr>)"
  using assms
  by (auto simp: write_new_pyoxidizer_config_file_def io_bind_def io_render_some io_to_str_def fs_write_def Let_def)

lemma write_application_manifest_ok:
  assumes "\<forall>n d. render env n d \<noteq> None" and "P \<noteq> []" and "''.'' \<notin> set (tl P)" and "CHR ''/'' \<notin> set pname"
    and "fs_is_dir P pfs" and "\<not> fs_is_dir (P @ [pname @ ''.exe.manifest'']) pfs"
    and "\<not> fs_is_dir (P @ [pname @ ''-manifest.rc'']) pfs"
  shows "\<exists>t u. write_application_manifest env P pname pfs =
    (Inr (), pfs\<lparr>pf_files := om_insert (P @ [pname @ ''-manifest.rc'']) (str_bytes u)
                  (om_insert (P @ [pname @ ''.exe.manifest'']) (str_bytes t) (pf_files pfs))\<rparr>)"
proof -
  have "path_join P (pname @ ''.exe.manifest'') = P @ [pname @ ''.exe.manifest'']"
    and "path_join P (pname @ ''-manifest.rc'') = P @ [pname @ ''-manifest.rc'']"
    using assms(2-4) by (auto intro!: path_join_single)
  then show ?thesis
    using assms(1,5-7)
    by (auto simp: write_application_manifest_def io_bind_def io_render_some fs_write_def Let_def fs_is_dir_def)
qed

lemma split_after_line:
  "content = x @ v @ y @ [c] @ after \<Longrightarrow>
     take (length x + length (v @ y) + 1) content = x @ v @ y @ [c]
     \<and> drop (length x + length (v @ y) + 1) content = after"
  by simp

lemma update_new_cargo_toml_run:
  assumes "fs_read_to_string p pfs = (Inr content, pfs)" and "str_find ''version ='' content = Some vs"
    and "find_char CHR ''\<newline>'' (drop vs content) = Some off"
  shows "update_new_cargo_toml env p loc pfs =
    io_bind (io_context ''rendering cargo-extra.toml template''
               (io_render env ''cargo-extra.toml'' (TemplateData template_data_new)))
      (\<lambda>extra. fs_write p (str_bytes ((take (vs + off + 1) content @ build_line @ drop (vs + off + 1) content
                                      @ pyembed_line loc @ ''\<newline>'') @ extra))) pfs"
  using assms by (simp add: update_new_cargo_toml_def io_bind_def Let_def del: str_bytes_append)

lemma update_new_cargo_toml_ok:
  assumes "om_get p (pf_files pfs) = Some (str_bytes content)" and "valid_utf8 (str_bytes content)"
    and "content = x @ ''version ='' @ y @ ''\<newline>'' @ after"
    and "\<not> str_contains ''version ='' (x @ butlast ''version ='')" and "CHR ''\<newline>'' \<notin> set y"
    and "render env ''cargo-extra.toml'' (TemplateData template_data_new) = Some extra"
    and "fs_is_dir (butlast p) pfs" and "\<not> fs_is_dir p pfs"
  shows "update_new_cargo_toml env p loc pfs =
    (Inr (), pfs\<lparr>pf_files := om_insert p
        (str_bytes (x @ ''version ='' @ y @ ''\<newline>'' @ build_line @ after @ pyembed_line loc @ ''\<newline>'' @ extra))
        (pf_files pfs)\<rparr>)"
proof -
  have r: "fs_read_to_string p pfs = (Inr content, pfs)" using assms(1,2) by (rule fs_read_to_string_ok)
  note sp = version_line_split [OF assms(3-5)]
  note td = split_after_line [OF assms(3)]
  show ?thesis
    unfolding update_new_cargo_toml_run [OF r conjunct1 [OF sp] conjunct2 [OF sp]] conjunct1 [OF td] conjunct2 [OF td]
    by (simp add: io_bind_def io_context_def io_render_ok [OF assms(6)] fs_write_ok [OF assms(7,8)])
qed

lemma rust_lit_escape_prefix:
  "CHR 0x5C \<notin> set code \<Longrightarrow>
     rust_lit (escape_quotes code @ rest) = map_option (\<lambda>(s, r). (code @ s, r)) (rust_lit rest)"
proof (induction code)
  case Nil
  then show ?case by (simp add: escape_quotes_def option.map_ident case_prod_beta)
next
  case (Cons c cs)
  then show ?case
    by (auto simp: escape_quotes_def rust_escape_def option.map_comp comp_def case_prod_beta)
qed

subsection \<open>Properties\<close>

text \<open>C32 (functional). \<open>update_new_cargo_toml\<close> inserts the line
  \<open>build = "build.rs"\<close> right after the first line break that follows the first
  occurrence of \<open>version =\<close>, keeps everything else of the file, and appends the
  \<open>pyembed\<close> dependency line, an empty line and the rendered
  \<open>cargo-extra.toml\<close> template.\<close>

theorem update_new_cargo_toml_inserts:
  assumes "om_get p (pf_files pfs) = Some (str_bytes content)" and "valid_utf8 (str_bytes content)"
    and "content = x @ ''version ='' @ y @ ''\<newline>'' @ after"
    and "\<not> str_contains ''version ='' (x @ butlast ''version ='')" and "CHR ''\<newline>'' \<notin> set y"
    and "render env ''cargo-extra.toml'' (TemplateData template_data_new) = Some extra"
    and "fs_is_dir (butlast p) pfs" and "\<not> fs_is_dir p pfs"
  shows "update_new_cargo_toml env p loc pfs =
    (Inr (), pfs\<lparr>pf_files := om_insert p
        (str_bytes (x @ ''version ='' @ y @ ''\<newline>'' @ build_line @ after @ pyembed_line loc @ ''\<newline>'' @ extra))
        (pf_files pfs)\<rparr>)"
  using assms by (rule update_new_cargo_toml_ok)

text \<open>C33 (error). Each error of \<open>update_new_cargo_toml\<close>, with the file
  system left unchanged: a missing file, a file that is not UTF-8, no
  \<open>version =\<close> anywhere, no line break after the first \<open>version =\<close>, and a
  template that does not render.\<close>

theorem update_new_cargo_toml_errors:
  "(om_get p (pf_files pfs) = None \<longrightarrow> update_new_cargo_toml env p loc pfs = (Inl (Io p), pfs))
   \<and> (om_get p (pf_files pfs) = Some d \<and> \<not> valid_utf8 d \<longrightarrow>
        update_new_cargo_toml env p loc pfs = (Inl (NotUtf8Content p), pfs))
   \<and> (om_get p (pf_files pfs) = Some (str_bytes content) \<and> valid_utf8 (str_bytes content)
        \<and> \<not> str_contains ''version ='' content \<longrightarrow>
        update_new_cargo_toml env p loc pfs = (Inl NoVersionLine, pfs))
   \<and> (om_get p (pf_files pfs) = Some (str_bytes content) \<and> valid_utf8 (str_bytes content)
        \<and> content = x @ ''version ='' @ y \<and> \<not> str_contains ''version ='' (x @ butlast ''version ='')
        \<and> CHR ''\<newline>'' \<notin> set y \<longrightarrow>
        update_new_cargo_toml env p loc pfs = (Inl NoNewlineAfterVersion, pfs))
   \<and> (om_get p (pf_files pfs) = Some (str_bytes content) \<and> valid_utf8 (str_bytes content)
        \<and> content = x @ ''version ='' @ y @ ''\<newline>'' @ after
        \<and> \<not> str_contains ''version ='' (x @ butlast ''version ='') \<and> CHR ''\<newline>'' \<notin> set y
        \<and> render env ''cargo-extra.toml'' (TemplateData template_data_new) = None \<longrightarrow>
        update_new_cargo_toml env p loc pfs =
          (Inl (Context ''rendering cargo-extra.toml template'' (Render ''cargo-extra.toml'')), pfs))"
proof (intro conjI impI)
  assume "om_get p (pf_files pfs) = None"
  then show "update_new_cargo_toml env p loc pfs = (Inl (Io p), pfs)"
    by (simp add: update_new_cargo_toml_def fs_read_to_string_def fs_read_def io_bind_def)
next
  assume "om_get p (pf_files pfs) = Some d \<and> \<not> valid_utf8 d"
  then show "update_new_cargo_toml env p loc pfs = (Inl (NotUtf8Content p), pfs)"
    by (simp add: update_new_cargo_toml_def fs_read_to_string_def fs_read_def io_bind_def)
next
  assume a: "om_get p (pf_files pfs) = Some (str_bytes content) \<and> valid_utf8 (str_bytes content)
        \<and> \<not> str_contains ''version ='' content"
  then have r: "fs_read_to_string p pfs = (Inr content, pfs)" by (intro fs_read_to_string_ok) blast+
  from a have "str_find ''version ='' content = None" by (simp add: str_find_None)
  with r show "update_new_cargo_toml env p loc pfs = (Inl NoVersionLine, pfs)"
    by (simp add: update_new_cargo_toml_def io_bind_def)
next
  assume a: "om_get p (pf_files pfs) = Some (str_bytes content) \<and> valid_utf8 (str_bytes content)
        \<and> content = x @ ''version ='' @ y \<and> \<not> str_contains ''version ='' (x @ butlast ''version ='')
        \<and> CHR ''\<newline>'' \<notin> set y"
  then have r: "fs_read_to_string p pfs = (Inr content, pfs)" by (intro fs_read_to_string_ok) blast+
  from a have c: "content = x @ ''version ='' @ y" and nc: "\<not> str_contains ''version ='' (x @ butlast ''version ='')"
    and ny: "CHR ''\<newline>'' \<notin> set y" by blast+
  have f: "str_find ''version ='' content = Some (length x)"
    unfolding c by (rule str_find_first [OF nc]) simp
  have g: "find_char CHR ''\<newline>'' (drop (length x) content) = None"
    unfolding c using ny by (simp add: find_char_None)
  from r f g show "update_new_cargo_toml env p loc pfs = (Inl NoNewlineAfterVersion, pfs)"
    by (simp add: update_new_cargo_toml_def io_bind_def)
next
  assume a: "om_get p (pf_files pfs) = Some (str_bytes content) \<and> valid_utf8 (str_bytes content)
        \<and> content = x @ ''version ='' @ y @ ''\<newline>'' @ after
        \<and> \<not> str_contains ''version ='' (x @ butlast ''version ='') \<and> CHR ''\<newline>'' \<notin> set y
        \<and> render env ''cargo-extra.toml'' (TemplateData template_data_new) = None"
  then have r: "fs_read_to_string p pfs = (Inr content, pfs)" by (intro fs_read_to_string_ok) blast+
  from a have c: "content = x @ ''version ='' @ y @ ''\<newline>'' @ after"
    and nc: "\<not> str_contains ''version ='' (x @ butlast ''version ='')" and ny: "CHR ''\<newline>'' \<notin> set y"
    and nr: "render env ''cargo-extra.toml'' (TemplateData template_data_new) = None" by blast+
  note sp = version_line_split [OF c nc ny]
  show "update_new_cargo_toml env p loc pfs =
      (Inl (Context ''rendering cargo-extra.toml template'' (Render ''cargo-extra.toml'')), pfs)"
    unfolding update_new_cargo_toml_run [OF r conjunct1 [OF sp] conjunct2 [OF sp]]
    by (simp add: io_bind_def io_context_def io_render_fail [OF nr])
qed

text \<open>C34 (invariant). The packages \<open>write_new_cargo_lock\<close> writes are sorted
  by name; they are the packages of the frozen lock and the new project's
  package, which depends on the five crates of \<open>NEW_PROJECT_DEPENDENCIES\<close>,
  each at the version of the first package of that name in the frozen lock;
  and the sort is stable, so packages of one name keep their order and the new
  project comes after a package of the same name.\<close>

theorem new_lock_packages_result:
  assumes "new_lock_packages env pkgs pname = Inr pkgs'"
  shows "sorted (map lp_name pkgs')
    \<and> (\<exists>deps. mset pkgs' = add_mset (project_package pname deps) (mset pkgs)
         \<and> map ld_name deps = new_project_dependencies
         \<and> (\<forall>d \<in> set deps. dep_version pkgs (ld_name d) = Some (ld_version d) \<and> ld_source d = None)
         \<and> (\<forall>k. filter (\<lambda>p. lp_name p = k) pkgs' =
                 filter (\<lambda>p. lp_name p = k) pkgs @ (if k = pname then [project_package pname deps] else [])))"
proof -
  obtain deps where p: "pkgs' = sort_key lp_name (pkgs @ [project_package pname deps])"
    and d: "map ld_name deps = new_project_dependencies"
    and v: "\<forall>d \<in> set deps. dep_version pkgs (ld_name d) = Some (ld_version d) \<and> ld_source d = None"
    using new_lock_packages_Inr [OF assms] by blast
  have "\<forall>k. filter (\<lambda>p. lp_name p = k) pkgs' =
      filter (\<lambda>p. lp_name p = k) pkgs @ (if k = pname then [project_package pname deps] else [])"
    by (simp add: p sort_key_stable project_package_def)
  moreover have "mset pkgs' = add_mset (project_package pname deps) (mset pkgs)" by (simp add: p)
  ultimately show ?thesis using d v by (auto simp: p)
qed

text \<open>C35 (safety). Once \<open>cargo init\<close> has run inside the project directory,
  every file \<open>initialize_project\<close> writes and every directory it creates lies
  below the project directory, on success and on every error, when the
  directory's path has no \<open>.\<close> component after the first and its last
  component no \<open>/\<close>.\<close>

theorem initialize_project_confined:
  assumes "io_confined project_path (cargo_init env cargo_exe project_path)"
    and "''.'' \<notin> set (tl project_path)" and "CHR ''/'' \<notin> set (last project_path)"
  shows "io_confined project_path
           (initialize_project env source project_path cargo_exe code pip_inst windows_subsystem)"
  unfolding io_keeps_def
proof
  fix pfs
  have m1: "prefix project_path (path_join project_path (last project_path @ ''.exe.manifest''))"
    using assms(2,3) hd_name_suffix [OF assms(3)] by (cases "project_path = []") (auto intro!: path_join_below)
  have m2: "prefix project_path (path_join project_path (last project_path @ ''-manifest.rc''))"
    using assms(2,3) hd_name_suffix [OF assms(3)] by (cases "project_path = []") (auto intro!: path_join_below)
  have 1: "confined project_path pfs (snd (cargo_init env cargo_exe project_path pfs))"
    using assms(1) by (simp add: io_keeps_def)
  have 2: "confined project_path (snd (cargo_init env cargo_exe project_path pfs))
      (snd (initialize_project env source project_path cargo_exe code pip_inst windows_subsystem pfs))"
    by (rule initialize_project_keeps_after [OF keeps_below_confined prefix_order.refl m1 m2])
  show "confined project_path pfs
      (snd (initialize_project env source project_path cargo_exe code pip_inst windows_subsystem pfs))"
    by (rule confined_trans [OF 1 2])
qed

text \<open>C36 (roundtrip). The quote escaping of \<open>write_new_pyoxidizer_config_file\<close>
  round-trips through a double-quoted string literal with backslash escapes
  (the Starlark string syntax the template embeds the code in) when the code has
  no backslash; a code that ends in a backslash is not read back, because the
  backslash is left unescaped and swallows the closing quote.\<close>

theorem escape_quotes_roundtrip:
  "(CHR 0x5C \<notin> set code \<longrightarrow> rust_lit (escape_quotes code @ CHR 0x22 # r) = Some (code, r))
   \<and> (CHR 0x5C \<notin> set code \<longrightarrow>
        rust_lit (escape_quotes (code @ [CHR 0x5C]) @ CHR 0x22 # r) \<noteq> Some (code @ [CHR 0x5C], r))"
proof (intro conjI impI)
  assume nb: "CHR 0x5C \<notin> set code"
  show "rust_lit (escape_quotes code @ CHR 0x22 # r) = Some (code, r)"
    using rust_lit_escape_prefix [OF nb, of "CHR 0x22 # r"] by simp
  have "escape_quotes (code @ [CHR 0x5C]) @ CHR 0x22 # r = escape_quotes code @ CHR 0x5C # CHR 0x22 # r"
    by (simp add: escape_quotes_def)
  then show "rust_lit (escape_quotes (code @ [CHR 0x5C]) @ CHR 0x22 # r) \<noteq> Some (code @ [CHR 0x5C], r)"
    using rust_lit_escape_prefix [OF nb, of "CHR 0x5C # CHR 0x22 # r"]
    by (auto simp: rust_escape_def split: option.splits)
qed

text \<open>C37 (liveness). \<open>initialize_project\<close> runs to completion and leaves all
  eight files of a new project in place, when \<open>cargo init\<close> succeeds and
  leaves a \<open>Cargo.toml\<close> with a \<open>version\<close> line and a \<open>[package]\<close> but no
  PyOxidizer file and no \<open>.cargo\<close>, every template renders, the frozen lock has
  the five dependencies, and the project path is well formed.\<close>

theorem initialize_project_completes:
  assumes "cargo_init env cargo_exe P pfs = (Inr True, fs_init)"
    and "P \<noteq> []" and "''.'' \<notin> set (tl P)" and "CHR ''/'' \<notin> set (last P)" and "valid_utf8 (str_bytes (last P))"
    and "\<forall>n d. render env n d \<noteq> None"
    and "find_pyoxidizer_files P fs_init = Inr []"
    and "om_get (P @ [''Cargo.toml'']) (pf_files fs_init) = Some (str_bytes content)" and "valid_utf8 (str_bytes content)"
    and "content = x @ ''version ='' @ y @ ''\<newline>'' @ after"
    and "\<not> str_contains ''version ='' (x @ butlast ''version ='')" and "CHR ''\<newline>'' \<notin> set y"
    and "parse_cargo_manifest env (str_bytes content) = Some m" and "cm_package m \<noteq> None"
    and "frozen_lock env = Some pkgs"
    and "\<forall>dep \<in> set new_project_dependencies. valid_name env dep \<and> dep_version pkgs dep \<noteq> None"
    and "valid_name env (last P)"
    and "fs_is_dir P fs_init" and "fs_is_dir (P @ [''src'']) fs_init" and "\<not> fs_exists (P @ [''.cargo'']) fs_init"
    and "\<forall>f \<in> set (layout_files P). \<not> fs_is_dir f fs_init"
    and "valid_utf8 (str_bytes (display_path (P @ [''src'', ''main.rs''])))"
    and "valid_utf8 (str_bytes (display_path (P @ [''pyoxidizer.bzl''])))"
  shows "\<exists>fs2. initialize_project env source P cargo_exe code pip_inst windows_subsystem pfs = (Inr (), fs2)
           \<and> (\<forall>f \<in> set (layout_files P). om_contains f (pf_files fs2))"
proof -
  have fd: "\<not> fs_is_dir (P @ [''Cargo.toml'']) fs_init" "\<not> fs_is_dir (P @ [''.cargo'', ''config'']) fs_init"
    "\<not> fs_is_dir (P @ [''Cargo.lock'']) fs_init" "\<not> fs_is_dir (P @ [''build.rs'']) fs_init"
    "\<not> fs_is_dir (P @ [''src'', ''main.rs'']) fs_init" "\<not> fs_is_dir (P @ [''pyoxidizer.bzl'']) fs_init"
    "\<not> fs_is_dir (P @ [last P @ ''.exe.manifest'']) fs_init" "\<not> fs_is_dir (P @ [last P @ ''-manifest.rc'']) fs_init"
    using assms(21) by (simp_all add: layout_files_def)
  have s0: "add_pyoxidizer env P fs_init = (Inr (), fs_init)"
    using add_pyoxidizer_ok [OF assms(7,8,13,14)] .
  define c1 where "c1 = x @ ''version ='' @ y @ ''\<newline>'' @ build_line @ after
    @ pyembed_line (as_pyembed_location env source) @ ''\<newline>'' @ the (render env ''cargo-extra.toml'' (TemplateData template_data_new))"
  define fs2 where "fs2 = fs_init\<lparr>pf_files := om_insert (P @ [''Cargo.toml'']) (str_bytes c1) (pf_files fs_init)\<rparr>"
  have s1: "update_new_cargo_toml env (P @ [''Cargo.toml'']) (as_pyembed_location env source) fs_init = (Inr (), fs2)"
    unfolding fs2_def c1_def
    by (rule update_new_cargo_toml_ok [OF assms(8-12)]) (use assms(6,18) fd in auto)
  define fs3 where "fs3 = fs2\<lparr>pf_dirs := pf_dirs fs2 @ [P @ [''.cargo'']],
    pf_files := om_insert (P @ [''.cargo'', ''config''])
                  (str_bytes (the (render env ''new-cargo-config'' (StringMap [])))) (pf_files fs2)\<rparr>"
  have s2: "write_new_cargo_config env P fs2 = (Inr (), fs3)"
    unfolding fs3_def
    by (rule write_new_cargo_config_ok) (use assms(6,18,20) fd in \<open>auto simp: fs2_def fs_is_dir_def fs_exists_def om_contains_def\<close>)
  obtain pkgs' where np: "new_lock_packages env pkgs (last P) = Inr pkgs'"
    using new_lock_packages_ok [OF assms(16,17)] by blast
  define fs4 where "fs4 = fs3\<lparr>pf_files := om_insert (P @ [''Cargo.lock'']) (str_bytes (lock_to_string env pkgs')) (pf_files fs3)\<rparr>"
  have s3: "write_new_cargo_lock env P (last P) fs3 = (Inr (), fs4)"
    unfolding fs4_def
    by (rule write_new_cargo_lock_ok [OF assms(15) np]) (use assms(18) fd in \<open>auto simp: fs3_def fs2_def fs_is_dir_def\<close>)
  obtain t5 where s4: "write_new_build_rs env (P @ [''build.rs'']) (last P) fs4 =
      (Inr (), fs4\<lparr>pf_files := om_insert (P @ [''build.rs'']) (str_bytes t5) (pf_files fs4)\<rparr>)"
    using write_template_file_ok(1) [OF assms(6), of "P @ [''build.rs'']" fs4] assms(18) fd
    by (auto simp: fs4_def fs3_def fs2_def fs_is_dir_def)
  define fs5 where "fs5 = fs4\<lparr>pf_files := om_insert (P @ [''build.rs'']) (str_bytes t5) (pf_files fs4)\<rparr>"
  obtain t6 where s5: "write_new_main_rs env (P @ [''src'', ''main.rs'']) windows_subsystem fs5 =
      (Inr (), fs5\<lparr>pf_files := om_insert (P @ [''src'', ''main.rs'']) (str_bytes t6) (pf_files fs5)\<rparr>)"
    using write_template_file_ok(2) [OF assms(6), of "P @ [''src'', ''main.rs'']" fs5] assms(19,22) fd
    by (auto simp: fs5_def fs4_def fs3_def fs2_def fs_is_dir_def butlast_append)
  define fs6 where "fs6 = fs5\<lparr>pf_files := om_insert (P @ [''src'', ''main.rs'']) (str_bytes t6) (pf_files fs5)\<rparr>"
  have "\<exists>t7. write_new_pyoxidizer_config_file env source P (last P) code pip_inst fs6 =
      (Inr (), fs6\<lparr>pf_files := om_insert (P @ [''pyoxidizer.bzl'']) (str_bytes t7) (pf_files fs6)\<rparr>)"
    by (rule write_pyoxidizer_config_ok [OF assms(6)])
       (use assms(18,23) fd in \<open>auto simp: fs6_def fs5_def fs4_def fs3_def fs2_def fs_is_dir_def\<close>)
  then obtain t7 where s6: "write_new_pyoxidizer_config_file env source P (last P) code pip_inst fs6 =
      (Inr (), fs6\<lparr>pf_files := om_insert (P @ [''pyoxidizer.bzl'']) (str_bytes t7) (pf_files fs6)\<rparr>)"
    by blast
  define fs7 where "fs7 = fs6\<lparr>pf_files := om_insert (P @ [''pyoxidizer.bzl'']) (str_bytes t7) (pf_files fs6)\<rparr>"
  obtain t8 u8 where s7: "write_application_manifest env P (last P) fs7 =
      (Inr (), fs7\<lparr>pf_files := om_insert (P @ [last P @ ''-manifest.rc'']) (str_bytes u8)
                    (om_insert (P @ [last P @ ''.exe.manifest'']) (str_bytes t8) (pf_files fs7))\<rparr>)"
    using write_application_manifest_ok [OF assms(6,2,3,4), of fs7] assms(18) fd
    by (auto simp: fs7_def fs6_def fs5_def fs4_def fs3_def fs2_def fs_is_dir_def)
  have run: "initialize_project env source P cargo_exe code pip_inst windows_subsystem pfs =
      (Inr (), fs7\<lparr>pf_files := om_insert (P @ [last P @ ''-manifest.rc'']) (str_bytes u8)
                    (om_insert (P @ [last P @ ''.exe.manifest'']) (str_bytes t8) (pf_files fs7))\<rparr>)"
    using assms(1,2,5)
    by (simp add: initialize_project_def io_bind_def io_context_def Let_def s0 s1 s2 s3 s4 s5 s6 s7
        fs5_def [symmetric] fs6_def [symmetric] fs7_def [symmetric])
  show ?thesis
    by (rule exI, rule conjI [OF run])
       (simp add: layout_files_def om_contains_def fs7_def fs6_def fs5_def fs4_def fs3_def fs2_def)
qed

end
