(* ===== verification/Project_Scenarios.thy ===== *)
theory Project_Scenarios
  imports Project_Layout
begin

text \<open>
  A new project \<open>/work/app\<close> created by \<open>initialize_project\<close>: \<open>cargo init\<close>
  creates the project and \<open>src\<close> directories and a \<open>Cargo.toml\<close>; every template
  renders to a one-line comment naming it; the frozen lock has the five
  dependencies and an older package \<open>app\<close>.  The theorems evaluate the
  operations of \<open>Project_Layout\<close> on these inputs and apply its general
  properties to them.
\<close>

definition app_path :: path where
  "app_path = [''/'', ''work'', ''app'']"

definition app_cargo_toml :: string where
  "app_cargo_toml = ''[package]\<newline>name = \"app\"\<newline>version = \"0.1.0\"\<newline>edition = \"2021\"\<newline>\<newline>[dependencies]\<newline>''"

definition lock_pkg :: "string \<Rightarrow> string \<Rightarrow> lock_package" where
  "lock_pkg n v = \<lparr>lp_name = n, lp_version = v, lp_source = None, lp_checksum = None,
                   lp_dependencies = [], lp_replace = None\<rparr>"

definition frozen_packages :: "lock_package list" where
  "frozen_packages =
     [lock_pkg ''pyembed'' ''0.17.0'', lock_pkg ''embed-resource'' ''1.6.3'', lock_pkg ''jemallocator'' ''0.3.2'',
      lock_pkg ''mimalloc'' ''0.1.26'', lock_pkg ''snmalloc-rs'' ''0.2.28'', lock_pkg ''app'' ''0.0.1'']"

definition app_init :: "path \<Rightarrow> path \<Rightarrow> bool pl_io" where
  "app_init exe p pfs =
     (Inr True, pfs\<lparr>pf_dirs := pf_dirs pfs @ [p, p @ [''src'']],
                    pf_files := om_insert (p @ [''Cargo.toml'']) (str_bytes app_cargo_toml) (pf_files pfs)\<rparr>)"

definition app_env :: layout_env where
  "app_env =
     \<lparr>pyoxidizer_version = ''0.17.0'', build_git_commit = None,
      render = (\<lambda>n d. Some (''// '' @ n @ ''\<newline>'')), frozen_lock = Some frozen_packages,
      valid_name = (\<lambda>s. s \<noteq> []), lock_to_string = (\<lambda>ps. concat (map (\<lambda>p. lp_name p @ ''\<newline>'') ps)),
      parse_cargo_manifest = (\<lambda>b. Some \<lparr>cm_package = Some ''app''\<rparr>),
      as_pyembed_location = (\<lambda>_. Version ''0.17.0''), cargo_init = app_init\<rparr>"

definition app_fs0 :: project_fs where
  "app_fs0 = \<lparr>pf_files = [], pf_dirs = [[''/''], [''/'', ''work'']]\<rparr>"

definition app_fs1 :: project_fs where
  "app_fs1 = \<lparr>pf_files = [([''/'', ''work'', ''app'', ''Cargo.toml''], str_bytes app_cargo_toml)],
              pf_dirs = [[''/''], [''/'', ''work''], [''/'', ''work'', ''app''], [''/'', ''work'', ''app'', ''src'']]\<rparr>"

text \<open>A \<open>Cargo.toml\<close> whose \<open>rust-version\<close> line comes before its \<open>version\<close>
  line, and two that \<open>update_new_cargo_toml\<close> refuses.\<close>

definition rust_version_fs :: project_fs where
  "rust_version_fs =
     \<lparr>pf_files = [([''/'', ''work'', ''app'', ''Cargo.toml''],
        str_bytes (''[package]\<newline>rust-'' @ ''version ='' @ '' \"1.56\"'' @ ''\<newline>'' @ ''version = \"0.1.0\"\<newline>''))],
      pf_dirs = [[''/''], [''/'', ''work''], [''/'', ''work'', ''app'']]\<rparr>"

definition no_version_fs :: project_fs where
  "no_version_fs = \<lparr>pf_files = [([''/'', ''work'', ''app'', ''Cargo.toml''], str_bytes ''[package]\<newline>'')],
                    pf_dirs = [[''/''], [''/'', ''work''], [''/'', ''work'', ''app'']]\<rparr>"

definition no_newline_fs :: project_fs where
  "no_newline_fs = \<lparr>pf_files = [([''/'', ''work'', ''app'', ''Cargo.toml''], str_bytes ''[package]\<newline>version = 1'')],
                    pf_dirs = [[''/''], [''/'', ''work''], [''/'', ''work'', ''app'']]\<rparr>"

subsection \<open>Evaluation\<close>

lemma app_init_run: "app_init [''cargo''] app_path app_fs0 = (Inr True, app_fs1)"
  by (simp add: app_init_def app_fs0_def app_fs1_def app_path_def)

lemma app_init_confined: "io_confined app_path (app_init exe app_path)"
  by (auto simp: io_keeps_def confined_def app_init_def split: if_splits)

lemma app_no_pyoxidizer_files: "find_pyoxidizer_files app_path app_fs1 = Inr []"
  by (simp add: find_pyoxidizer_files_def walk_tree_files_def app_fs1_def app_path_def om_keys_def
      display_path_def valid_utf8_str_bytes_Cons)

lemma app_cargo_toml_utf8: "valid_utf8 (str_bytes app_cargo_toml)"
  by (simp add: app_cargo_toml_def valid_utf8_str_bytes_Cons)

lemma frozen_deps: "\<forall>dep \<in> set new_project_dependencies. valid_name app_env dep \<and> dep_version frozen_packages dep \<noteq> None"
  by (simp add: new_project_dependencies_def app_env_def dep_version_def frozen_packages_def lock_pkg_def)

subsection \<open>Witnesses of the project layout's properties\<close>

theorem update_new_cargo_toml_inserts_witness:
  "update_new_cargo_toml app_env [''/'', ''work'', ''app'', ''Cargo.toml''] (Version ''0.17.0'') rust_version_fs =
     (Inr (), rust_version_fs\<lparr>pf_files := om_insert [''/'', ''work'', ''app'', ''Cargo.toml'']
        (str_bytes (''[package]\<newline>rust-'' @ ''version ='' @ '' \"1.56\"'' @ ''\<newline>'' @ build_line
                    @ ''version = \"0.1.0\"\<newline>'' @ pyembed_line (Version ''0.17.0'') @ ''\<newline>''
                    @ ''// cargo-extra.toml\<newline>''))
        (pf_files rust_version_fs)\<rparr>)"
  by (rule update_new_cargo_toml_inserts)
     (simp_all add: rust_version_fs_def valid_utf8_str_bytes_Cons app_env_def fs_is_dir_def)

theorem update_new_cargo_toml_errors_witness:
  "update_new_cargo_toml app_env [''/'', ''work'', ''app'', ''Cargo.toml''] (Version ''1'') no_version_fs =
     (Inl NoVersionLine, no_version_fs)
   \<and> update_new_cargo_toml app_env [''/'', ''work'', ''app'', ''Cargo.toml''] (Version ''1'') no_newline_fs =
     (Inl NoNewlineAfterVersion, no_newline_fs)"
proof
  note e = update_new_cargo_toml_errors
    [where env = app_env and p = "[''/'', ''work'', ''app'', ''Cargo.toml'']" and loc = "Version ''1''"]
  show "update_new_cargo_toml app_env [''/'', ''work'', ''app'', ''Cargo.toml''] (Version ''1'') no_version_fs =
     (Inl NoVersionLine, no_version_fs)"
    using e [where pfs = no_version_fs and content = "''[package]\<newline>''", THEN conjunct2, THEN conjunct2,
        THEN conjunct1]
    by (simp add: no_version_fs_def valid_utf8_str_bytes_Cons)
  show "update_new_cargo_toml app_env [''/'', ''work'', ''app'', ''Cargo.toml''] (Version ''1'') no_newline_fs =
     (Inl NoNewlineAfterVersion, no_newline_fs)"
    using e [where pfs = no_newline_fs and content = "''[package]\<newline>version = 1''"
        and x = "''[package]\<newline>''" and y = "'' 1''", THEN conjunct2, THEN conjunct2, THEN conjunct2,
        THEN conjunct1]
    by (simp add: no_newline_fs_def valid_utf8_str_bytes_Cons)
qed

theorem new_lock_packages_result_witness:
  "\<exists>pkgs'. new_lock_packages app_env frozen_packages ''app'' = Inr pkgs' \<and> sorted (map lp_name pkgs')
     \<and> map lp_version (filter (\<lambda>p. lp_name p = ''app'') pkgs') = [''0.0.1'', ''0.1.0'']"
proof -
  obtain pkgs' where np: "new_lock_packages app_env frozen_packages ''app'' = Inr pkgs'"
    using new_lock_packages_ok [OF frozen_deps] by (auto simp: app_env_def)
  from new_lock_packages_result [OF np] obtain deps where
    "sorted (map lp_name pkgs')"
    "filter (\<lambda>p. lp_name p = ''app'') pkgs' =
       filter (\<lambda>p. lp_name p = ''app'') frozen_packages @ [project_package ''app'' deps]"
    by auto
  with np show ?thesis
    by (simp add: frozen_packages_def lock_pkg_def project_package_def)
qed

theorem initialize_project_confined_witness:
  "io_confined app_path
     (initialize_project app_env (GitUrl ''https://github.com/indygreg/PyOxidizer.git'' None None) app_path
        [''cargo''] None [] ''console'')"
proof (rule initialize_project_confined)
  show "io_confined app_path (cargo_init app_env [''cargo''] app_path)"
    by (simp add: app_env_def app_init_confined)
qed (simp_all add: app_path_def)

theorem escape_quotes_roundtrip_witness:
  "rust_lit (escape_quotes ''print(\"hi\")'' @ CHR 0x22 # '';'') = Some (''print(\"hi\")'', '';'')
   \<and> rust_lit (escape_quotes (''a'' @ [CHR 0x5C]) @ CHR 0x22 # []) \<noteq> Some (''a'' @ [CHR 0x5C], [])"
  using escape_quotes_roundtrip [of "''print(\"hi\")''" "'';''"] escape_quotes_roundtrip [of "''a''" "[]"]
  by simp

theorem initialize_project_completes_witness:
  "\<exists>fs2. initialize_project app_env (GitUrl ''https://github.com/indygreg/PyOxidizer.git'' None None) app_path
           [''cargo''] None [] ''console'' app_fs0 = (Inr (), fs2)
     \<and> list_all (\<lambda>f. om_contains f (pf_files fs2)) (layout_files app_path)"
proof -
  have "\<exists>fs2. initialize_project app_env (GitUrl ''https://github.com/indygreg/PyOxidizer.git'' None None) app_path
           [''cargo''] None [] ''console'' app_fs0 = (Inr (), fs2)
     \<and> (\<forall>f \<in> set (layout_files app_path). om_contains f (pf_files fs2))"
  proof (rule initialize_project_completes [where fs_init = app_fs1 and content = app_cargo_toml
        and x = "''[package]\<newline>name = \"app\"\<newline>''" and y = "'' \"0.1.0\"''"
        and after = "''edition = \"2021\"\<newline>\<newline>[dependencies]\<newline>''"
        and m = "\<lparr>cm_package = Some ''app''\<rparr>" and pkgs = frozen_packages])
    show "cargo_init app_env [''cargo''] app_path app_fs0 = (Inr True, app_fs1)"
      by (simp add: app_env_def app_init_run)
    show "find_pyoxidizer_files app_path app_fs1 = Inr []" by (rule app_no_pyoxidizer_files)
    show "valid_utf8 (str_bytes app_cargo_toml)" by (rule app_cargo_toml_utf8)
    show "\<forall>dep \<in> set new_project_dependencies. valid_name app_env dep \<and> dep_version frozen_packages dep \<noteq> None"
      by (rule frozen_deps)
  qed (simp_all add: app_env_def app_path_def app_fs1_def app_cargo_toml_def fs_is_dir_def fs_exists_def
        om_contains_def layout_files_def display_path_def valid_utf8_str_bytes_Cons)
  then show ?thesis by (simp add: list_all_iff)
qed



end
