(* ===== verification/Artifacts.thy ===== *)
theory Artifacts
  imports Orchestrator
begin

text \<open>
  \<open>process_config_and_copy_artifacts\<close> (\<open>repackage.rs\<close>, lines 1302-1371):
  the host triple chosen by the operating system the program was built for,
  the creation and canonicalisation of the build and output directories,
  \<open>process_config\<close> run in the canonical build directory, the five copies of
  artifacts into the canonical output directory, and the \<open>PythonConfig\<close> source
  derived again for the output paths as given.  The host file system's
  \<open>create_dir_all\<close> and \<open>canonicalize\<close> are the fields of \<open>host_fs\<close>; each
  \<open>expect\<close> and the \<open>panic!\<close> of an unknown host are the constructors of
  \<open>artifact_error\<close>, an error of \<open>process_config\<close> (which panics) is
  \<open>ProcessConfigFailed\<close>.  The model's \<open>process_config\<close> takes the target from
  its environment, so the host triple is computed for its panic only.
\<close>

datatype artifact_error =
    UnknownHostOS
  | CreateDirFailed path
  | CanonicalizeFailed path
  | ProcessConfigFailed error

datatype artifact_action =
    CreateDirAll path
  | BuildStep build_action
  | CopyFile path path

record host_fs =
  host_os :: target_os
  create_dir_all_ok :: "path \<Rightarrow> bool"
  canonicalize :: "path \<Rightarrow> path option"

definition host_triple :: "target_os \<Rightarrow> artifact_error + string" where
  "host_triple host =
     (case host of
        Linux \<Rightarrow> Inr ''x86_64-unknown-linux-gnu''
      | Windows \<Rightarrow> Inr ''x86_64-pc-windows-msvc''
      | MacOS \<Rightarrow> Inr ''x86_64-apple-darwin''
      | OtherOS \<Rightarrow> Inl UnknownHostOS)"

definition process_config_and_copy_artifacts ::
  "env \<Rightarrow> collaborators \<Rightarrow> host_fs \<Rightarrow> path \<Rightarrow> path \<Rightarrow> path
     \<Rightarrow> artifact_error + artifact_action list \<times> embedded_python_config" where
  "process_config_and_copy_artifacts e c h config_path build_dir out_dir =
     (case host_triple (host_os h) of
        Inl err \<Rightarrow> Inl err
      | Inr _ \<Rightarrow>
     if \<not> create_dir_all_ok h build_dir then Inl (CreateDirFailed build_dir) else
     (case canonicalize h build_dir of
        None \<Rightarrow> Inl (CanonicalizeFailed build_dir)
      | Some build_dir' \<Rightarrow>
     if \<not> create_dir_all_ok h out_dir then Inl (CreateDirFailed out_dir) else
     (case canonicalize h out_dir of
        None \<Rightarrow> Inl (CanonicalizeFailed out_dir)
      | Some out_dir' \<Rightarrow>
     (case process_config e c config_path build_dir' of
        Inl err \<Rightarrow> Inl (ProcessConfigFailed err)
      | Inr (acts, epc) \<Rightarrow>
     (let ib = out_dir' @ [''importlib_bootstrap''];
          ibe = out_dir' @ [''importlib_bootstrap_external''];
          mp = out_dir' @ [''py-modules''];
          bp = out_dir' @ [''pyc-modules''];
          lp = out_dir' @ [''libpythonXY.a''];
          rs = derive_python_config (epc_config epc) (out_dir @ [''importlib_bootstrap''])
                 (out_dir @ [''importlib_bootstrap_external'']) (out_dir @ [''py-modules''])
                 (out_dir @ [''pyc-modules'']) in
      Inr ([CreateDirAll build_dir, CreateDirAll out_dir] @ map BuildStep acts
           @ [CopyFile (epc_importlib_bootstrap_path epc) ib,
              CopyFile (epc_importlib_bootstrap_external_path epc) ibe,
              CopyFile (epc_py_modules_path epc) mp,
              CopyFile (epc_pyc_modules_path epc) bp,
              CopyFile (epc_libpython_path epc) lp],
           epc\<lparr>epc_importlib_bootstrap_path := ib, epc_importlib_bootstrap_external_path := ibe,
               epc_py_modules_path := mp, epc_pyc_modules_path := bp, epc_libpython_path := lp,
               epc_python_config_rs := rs\<rparr>))))))"

subsection \<open>Lemmas\<close>

lemma copy_artifacts_Inr:
  assumes "process_config_and_copy_artifacts e c h config_path build_dir out_dir = Inr (acts, epc)"
  obtains bd od acts0 epc0 where
    "canonicalize h build_dir = Some bd" "canonicalize h out_dir = Some od"
    "process_config e c config_path bd = Inr (acts0, epc0)"
    "acts = [CreateDirAll build_dir, CreateDirAll out_dir] @ map BuildStep acts0
       @ [CopyFile (epc_importlib_bootstrap_path epc0) (od @ [''importlib_bootstrap'']),
          CopyFile (epc_importlib_bootstrap_external_path epc0) (od @ [''importlib_bootstrap_external'']),
          CopyFile (epc_py_modules_path epc0) (od @ [''py-modules'']),
          CopyFile (epc_pyc_modules_path epc0) (od @ [''pyc-modules'']),
          CopyFile (epc_libpython_path epc0) (od @ [''libpythonXY.a''])]"
    "epc = epc0\<lparr>epc_importlib_bootstrap_path := od @ [''importlib_bootstrap''],
        epc_importlib_bootstrap_external_path := od @ [''importlib_bootstrap_external''],
        epc_py_modules_path := od @ [''py-modules''], epc_pyc_modules_path := od @ [''pyc-modules''],
        epc_libpython_path := od @ [''libpythonXY.a''],
        epc_python_config_rs := derive_python_config (epc_config epc0) (out_dir @ [''importlib_bootstrap''])
          (out_dir @ [''importlib_bootstrap_external'']) (out_dir @ [''py-modules'']) (out_dir @ [''pyc-modules''])\<rparr>"
  using assms
  by (auto simp: process_config_and_copy_artifacts_def Let_def
      split: sum.splits option.splits if_splits prod.splits intro!: that)

subsection \<open>Properties\<close>

text \<open>C40 (functional). A successful \<open>process_config_and_copy_artifacts\<close>
  creates both directories, runs \<open>process_config\<close> in the canonical build
  directory, then copies the two \<open>importlib\<close> bytecodes and the two blobs from
  there, and \<open>libpythonXY.a\<close> from where the linker put it, into the canonical
  output directory.  The configuration it returns names the copies, except the
  module names file, which is not copied and stays in the build directory, and
  its \<open>PythonConfig\<close> source names the output files by the output directory as
  given, not canonicalised.\<close>

theorem copy_artifacts_result:
  assumes "process_config_and_copy_artifacts e c h config_path build_dir out_dir = Inr (acts, epc)"
  shows "\<exists>bd od acts0 epc0.
    canonicalize h build_dir = Some bd \<and> canonicalize h out_dir = Some od
    \<and> process_config e c config_path bd = Inr (acts0, epc0)
    \<and> acts = [CreateDirAll build_dir, CreateDirAll out_dir] @ map BuildStep acts0
         @ [CopyFile (bd @ [''importlib_bootstrap'']) (od @ [''importlib_bootstrap'']),
            CopyFile (bd @ [''importlib_bootstrap_external'']) (od @ [''importlib_bootstrap_external'']),
            CopyFile (bd @ [''py-modules'']) (od @ [''py-modules'']),
            CopyFile (bd @ [''pyc-modules'']) (od @ [''pyc-modules'']),
            CopyFile (epc_libpython_path epc0) (od @ [''libpythonXY.a''])]
    \<and> epc_libpython_path epc = od @ [''libpythonXY.a'']
    \<and> epc_module_names_path epc = bd @ [''py-module-names'']
    \<and> epc_python_config_rs epc =
        derive_python_config (epc_config epc) (out_dir @ [''importlib_bootstrap''])
          (out_dir @ [''importlib_bootstrap_external'']) (out_dir @ [''py-modules'']) (out_dir @ [''pyc-modules''])
    \<and> epc_config epc = epc_config epc0 \<and> epc_cargo_metadata epc = epc_cargo_metadata epc0"
proof -
  obtain bd od acts0 epc0 where b: "canonicalize h build_dir = Some bd" and o: "canonicalize h out_dir = Some od"
    and p: "process_config e c config_path bd = Inr (acts0, epc0)"
    and a: "acts = [CreateDirAll build_dir, CreateDirAll out_dir] @ map BuildStep acts0
       @ [CopyFile (epc_importlib_bootstrap_path epc0) (od @ [''importlib_bootstrap'']),
          CopyFile (epc_importlib_bootstrap_external_path epc0) (od @ [''importlib_bootstrap_external'']),
          CopyFile (epc_py_modules_path epc0) (od @ [''py-modules'']),
          CopyFile (epc_pyc_modules_path epc0) (od @ [''pyc-modules'']),
          CopyFile (epc_libpython_path epc0) (od @ [''libpythonXY.a''])]"
    and r: "epc = epc0\<lparr>epc_importlib_bootstrap_path := od @ [''importlib_bootstrap''],
        epc_importlib_bootstrap_external_path := od @ [''importlib_bootstrap_external''],
        epc_py_modules_path := od @ [''py-modules''], epc_pyc_modules_path := od @ [''pyc-modules''],
        epc_libpython_path := od @ [''libpythonXY.a''],
        epc_python_config_rs := derive_python_config (epc_config epc0) (out_dir @ [''importlib_bootstrap''])
          (out_dir @ [''importlib_bootstrap_external'']) (out_dir @ [''py-modules'']) (out_dir @ [''pyc-modules''])\<rparr>"
    using copy_artifacts_Inr [OF assms] by blast
  note paths = process_config_paths [OF p]
  show ?thesis
    using b o p by (intro exI [of _ bd] exI [of _ od] exI [of _ acts0] exI [of _ epc0]) (simp add: a r paths)
qed

end
