(* ===== verification/Artifacts_Scenarios.thy ===== *)
theory Artifacts_Scenarios
  imports Artifacts Orchestrator_Scenarios
begin

text \<open>
  \<open>process_config_and_copy_artifacts\<close> on the build script scenario of
  \<open>Orchestrator_Scenarios\<close>, on a Linux host where the build directory
  \<open>build\<close> canonicalises to \<open>/work/out\<close> and the output directory \<open>dist\<close> to
  \<open>/work/dist\<close>.
\<close>

definition o_host :: host_fs where
  "o_host = \<lparr>host_os = Linux, create_dir_all_ok = (\<lambda>_. True),
     canonicalize = (\<lambda>p. Some (if p = [''build''] then [''/'', ''work'', ''out''] else [''/'', ''work'', ''dist'']))\<rparr>"

lemma o_copy_runs:
  "\<exists>acts epc. process_config_and_copy_artifacts o_env o_collab o_host o_config_path [''build''] [''dist''] = Inr (acts, epc)"
proof -
  obtain acts0 epc0 where "process_config o_env o_collab o_config_path o_out_dir = Inr (acts0, epc0)"
    using o_process by blast
  then show ?thesis
    by (simp add: process_config_and_copy_artifacts_def host_triple_def o_host_def o_out_dir_def Let_def)
qed

theorem copy_artifacts_result_witness:
  "\<exists>acts epc. process_config_and_copy_artifacts o_env o_collab o_host o_config_path [''build''] [''dist''] = Inr (acts, epc)
     \<and> epc_module_names_path epc = [''/'', ''work'', ''out'', ''py-module-names'']
     \<and> epc_libpython_path epc = [''/'', ''work'', ''dist'', ''libpythonXY.a'']"
proof -
  obtain acts epc where r: "process_config_and_copy_artifacts o_env o_collab o_host o_config_path [''build''] [''dist'']
      = Inr (acts, epc)"
    using o_copy_runs by blast
  from copy_artifacts_result [OF r] have
    "epc_module_names_path epc = [''/'', ''work'', ''out'', ''py-module-names'']
     \<and> epc_libpython_path epc = [''/'', ''work'', ''dist'', ''libpythonXY.a'']"
    by (auto simp: o_host_def)
  with r show ?thesis by blast
qed

end
