(* ===== verification/Spec2Isabelle.thy ===== *)
theory Spec2Isabelle
  imports Blob Scenarios Tar_Scenarios Orchestrator_Scenarios Project_Scenarios Artifacts_Scenarios
begin

text \<open>
  \<^bold>\<open>A verification model of PyOxidizer's repackaging engine.\<close>

  The program: \<open>src/pyoxidizer/src/pyrepackager/repackage.rs\<close> turns a packaging
  configuration and a prebuilt Python distribution into the artifacts of an
  embedded interpreter.  \<open>resolve_python_packaging\<close> turns one packaging rule
  into a list of add actions; \<open>resolve_python_resources\<close> applies the rules in
  order to staging maps, closes them under required extensions, removes the
  target's ignored extensions and compiles the surviving bytecode requests;
  \<open>write_blob_entries\<close> serialises module sources and bytecode;
  \<open>make_config_c\<close> emits the built-in extension table and \<open>link_libpython\<close>
  stages the objects and libraries of \<open>libpythonXY\<close>.  Every \<open>BTreeMap\<close> is
  iterated in key order, so the outputs are deterministic.

  \<^bold>\<open>Theories.\<close>
  \<^item> \<open>Prelude\<close>: bytes, paths (\<open>display_path\<close>, \<open>path_of_str\<close> for
    \<open>Path::new\<close> with its normalisation of \<open>.\<close> and empty components), the
    little-endian \<open>u32\<close> encoding with the \<open>as u32\<close> cast (\<open>as_u32\<close>, wrapping
    modulo \<open>2^32\<close>), \<open>starts_with\<close>, \<open>contains\<close>, \<open>find\<close>, \<open>split\<close>,
    \<open>Path::ends_with\<close>, \<open>str::lines\<close> (\<open>split_lines\<close>), \<open>join\<close>, the UTF-8
    validity check of \<open>String::from_utf8\<close> (\<open>valid_utf8\<close>, closed under
    concatenation), and the loop combinators \<open>concat_map_e\<close>/\<open>fold_e\<close> for
    loops that stop at the first error (\<open>?\<close> and \<open>expect\<close>).
  \<^item> \<open>Ordered_Map\<close>: \<open>BTreeMap\<close> as a strictly sorted association list, with
    its invariant \<open>om_wf\<close> and a refinement \<open>om_lookup\<close> to partial maps.
  \<^item> \<open>Blob\<close>: \<open>BlobEntry\<close>, \<open>write_blob_entries\<close> and the reader of the
    runtime loader (modelled from the layout of the specification), and where
    the writer puts each entry's index pair, name and data.
  \<^item> \<open>Resources\<close>: the constant tables, \<open>is_stdlib_test_package\<close>,
    \<open>PythonResource\<close>, \<open>PythonResources\<close>, the names file reader (with
    the UTF-8 error of \<open>BufRead::lines\<close>),
    \<open>filter_btreemap\<close>, and the environment record \<open>env\<close> whose fields
    are the file system, directory scan, \<open>pip\<close>, \<open>glob\<close>, the bytecode
    compiler and the target.
  \<^item> \<open>Resolver\<close>: every arm of \<open>resolve_python_packaging\<close>.
  \<^item> \<open>Reducer\<close>: \<open>resolve_python_resources\<close> (the staging record, the
    action switch, the filter rules, \<open>add_required\<close>, \<open>remove_ignored\<close>,
    \<open>compile_bytecodes\<close>) and an abstract staging semantics over partial maps.
  \<^item> \<open>ConfigC\<close>: \<open>make_config_c\<close>, and a reader of the \<open>config.c\<close> it
    emits (\<open>parse_config_c\<close>: the \<open>extern\<close> declarations, the rows of
    \<open>_PyImport_Inittab\<close> and its sentinel), which states what the file says.
  \<^item> \<open>Linker\<close>: \<open>link_libpython\<close> as the list of file and compile actions it
    performs and the cargo metadata it returns.
  \<^item> \<open>Orchestrator\<close>: the rest of \<open>repackage.rs\<close>: \<open>write_blobs\<close> (the
    names file and the two blobs), \<open>derive_importlib\<close>,
    \<open>derive_python_config\<close> (the generated Rust source, character for
    character) and \<open>write_data_rs\<close>, \<open>process_config\<close> (every file it writes
    as a \<open>build_action\<close>, in order, and the \<open>EmbeddedPythonConfig\<close> it
    returns), \<open>find_pyoxidizer_config_file\<close> (its loop over \<open>Path::ancestors\<close>
    as the \<open>partial_function\<close> \<open>search_ancestors\<close>, which repeats
    \<open>Path::parent\<close>) and \<open>run_from_build\<close>, which
    returns the cargo directives it printed together with its result, so that
    the lines printed before a panic are part of the model.  A small lexer of
    Rust string literals (\<open>rust_lit\<close>) reads the generated source back.
    \<open>parse_config\<close>, the distribution download and its analysis are the
    fields of the record \<open>collaborators\<close>.
  \<^item> \<open>Tar\<close>: \<open>tugger-rust-toolchain/src/tar.rs\<close>: \<open>PackageArchive::new\<close>
    over the entries a tar reader yields (the reader and the decompressor are a
    parameter), the \<open>FileManifest\<close> checks of \<open>add_file_entry\<close> (modelled from
    that crate's documented behaviour, it is not in the repository), the
    executable-bit test on the 32-bit mode, the installer version check, the
    \<open>manifest.in\<close> parser and \<open>install\<close> as the list of writes it performs.
  \<^item> \<open>Project_FS\<close>: the file system a new project is written to (files by
    path, directories), the error monad \<open>'a pl_io\<close> (\<open>io_bind\<close> for \<open>?\<close>,
    \<open>io_context\<close> for \<open>.context\<close>) that returns the file system after an error
    as well as after success, the \<open>std::fs\<close> primitives with their failures,
    \<open>str::find\<close> as a search loop (\<open>find_from\<close>, a \<open>function\<close> whose
    termination measure is the distance to the end of the text), and
    relations between file systems that an operation keeps (\<open>io_keeps\<close>), closed
    under \<open>io_bind\<close> for preorders, used for the confinement of the effects
    to a directory.
  \<^item> \<open>Project_Layout\<close>: \<open>src/pyoxidizer/src/project_layout.rs\<close>, every
    function: \<open>populate_template_data\<close>, \<open>find_pyoxidizer_files\<close>,
    \<open>write_new_cargo_config\<close>, \<open>write_new_cargo_lock\<close> (its dependency
    lookup, push and stable \<open>sort_by\<close> as \<open>new_lock_packages\<close>),
    \<open>write_new_build_rs\<close>, \<open>write_new_main_rs\<close>,
    \<open>write_new_pyoxidizer_config_file\<close> (with the quote escaping
    \<open>escape_quotes\<close>), \<open>write_application_manifest\<close>, \<open>add_pyoxidizer\<close>,
    \<open>PyembedLocation::cargo_manifest_fields\<close>, \<open>update_new_cargo_toml\<close> and
    \<open>initialize_project\<close>, which runs them in order with their context
    messages.  The Handlebars templates, the frozen \<open>Cargo.lock\<close>, the
    \<open>cargo_lock\<close> and \<open>cargo_toml\<close> crates and \<open>cargo init\<close> are the fields of
    the record \<open>layout_env\<close>.
  \<^item> \<open>Artifacts\<close>: \<open>process_config_and_copy_artifacts\<close>: the host triple, the
    creation and canonicalisation of the build and output directories (the
    host's \<open>create_dir_all\<close> and \<open>canonicalize\<close> are the record \<open>host_fs\<close>),
    \<open>process_config\<close> in the build directory and the copies of its artifacts,
    as a list of \<open>artifact_action\<close>s.
  \<^item> \<open>Scenarios\<close>, \<open>Tar_Scenarios\<close>, \<open>Orchestrator_Scenarios\<close>,
    \<open>Project_Scenarios\<close>, \<open>Artifacts_Scenarios\<close>: the end-to-end
    scenarios evaluated on concrete inputs, and the witnesses of the general
    properties.

  \<^bold>\<open>Errors.\<close>  Each \<open>expect\<close>, \<open>unwrap\<close>, \<open>?\<close>, index or slice panic of the
  source is a constructor of \<open>error\<close> (\<open>tar_error\<close> for the archive) and the
  functions return \<open>_ + _\<close>; loops stop at the first error as the panic does.
  Where effects happen before an error (\<open>install\<close>, \<open>run_from_build\<close>), the
  result pairs the effects performed with the error.

  \<^bold>\<open>Properties.\<close>  The blob round trip, where each entry lies in the blob,
  and that the count and lengths are written modulo \<open>2^32\<close> with no
  \<open>TooLarge\<close> check (C1-C3); the required-extension closure, the ignore list,
  bytecode compiled only from the final requests (C4-C6); that the names file
  one build writes reads back, through \<open>read_resource_names_file\<close>, as that
  build's module set (C7); the equivalence of \<open>filter_btreemap\<close> with a
  restriction and the refinement of the staging step to the abstract
  semantics (C8, C9); the table of the emitted \<open>config.c\<close>, read back (C10);
  the refinement of the glob filter rule to a restriction by the union of the
  names files (C11); the objects of \<open>pythonXY\<close>, the order of the linker
  directives and the exact failure condition of the linker (C12-C14).  The
  resolver: the virtualenv rule yields exactly the source modules of
  \<open>site-packages\<close> outside the excludes (C15), only add actions are emitted
  (C16), an unknown extension policy panics (C17), \<open>is_stdlib_test_package\<close>
  (C18), explicit includes (C19); the filter rules fail exactly on a missing or
  non-UTF-8 names file or a failed glob (C20).  The archive: the executable
  test reads exactly the three execute bits of the 32-bit mode (C21), the
  \<open>manifest.in\<close> round trip and parser (C22, C23), every manifest key is safe
  and the version file and components are checked (C24, C25), \<open>install\<close>
  writes only below its destination (C26) and copies a component's listed
  files in order up to the first missing one (C39).  The orchestrator: the
  blobs \<open>write_blobs\<close> writes decode back (C27), the names file (C28),
  \<open>derive_importlib\<close> (C29), the lack of escaping in the generated
  configuration (C30), the cargo directives of \<open>run_from_build\<close> (C31), the
  termination of the ancestor search with the first existing candidate (C38),
  and the copies and paths of \<open>process_config_and_copy_artifacts\<close> (C40).  The
  project layout: where \<open>update_new_cargo_toml\<close> inserts the build line and
  what it appends (C32), its errors (C33), the sorted, stable \<open>Cargo.lock\<close>
  package list (C34), confinement of \<open>initialize_project\<close> to the project
  directory (C35), the quote escaping of the embedded code (C36), and that
  \<open>initialize_project\<close> completes with all eight files written (C37).  The
  scenarios S1 to S6 of the specification (among them the \<open>python3.1\<close>
  site-packages directory of Python 3.10), a toolchain archive and an escaping
  archive are evaluated as lemmas of the scenario theories.

  \<^bold>\<open>Not modelled.\<close>  The bytecode compiler subprocess, the directory scanner,
  \<open>pip\<close>, \<open>glob\<close>, the C compiler, the tar reader and the decompressors are
  parameters (their results are inputs of every theorem); \<open>println!\<close> logging
  is omitted; the crates \<open>dist.rs\<close>, \<open>config.rs\<close> and \<open>fsscan.rs\<close> are not in
  the repository, and only the fields the engine reads of their types are
  modelled.  The text of the project templates is not in the repository, so a
  rendered template is an arbitrary string of the collaborator \<open>render\<close>.  No loop
  of the program is unbounded: every loop iterates a finite list, and the
  ancestor search of \<open>find_pyoxidizer_config_file\<close>, a \<open>partial_function\<close>,
  is proved to return on every path (C38), so no fuel is needed.
\<close>

end
